theory Spec2Isabelle
  imports Main "HOL-Library.Word"
begin

unbundle bit_operations_syntax

section \<open>Values\<close>

text \<open>
  The value representation of the engine (spec, section 3). A value is a simple constant,
  a number, a string or an object reference. Object references are compressed pointers;
  a null pointer is \<open>None\<close> of an option. Numbers are IEEE-754 doubles, kept here as
  their 64-bit pattern. Strings are compared by content, so a string descriptor is its
  character sequence.
\<close>

datatype ecma_simple_value_t =
    ECMA_SIMPLE_VALUE_EMPTY
  | ECMA_SIMPLE_VALUE_UNDEFINED
  | ECMA_SIMPLE_VALUE_NULL
  | ECMA_SIMPLE_VALUE_FALSE
  | ECMA_SIMPLE_VALUE_TRUE
  | ECMA_SIMPLE_VALUE_ARRAY_REDIRECT

type_synonym ecma_string_t = string
type_synonym ecma_object_ptr_t = nat
type_synonym ecma_number_t = "64 word"

datatype ecma_value_t =
    ECMA_TYPE_SIMPLE ecma_simple_value_t
  | ECMA_TYPE_NUMBER ecma_number_t
  | ECMA_TYPE_STRING ecma_string_t
  | ECMA_TYPE_OBJECT ecma_object_ptr_t

definition ecma_is_value_empty :: "ecma_value_t \<Rightarrow> bool" where
  "ecma_is_value_empty v = (v = ECMA_TYPE_SIMPLE ECMA_SIMPLE_VALUE_EMPTY)"

definition ecma_is_value_undefined :: "ecma_value_t \<Rightarrow> bool" where
  "ecma_is_value_undefined v = (v = ECMA_TYPE_SIMPLE ECMA_SIMPLE_VALUE_UNDEFINED)"

definition ecma_is_value_null :: "ecma_value_t \<Rightarrow> bool" where
  "ecma_is_value_null v = (v = ECMA_TYPE_SIMPLE ECMA_SIMPLE_VALUE_NULL)"

definition ecma_is_value_true :: "ecma_value_t \<Rightarrow> bool" where
  "ecma_is_value_true v = (v = ECMA_TYPE_SIMPLE ECMA_SIMPLE_VALUE_TRUE)"

definition ecma_is_value_boolean :: "ecma_value_t \<Rightarrow> bool" where
  "ecma_is_value_boolean v =
     (v = ECMA_TYPE_SIMPLE ECMA_SIMPLE_VALUE_TRUE \<or> v = ECMA_TYPE_SIMPLE ECMA_SIMPLE_VALUE_FALSE)"

fun ecma_is_value_number :: "ecma_value_t \<Rightarrow> bool" where
  "ecma_is_value_number (ECMA_TYPE_NUMBER _) = True"
| "ecma_is_value_number _ = False"

fun ecma_is_value_string :: "ecma_value_t \<Rightarrow> bool" where
  "ecma_is_value_string (ECMA_TYPE_STRING _) = True"
| "ecma_is_value_string _ = False"

fun ecma_is_value_object :: "ecma_value_t \<Rightarrow> bool" where
  "ecma_is_value_object (ECMA_TYPE_OBJECT _) = True"
| "ecma_is_value_object _ = False"

text \<open>
  Modelled from the spec: the number helpers of ecma-helpers-number.c (declared in
  ecma-helpers.h, bodies not in the sources at hand), on the bit pattern of a double:
  sign bit 63, exponent bits 62..52, fraction bits 51..0.
\<close>

definition ecma_number_is_nan :: "ecma_number_t \<Rightarrow> bool" where
  "ecma_number_is_nan w =
     (w AND 0x7FF0000000000000 = 0x7FF0000000000000 \<and> w AND 0x000FFFFFFFFFFFFF \<noteq> 0)"

definition ecma_number_is_zero :: "ecma_number_t \<Rightarrow> bool" where
  "ecma_number_is_zero w = (w AND 0x7FFFFFFFFFFFFFFF = 0)"

definition ecma_number_is_negative :: "ecma_number_t \<Rightarrow> bool" where
  "ecma_number_is_negative w = (w AND 0x8000000000000000 \<noteq> 0)"

text \<open>The comparison \<open>*x_num_p == *y_num_p\<close> of two doubles.\<close>

definition ecma_number_equal :: "ecma_number_t \<Rightarrow> ecma_number_t \<Rightarrow> bool" where
  "ecma_number_equal x y =
     (\<not> ecma_number_is_nan x \<and> \<not> ecma_number_is_nan y \<and>
      (x = y \<or> (ecma_number_is_zero x \<and> ecma_number_is_zero y)))"

section \<open>Completions\<close>

text \<open>
  Modelled from the spec: the completion type of ecma-globals.h (not in the sources at
  hand). A completion is a tag with a value. The empty completion is the normal
  completion that carries the empty value: the interpreter loop runs while the completion
  is normal, and the handlers end with \<open>ecma_make_empty_completion_value\<close>.
\<close>

datatype ecma_completion_type_t =
    ECMA_COMPLETION_TYPE_NORMAL
  | ECMA_COMPLETION_TYPE_RETURN
  | ECMA_COMPLETION_TYPE_THROW
  | ECMA_COMPLETION_TYPE_EXIT
  | ECMA_COMPLETION_TYPE_META

datatype ecma_completion_value_t =
  Completion (completion_type: ecma_completion_type_t) (completion_value: ecma_value_t)

definition ecma_make_normal_completion_value :: "ecma_value_t \<Rightarrow> ecma_completion_value_t" where
  "ecma_make_normal_completion_value v = Completion ECMA_COMPLETION_TYPE_NORMAL v"

definition ecma_make_simple_completion_value :: "ecma_simple_value_t \<Rightarrow> ecma_completion_value_t" where
  "ecma_make_simple_completion_value sv =
     Completion ECMA_COMPLETION_TYPE_NORMAL (ECMA_TYPE_SIMPLE sv)"

definition ecma_make_empty_completion_value :: ecma_completion_value_t where
  "ecma_make_empty_completion_value =
     Completion ECMA_COMPLETION_TYPE_NORMAL (ECMA_TYPE_SIMPLE ECMA_SIMPLE_VALUE_EMPTY)"

definition ecma_make_throw_completion_value :: "ecma_value_t \<Rightarrow> ecma_completion_value_t" where
  "ecma_make_throw_completion_value v = Completion ECMA_COMPLETION_TYPE_THROW v"

definition ecma_make_throw_obj_completion_value :: "ecma_object_ptr_t \<Rightarrow> ecma_completion_value_t" where
  "ecma_make_throw_obj_completion_value p = Completion ECMA_COMPLETION_TYPE_THROW (ECMA_TYPE_OBJECT p)"

definition ecma_make_return_completion_value :: "ecma_value_t \<Rightarrow> ecma_completion_value_t" where
  "ecma_make_return_completion_value v = Completion ECMA_COMPLETION_TYPE_RETURN v"

definition ecma_make_exit_completion_value :: "bool \<Rightarrow> ecma_completion_value_t" where
  "ecma_make_exit_completion_value is_successful =
     Completion ECMA_COMPLETION_TYPE_EXIT
       (ECMA_TYPE_SIMPLE (if is_successful then ECMA_SIMPLE_VALUE_TRUE else ECMA_SIMPLE_VALUE_FALSE))"

definition ecma_make_meta_completion_value :: ecma_completion_value_t where
  "ecma_make_meta_completion_value =
     Completion ECMA_COMPLETION_TYPE_META (ECMA_TYPE_SIMPLE ECMA_SIMPLE_VALUE_EMPTY)"

definition ecma_is_completion_value_normal :: "ecma_completion_value_t \<Rightarrow> bool" where
  "ecma_is_completion_value_normal c = (completion_type c = ECMA_COMPLETION_TYPE_NORMAL)"

definition ecma_is_completion_value_throw :: "ecma_completion_value_t \<Rightarrow> bool" where
  "ecma_is_completion_value_throw c = (completion_type c = ECMA_COMPLETION_TYPE_THROW)"

definition ecma_is_completion_value_return :: "ecma_completion_value_t \<Rightarrow> bool" where
  "ecma_is_completion_value_return c = (completion_type c = ECMA_COMPLETION_TYPE_RETURN)"

definition ecma_is_completion_value_exit :: "ecma_completion_value_t \<Rightarrow> bool" where
  "ecma_is_completion_value_exit c = (completion_type c = ECMA_COMPLETION_TYPE_EXIT)"

definition ecma_is_completion_value_meta :: "ecma_completion_value_t \<Rightarrow> bool" where
  "ecma_is_completion_value_meta c = (completion_type c = ECMA_COMPLETION_TYPE_META)"

definition ecma_is_completion_value_empty :: "ecma_completion_value_t \<Rightarrow> bool" where
  "ecma_is_completion_value_empty c =
     (ecma_is_completion_value_normal c \<and> ecma_is_value_empty (completion_value c))"

definition ecma_is_completion_value_normal_true :: "ecma_completion_value_t \<Rightarrow> bool" where
  "ecma_is_completion_value_normal_true c =
     (ecma_is_completion_value_normal c \<and> ecma_is_value_true (completion_value c))"

text \<open>
  A call either returns to its caller or ends the process: \<open>JERRY_ASSERT\<close> and
  \<open>JERRY_UNREACHABLE\<close> end it with \<open>ERR_FAILED_INTERNAL_ASSERTION\<close>, an unhandled
  exception with \<open>ERR_UNHANDLED_EXCEPTION\<close>. Where a call may also run forever, its
  model returns an option of an outcome, and \<open>None\<close> is the call that never returns.
\<close>

datatype jerry_status_t = ERR_FAILED_INTERNAL_ASSERTION | ERR_UNHANDLED_EXCEPTION

datatype 'a outcome = Returns 'a | Fatal jerry_status_t

section \<open>Objects, properties and the heap\<close>

text \<open>
  Modelled from the spec: the magic-string registry (spec, section 3 and glossary), for
  the identifiers the code below uses. The texts are those the spec gives: the six
  attribute names of a property descriptor, \<open>toString\<close> and \<open>valueOf\<close>, the class
  tags, and the results of \<open>typeof\<close>.
\<close>

datatype ecma_magic_string_id_t =
    ECMA_MAGIC_STRING_UNDEFINED
  | ECMA_MAGIC_STRING_NULL
  | ECMA_MAGIC_STRING_OBJECT
  | ECMA_MAGIC_STRING_BOOLEAN
  | ECMA_MAGIC_STRING_NUMBER
  | ECMA_MAGIC_STRING_STRING
  | ECMA_MAGIC_STRING_FUNCTION
  | ECMA_MAGIC_STRING_VALUE
  | ECMA_MAGIC_STRING_WRITABLE
  | ECMA_MAGIC_STRING_GET
  | ECMA_MAGIC_STRING_SET
  | ECMA_MAGIC_STRING_ENUMERABLE
  | ECMA_MAGIC_STRING_CONFIGURABLE
  | ECMA_MAGIC_STRING_TO_STRING_UL
  | ECMA_MAGIC_STRING_VALUE_OF_UL
  | ECMA_MAGIC_STRING_OBJECT_UL
  | ECMA_MAGIC_STRING_DATE_UL
  | ECMA_MAGIC_STRING_ERROR_UL
  | ECMA_MAGIC_STRING_ARRAY_UL
  | ECMA_MAGIC_STRING_FUNCTION_UL

fun ecma_get_magic_string :: "ecma_magic_string_id_t \<Rightarrow> ecma_string_t" where
  "ecma_get_magic_string ECMA_MAGIC_STRING_UNDEFINED = ''undefined''"
| "ecma_get_magic_string ECMA_MAGIC_STRING_NULL = ''null''"
| "ecma_get_magic_string ECMA_MAGIC_STRING_OBJECT = ''object''"
| "ecma_get_magic_string ECMA_MAGIC_STRING_BOOLEAN = ''boolean''"
| "ecma_get_magic_string ECMA_MAGIC_STRING_NUMBER = ''number''"
| "ecma_get_magic_string ECMA_MAGIC_STRING_STRING = ''string''"
| "ecma_get_magic_string ECMA_MAGIC_STRING_FUNCTION = ''function''"
| "ecma_get_magic_string ECMA_MAGIC_STRING_VALUE = ''value''"
| "ecma_get_magic_string ECMA_MAGIC_STRING_WRITABLE = ''writable''"
| "ecma_get_magic_string ECMA_MAGIC_STRING_GET = ''get''"
| "ecma_get_magic_string ECMA_MAGIC_STRING_SET = ''set''"
| "ecma_get_magic_string ECMA_MAGIC_STRING_ENUMERABLE = ''enumerable''"
| "ecma_get_magic_string ECMA_MAGIC_STRING_CONFIGURABLE = ''configurable''"
| "ecma_get_magic_string ECMA_MAGIC_STRING_TO_STRING_UL = ''toString''"
| "ecma_get_magic_string ECMA_MAGIC_STRING_VALUE_OF_UL = ''valueOf''"
| "ecma_get_magic_string ECMA_MAGIC_STRING_OBJECT_UL = ''Object''"
| "ecma_get_magic_string ECMA_MAGIC_STRING_DATE_UL = ''Date''"
| "ecma_get_magic_string ECMA_MAGIC_STRING_ERROR_UL = ''Error''"
| "ecma_get_magic_string ECMA_MAGIC_STRING_ARRAY_UL = ''Array''"
| "ecma_get_magic_string ECMA_MAGIC_STRING_FUNCTION_UL = ''Function''"

datatype ecma_internal_property_id_t =
    ECMA_INTERNAL_PROPERTY_CLASS
  | ECMA_INTERNAL_PROPERTY_SCOPE
  | ECMA_INTERNAL_PROPERTY_PRIMITIVE_VALUE

text \<open>
  The payload of an internal property is a 32-bit field. The class property keeps a
  magic-string identifier in it, which the code writes and reads back by a cast.
\<close>

datatype ecma_internal_property_value_t =
    ECMA_INTERNAL_VALUE_MAGIC_STRING ecma_magic_string_id_t
  | ECMA_INTERNAL_VALUE_UINT32 "32 word"

text \<open>
  A property node (spec, section 3): named data, named accessor or internal. The
  \<open>lcached\<close> flag of a named data property belongs to the property-name cache, which
  is outside this development.
\<close>

datatype ecma_property_t =
    ECMA_PROPERTY_NAMEDDATA ecma_string_t ecma_value_t bool bool bool
  | ECMA_PROPERTY_NAMEDACCESSOR ecma_string_t "ecma_object_ptr_t option"
      "ecma_object_ptr_t option" bool bool
  | ECMA_PROPERTY_INTERNAL ecma_internal_property_id_t ecma_internal_property_value_t

datatype ecma_object_type_t =
    ECMA_OBJECT_TYPE_GENERAL
  | ECMA_OBJECT_TYPE_FUNCTION
  | ECMA_OBJECT_TYPE_ARRAY
  | ECMA_OBJECT_TYPE_STRING
  | ECMA_OBJECT_TYPE_ARGUMENTS

record ecma_object_t =
  prototype_object_p :: "ecma_object_ptr_t option"
  is_extensible :: bool
  is_lexical_environment :: bool
  object_type :: ecma_object_type_t
  property_list :: "ecma_property_t list"

text \<open>
  The heap maps every compressed pointer to the object it addresses; \<open>next_object\<close>
  is the address the allocator hands out next.
\<close>

record ecma_heap =
  objects :: "ecma_object_ptr_t \<Rightarrow> ecma_object_t"
  next_object :: ecma_object_ptr_t

text \<open>
  A pointer to a property node is the object that owns the node together with the
  position of the node in the property list of that object.
\<close>

type_synonym ecma_property_ptr = "ecma_object_ptr_t \<times> nat"

section \<open>Helpers for objects and properties (ecma-helpers.c)\<close>

text \<open>
  Modelled from the spec: the helpers declared in ecma-helpers.h, whose bodies
  (ecma-helpers.c) are not in the sources at hand. The property list is a singly linked
  list searched from its head; a property is created at the head; deleting a property
  unlinks its node (spec, sections 3 and 4.4).
\<close>

definition ecma_is_lexical_environment :: "ecma_heap \<Rightarrow> ecma_object_ptr_t \<Rightarrow> bool" where
  "ecma_is_lexical_environment h object_p = is_lexical_environment (objects h object_p)"

definition ecma_get_object_extensible :: "ecma_heap \<Rightarrow> ecma_object_ptr_t \<Rightarrow> bool" where
  "ecma_get_object_extensible h object_p = is_extensible (objects h object_p)"

definition ecma_get_object_prototype :: "ecma_heap \<Rightarrow> ecma_object_ptr_t \<Rightarrow> ecma_object_ptr_t option" where
  "ecma_get_object_prototype h object_p = prototype_object_p (objects h object_p)"

definition ecma_get_property_list :: "ecma_heap \<Rightarrow> ecma_object_ptr_t \<Rightarrow> ecma_property_t list" where
  "ecma_get_property_list h object_p = property_list (objects h object_p)"

definition ecma_set_property_list ::
  "ecma_heap \<Rightarrow> ecma_object_ptr_t \<Rightarrow> ecma_property_t list \<Rightarrow> ecma_heap" where
  "ecma_set_property_list h object_p ps =
     h\<lparr>objects := (objects h)(object_p := (objects h object_p)\<lparr>property_list := ps\<rparr>)\<rparr>"

text \<open>The node a property pointer addresses.\<close>

definition ecma_property_at :: "ecma_heap \<Rightarrow> ecma_property_ptr \<Rightarrow> ecma_property_t" where
  "ecma_property_at h prop_p = ecma_get_property_list h (fst prop_p) ! snd prop_p"

definition ecma_update_property ::
  "ecma_heap \<Rightarrow> ecma_property_ptr \<Rightarrow> (ecma_property_t \<Rightarrow> ecma_property_t) \<Rightarrow> ecma_heap" where
  "ecma_update_property h prop_p f =
     ecma_set_property_list h (fst prop_p)
       ((ecma_get_property_list h (fst prop_p))[snd prop_p := f (ecma_property_at h prop_p)])"

fun ecma_property_has_name :: "ecma_property_t \<Rightarrow> ecma_string_t \<Rightarrow> bool" where
  "ecma_property_has_name (ECMA_PROPERTY_NAMEDDATA nm v w e c) name_p = (nm = name_p)"
| "ecma_property_has_name (ECMA_PROPERTY_NAMEDACCESSOR nm g s e c) name_p = (nm = name_p)"
| "ecma_property_has_name (ECMA_PROPERTY_INTERNAL i v) name_p = False"

fun find_named_property_in :: "ecma_property_t list \<Rightarrow> ecma_string_t \<Rightarrow> nat option" where
  "find_named_property_in [] name_p = None"
| "find_named_property_in (p # ps) name_p =
     (if ecma_property_has_name p name_p then Some 0
      else map_option Suc (find_named_property_in ps name_p))"

definition ecma_find_named_property ::
  "ecma_heap \<Rightarrow> ecma_object_ptr_t \<Rightarrow> ecma_string_t \<Rightarrow> ecma_property_ptr option" where
  "ecma_find_named_property h obj_p name_p =
     map_option (\<lambda>i. (obj_p, i)) (find_named_property_in (ecma_get_property_list h obj_p) name_p)"

fun ecma_property_has_internal_id :: "ecma_property_t \<Rightarrow> ecma_internal_property_id_t \<Rightarrow> bool" where
  "ecma_property_has_internal_id (ECMA_PROPERTY_INTERNAL i v) property_id = (i = property_id)"
| "ecma_property_has_internal_id (ECMA_PROPERTY_NAMEDDATA nm v w e c) property_id = False"
| "ecma_property_has_internal_id (ECMA_PROPERTY_NAMEDACCESSOR nm g s e c) property_id = False"

fun find_internal_property_in ::
  "ecma_property_t list \<Rightarrow> ecma_internal_property_id_t \<Rightarrow> nat option" where
  "find_internal_property_in [] property_id = None"
| "find_internal_property_in (p # ps) property_id =
     (if ecma_property_has_internal_id p property_id then Some 0
      else map_option Suc (find_internal_property_in ps property_id))"

definition ecma_find_internal_property ::
  "ecma_heap \<Rightarrow> ecma_object_ptr_t \<Rightarrow> ecma_internal_property_id_t \<Rightarrow> ecma_property_ptr option" where
  "ecma_find_internal_property h object_p property_id =
     map_option (\<lambda>i. (object_p, i))
       (find_internal_property_in (ecma_get_property_list h object_p) property_id)"

text \<open>\<open>ecma_get_internal_property\<close> is the lookup that requires the property to exist.\<close>

definition ecma_get_internal_property ::
  "ecma_heap \<Rightarrow> ecma_object_ptr_t \<Rightarrow> ecma_internal_property_id_t \<Rightarrow> ecma_property_ptr outcome" where
  "ecma_get_internal_property h object_p property_id =
     (case ecma_find_internal_property h object_p property_id of
        None \<Rightarrow> Fatal ERR_FAILED_INTERNAL_ASSERTION
      | Some prop_p \<Rightarrow> Returns prop_p)"

fun internal_property_value :: "ecma_property_t \<Rightarrow> ecma_internal_property_value_t" where
  "internal_property_value (ECMA_PROPERTY_INTERNAL i v) = v"
| "internal_property_value (ECMA_PROPERTY_NAMEDDATA nm v w e c) = ECMA_INTERNAL_VALUE_UINT32 0"
| "internal_property_value (ECMA_PROPERTY_NAMEDACCESSOR nm g s e c) = ECMA_INTERNAL_VALUE_UINT32 0"

fun set_internal_property_value ::
  "ecma_internal_property_value_t \<Rightarrow> ecma_property_t \<Rightarrow> ecma_property_t" where
  "set_internal_property_value x (ECMA_PROPERTY_INTERNAL i v) = ECMA_PROPERTY_INTERNAL i x"
| "set_internal_property_value x (ECMA_PROPERTY_NAMEDDATA nm v w e c) = ECMA_PROPERTY_NAMEDDATA nm v w e c"
| "set_internal_property_value x (ECMA_PROPERTY_NAMEDACCESSOR nm g s e c) =
     ECMA_PROPERTY_NAMEDACCESSOR nm g s e c"

definition ecma_create_object ::
  "ecma_heap \<Rightarrow> ecma_object_ptr_t option \<Rightarrow> bool \<Rightarrow> ecma_object_type_t
     \<Rightarrow> ecma_object_ptr_t \<times> ecma_heap" where
  "ecma_create_object h prototype_p extensible type =
     (next_object h,
      h\<lparr>objects := (objects h)(next_object h :=
           \<lparr>prototype_object_p = prototype_p, is_extensible = extensible,
            is_lexical_environment = False, object_type = type, property_list = []\<rparr>),
        next_object := Suc (next_object h)\<rparr>)"

definition ecma_create_internal_property ::
  "ecma_heap \<Rightarrow> ecma_object_ptr_t \<Rightarrow> ecma_internal_property_id_t \<Rightarrow> ecma_property_ptr \<times> ecma_heap" where
  "ecma_create_internal_property h object_p property_id =
     ((object_p, 0),
      ecma_set_property_list h object_p
        (ECMA_PROPERTY_INTERNAL property_id (ECMA_INTERNAL_VALUE_UINT32 0)
           # ecma_get_property_list h object_p))"

definition ecma_create_named_data_property ::
  "ecma_heap \<Rightarrow> ecma_object_ptr_t \<Rightarrow> ecma_string_t \<Rightarrow> bool \<Rightarrow> bool \<Rightarrow> bool
     \<Rightarrow> ecma_property_ptr \<times> ecma_heap" where
  "ecma_create_named_data_property h obj_p name_p writable enumerable configurable =
     ((obj_p, 0),
      ecma_set_property_list h obj_p
        (ECMA_PROPERTY_NAMEDDATA name_p (ECMA_TYPE_SIMPLE ECMA_SIMPLE_VALUE_UNDEFINED)
           writable enumerable configurable # ecma_get_property_list h obj_p))"

definition ecma_create_named_accessor_property ::
  "ecma_heap \<Rightarrow> ecma_object_ptr_t \<Rightarrow> ecma_string_t \<Rightarrow> ecma_object_ptr_t option
     \<Rightarrow> ecma_object_ptr_t option \<Rightarrow> bool \<Rightarrow> bool \<Rightarrow> ecma_property_ptr \<times> ecma_heap" where
  "ecma_create_named_accessor_property h obj_p name_p get_p set_p enumerable configurable =
     ((obj_p, 0),
      ecma_set_property_list h obj_p
        (ECMA_PROPERTY_NAMEDACCESSOR name_p get_p set_p enumerable configurable
           # ecma_get_property_list h obj_p))"

definition ecma_delete_property :: "ecma_heap \<Rightarrow> ecma_property_ptr \<Rightarrow> ecma_heap" where
  "ecma_delete_property h prop_p =
     ecma_set_property_list h (fst prop_p)
       (take (snd prop_p) (ecma_get_property_list h (fst prop_p))
          @ drop (Suc (snd prop_p)) (ecma_get_property_list h (fst prop_p)))"

fun property_is_named_data :: "ecma_property_t \<Rightarrow> bool" where
  "property_is_named_data (ECMA_PROPERTY_NAMEDDATA nm v w e c) = True"
| "property_is_named_data (ECMA_PROPERTY_NAMEDACCESSOR nm g s e c) = False"
| "property_is_named_data (ECMA_PROPERTY_INTERNAL i v) = False"

fun property_is_named_accessor :: "ecma_property_t \<Rightarrow> bool" where
  "property_is_named_accessor (ECMA_PROPERTY_NAMEDACCESSOR nm g s e c) = True"
| "property_is_named_accessor (ECMA_PROPERTY_NAMEDDATA nm v w e c) = False"
| "property_is_named_accessor (ECMA_PROPERTY_INTERNAL i v) = False"

fun ecma_get_named_data_property_value :: "ecma_property_t \<Rightarrow> ecma_value_t" where
  "ecma_get_named_data_property_value (ECMA_PROPERTY_NAMEDDATA nm v w e c) = v"
| "ecma_get_named_data_property_value (ECMA_PROPERTY_NAMEDACCESSOR nm g s e c) =
     ECMA_TYPE_SIMPLE ECMA_SIMPLE_VALUE_EMPTY"
| "ecma_get_named_data_property_value (ECMA_PROPERTY_INTERNAL i v) =
     ECMA_TYPE_SIMPLE ECMA_SIMPLE_VALUE_EMPTY"

fun named_accessor_property_get_p :: "ecma_property_t \<Rightarrow> ecma_object_ptr_t option" where
  "named_accessor_property_get_p (ECMA_PROPERTY_NAMEDACCESSOR nm g s e c) = g"
| "named_accessor_property_get_p (ECMA_PROPERTY_NAMEDDATA nm v w e c) = None"
| "named_accessor_property_get_p (ECMA_PROPERTY_INTERNAL i v) = None"

fun named_accessor_property_set_p :: "ecma_property_t \<Rightarrow> ecma_object_ptr_t option" where
  "named_accessor_property_set_p (ECMA_PROPERTY_NAMEDACCESSOR nm g s e c) = s"
| "named_accessor_property_set_p (ECMA_PROPERTY_NAMEDDATA nm v w e c) = None"
| "named_accessor_property_set_p (ECMA_PROPERTY_INTERNAL i v) = None"

fun ecma_is_property_writable :: "ecma_property_t \<Rightarrow> bool" where
  "ecma_is_property_writable (ECMA_PROPERTY_NAMEDDATA nm v w e c) = w"
| "ecma_is_property_writable (ECMA_PROPERTY_NAMEDACCESSOR nm g s e c) = False"
| "ecma_is_property_writable (ECMA_PROPERTY_INTERNAL i v) = False"

fun ecma_is_property_enumerable :: "ecma_property_t \<Rightarrow> bool" where
  "ecma_is_property_enumerable (ECMA_PROPERTY_NAMEDDATA nm v w e c) = e"
| "ecma_is_property_enumerable (ECMA_PROPERTY_NAMEDACCESSOR nm g s e c) = e"
| "ecma_is_property_enumerable (ECMA_PROPERTY_INTERNAL i v) = False"

fun ecma_is_property_configurable :: "ecma_property_t \<Rightarrow> bool" where
  "ecma_is_property_configurable (ECMA_PROPERTY_NAMEDDATA nm v w e c) = c"
| "ecma_is_property_configurable (ECMA_PROPERTY_NAMEDACCESSOR nm g s e c) = c"
| "ecma_is_property_configurable (ECMA_PROPERTY_INTERNAL i v) = False"

fun set_named_data_value :: "ecma_value_t \<Rightarrow> ecma_property_t \<Rightarrow> ecma_property_t" where
  "set_named_data_value x (ECMA_PROPERTY_NAMEDDATA nm v w e c) = ECMA_PROPERTY_NAMEDDATA nm x w e c"
| "set_named_data_value x (ECMA_PROPERTY_NAMEDACCESSOR nm g s e c) = ECMA_PROPERTY_NAMEDACCESSOR nm g s e c"
| "set_named_data_value x (ECMA_PROPERTY_INTERNAL i v) = ECMA_PROPERTY_INTERNAL i v"

fun set_writable :: "bool \<Rightarrow> ecma_property_t \<Rightarrow> ecma_property_t" where
  "set_writable x (ECMA_PROPERTY_NAMEDDATA nm v w e c) = ECMA_PROPERTY_NAMEDDATA nm v x e c"
| "set_writable x (ECMA_PROPERTY_NAMEDACCESSOR nm g s e c) = ECMA_PROPERTY_NAMEDACCESSOR nm g s e c"
| "set_writable x (ECMA_PROPERTY_INTERNAL i v) = ECMA_PROPERTY_INTERNAL i v"

fun set_enumerable :: "bool \<Rightarrow> ecma_property_t \<Rightarrow> ecma_property_t" where
  "set_enumerable x (ECMA_PROPERTY_NAMEDDATA nm v w e c) = ECMA_PROPERTY_NAMEDDATA nm v w x c"
| "set_enumerable x (ECMA_PROPERTY_NAMEDACCESSOR nm g s e c) = ECMA_PROPERTY_NAMEDACCESSOR nm g s x c"
| "set_enumerable x (ECMA_PROPERTY_INTERNAL i v) = ECMA_PROPERTY_INTERNAL i v"

fun set_configurable :: "bool \<Rightarrow> ecma_property_t \<Rightarrow> ecma_property_t" where
  "set_configurable x (ECMA_PROPERTY_NAMEDDATA nm v w e c) = ECMA_PROPERTY_NAMEDDATA nm v w e x"
| "set_configurable x (ECMA_PROPERTY_NAMEDACCESSOR nm g s e c) = ECMA_PROPERTY_NAMEDACCESSOR nm g s e x"
| "set_configurable x (ECMA_PROPERTY_INTERNAL i v) = ECMA_PROPERTY_INTERNAL i v"

fun set_accessor_get_p :: "ecma_object_ptr_t option \<Rightarrow> ecma_property_t \<Rightarrow> ecma_property_t" where
  "set_accessor_get_p x (ECMA_PROPERTY_NAMEDACCESSOR nm g s e c) = ECMA_PROPERTY_NAMEDACCESSOR nm x s e c"
| "set_accessor_get_p x (ECMA_PROPERTY_NAMEDDATA nm v w e c) = ECMA_PROPERTY_NAMEDDATA nm v w e c"
| "set_accessor_get_p x (ECMA_PROPERTY_INTERNAL i v) = ECMA_PROPERTY_INTERNAL i v"

fun set_accessor_set_p :: "ecma_object_ptr_t option \<Rightarrow> ecma_property_t \<Rightarrow> ecma_property_t" where
  "set_accessor_set_p x (ECMA_PROPERTY_NAMEDACCESSOR nm g s e c) = ECMA_PROPERTY_NAMEDACCESSOR nm g x e c"
| "set_accessor_set_p x (ECMA_PROPERTY_NAMEDDATA nm v w e c) = ECMA_PROPERTY_NAMEDDATA nm v w e c"
| "set_accessor_set_p x (ECMA_PROPERTY_INTERNAL i v) = ECMA_PROPERTY_INTERNAL i v"

definition ecma_named_data_property_assign_value ::
  "ecma_heap \<Rightarrow> ecma_property_ptr \<Rightarrow> ecma_value_t \<Rightarrow> ecma_heap" where
  "ecma_named_data_property_assign_value h prop_p v = ecma_update_property h prop_p (set_named_data_value v)"

definition ecma_set_property_writable_attr :: "ecma_heap \<Rightarrow> ecma_property_ptr \<Rightarrow> bool \<Rightarrow> ecma_heap" where
  "ecma_set_property_writable_attr h prop_p x = ecma_update_property h prop_p (set_writable x)"

definition ecma_set_property_enumerable_attr :: "ecma_heap \<Rightarrow> ecma_property_ptr \<Rightarrow> bool \<Rightarrow> ecma_heap" where
  "ecma_set_property_enumerable_attr h prop_p x = ecma_update_property h prop_p (set_enumerable x)"

definition ecma_set_property_configurable_attr :: "ecma_heap \<Rightarrow> ecma_property_ptr \<Rightarrow> bool \<Rightarrow> ecma_heap" where
  "ecma_set_property_configurable_attr h prop_p x = ecma_update_property h prop_p (set_configurable x)"

section \<open>Property descriptors\<close>

record ecma_property_descriptor_t =
  is_value_defined :: bool
  is_get_defined :: bool
  is_set_defined :: bool
  is_writable_defined :: bool
  is_writable :: bool
  is_enumerable_defined :: bool
  is_enumerable :: bool
  is_configurable_defined :: bool
  is_configurable :: bool
  desc_value :: ecma_value_t
  desc_get_p :: "ecma_object_ptr_t option"
  desc_set_p :: "ecma_object_ptr_t option"

text \<open>
  Modelled from the spec: \<open>ecma_make_empty_property_descriptor\<close> (ecma-helpers.c, not in
  the sources at hand). "An empty descriptor has all flags false" (spec, section 3).
\<close>

definition ecma_make_empty_property_descriptor :: ecma_property_descriptor_t where
  "ecma_make_empty_property_descriptor =
     \<lparr>is_value_defined = False, is_get_defined = False, is_set_defined = False,
      is_writable_defined = False, is_writable = False,
      is_enumerable_defined = False, is_enumerable = False,
      is_configurable_defined = False, is_configurable = False,
      desc_value = ECMA_TYPE_SIMPLE ECMA_SIMPLE_VALUE_UNDEFINED,
      desc_get_p = None, desc_set_p = None\<rparr>"

section \<open>Collaborators outside the sources at hand\<close>

datatype ecma_builtin_id_t = ECMA_BUILTIN_ID_GLOBAL | ECMA_BUILTIN_ID_OBJECT_PROTOTYPE

datatype ecma_standard_error_t = ECMA_ERROR_TYPE | ECMA_ERROR_REFERENCE

text \<open>
  The object operations call into parts of the engine whose code is not in the sources at
  hand: the built-in registry, the construction of standard error objects
  (ecma-exceptions.c), the release of a property descriptor (ecma-helpers.c), and \<open>[[Call]]\<close> with the test for callability
  (ecma-function-object.c, declared in ecma-function-object.h). They are parameters of
  the model. A call runs the interpreter, so it may change the heap, end the process, or
  never return.
\<close>

record ecma_ext =
  ecma_builtin_get :: "ecma_builtin_id_t \<Rightarrow> ecma_object_ptr_t"
  ecma_new_standard_error :: "ecma_standard_error_t \<Rightarrow> ecma_heap \<Rightarrow> ecma_object_ptr_t \<times> ecma_heap"
  ecma_op_is_callable :: "ecma_heap \<Rightarrow> ecma_value_t \<Rightarrow> bool"
  ecma_free_property_descriptor :: "ecma_property_descriptor_t \<Rightarrow> ecma_property_descriptor_t"
  ecma_op_function_call ::
    "ecma_heap \<Rightarrow> ecma_object_ptr_t \<Rightarrow> ecma_value_t \<Rightarrow> ecma_value_t list
       \<Rightarrow> (ecma_completion_value_t \<times> ecma_heap) outcome option"

text \<open>
  Modelled from the spec: \<open>ECMA_TRY_CATCH\<close> ... \<open>ECMA_FINALIZE\<close> of
  ecma-try-catch-macro.h (not in the sources at hand). The operation runs; a completion
  that is not normal becomes the return value and the block is skipped ("every
  non-normal completion is propagated", spec, section 7); otherwise the block runs with
  the value of the completion. The statements after \<open>ECMA_FINALIZE\<close> run in both cases
  and are written out where the macro is used.
\<close>

definition ECMA_TRY_CATCH ::
  "(ecma_completion_value_t \<times> 's) outcome option
     \<Rightarrow> (ecma_value_t \<Rightarrow> 's \<Rightarrow> (ecma_completion_value_t \<times> 's) outcome option)
     \<Rightarrow> (ecma_completion_value_t \<times> 's) outcome option" where
  "ECMA_TRY_CATCH op block =
     (case op of
        None \<Rightarrow> None
      | Some (Fatal e) \<Rightarrow> Some (Fatal e)
      | Some (Returns (completion, s)) \<Rightarrow>
          if ecma_is_completion_value_normal completion then block (completion_value completion) s
          else Some (Returns (completion, s)))"

section \<open>Conversion routines: SameValue (ecma-conversion.c)\<close>

definition ecma_op_same_value :: "ecma_value_t \<Rightarrow> ecma_value_t \<Rightarrow> bool" where
  "ecma_op_same_value x y =
     (let is_x_undefined = ecma_is_value_undefined x;
          is_x_null = ecma_is_value_null x;
          is_x_boolean = ecma_is_value_boolean x;
          is_x_number = ecma_is_value_number x;
          is_x_string = ecma_is_value_string x;
          is_x_object = ecma_is_value_object x;
          is_y_undefined = ecma_is_value_undefined y;
          is_y_null = ecma_is_value_null y;
          is_y_boolean = ecma_is_value_boolean y;
          is_y_number = ecma_is_value_number y;
          is_y_string = ecma_is_value_string y;
          is_y_object = ecma_is_value_object y;
          is_types_equal = ((is_x_undefined \<and> is_y_undefined)
                            \<or> (is_x_null \<and> is_y_null)
                            \<or> (is_x_boolean \<and> is_y_boolean)
                            \<or> (is_x_number \<and> is_y_number)
                            \<or> (is_x_string \<and> is_y_string)
                            \<or> (is_x_object \<and> is_y_object))
      in if \<not> is_types_equal then False
         else if is_x_undefined \<or> is_x_null then True
         else (case (x, y) of
                 (ECMA_TYPE_NUMBER x_num, ECMA_TYPE_NUMBER y_num) \<Rightarrow>
                   if ecma_number_is_nan x_num \<and> ecma_number_is_nan y_num then True
                   else if ecma_number_is_zero x_num \<and> ecma_number_is_zero y_num
                           \<and> ecma_number_is_negative x_num \<noteq> ecma_number_is_negative y_num
                   then False
                   else ecma_number_equal x_num y_num
               | (ECMA_TYPE_STRING x_str, ECMA_TYPE_STRING y_str) \<Rightarrow> x_str = y_str
               | (ECMA_TYPE_OBJECT x_obj, ECMA_TYPE_OBJECT y_obj) \<Rightarrow> x_obj = y_obj
               | _ \<Rightarrow> ecma_is_value_true x = ecma_is_value_true y))"

section \<open>General object operations (ecma-objects-general.c)\<close>

definition ecma_reject :: "ecma_ext \<Rightarrow> ecma_heap \<Rightarrow> bool \<Rightarrow> ecma_completion_value_t \<times> ecma_heap" where
  "ecma_reject ext h is_throw =
     (if is_throw then
        (case ecma_new_standard_error ext ECMA_ERROR_TYPE h of
           (exception_obj_p, h') \<Rightarrow> (ecma_make_throw_obj_completion_value exception_obj_p, h'))
      else (ecma_make_simple_completion_value ECMA_SIMPLE_VALUE_FALSE, h))"

definition ecma_op_create_object_object_noarg ::
  "ecma_ext \<Rightarrow> ecma_heap \<Rightarrow> ecma_object_ptr_t \<times> ecma_heap" where
  "ecma_op_create_object_object_noarg ext h =
     (let object_prototype_p = ecma_builtin_get ext ECMA_BUILTIN_ID_OBJECT_PROTOTYPE in
      case ecma_create_object h (Some object_prototype_p) True ECMA_OBJECT_TYPE_GENERAL of
        (obj_p, h1) \<Rightarrow>
          (case ecma_create_internal_property h1 obj_p ECMA_INTERNAL_PROPERTY_CLASS of
             (class_prop_p, h2) \<Rightarrow>
               (obj_p,
                ecma_update_property h2 class_prop_p
                  (set_internal_property_value
                     (ECMA_INTERNAL_VALUE_MAGIC_STRING ECMA_MAGIC_STRING_OBJECT_UL)))))"

definition ecma_op_general_object_get_own_property ::
  "ecma_heap \<Rightarrow> ecma_object_ptr_t \<Rightarrow> ecma_string_t \<Rightarrow> ecma_property_ptr option outcome" where
  "ecma_op_general_object_get_own_property h obj_p property_name_p =
     (if ecma_is_lexical_environment h obj_p then Fatal ERR_FAILED_INTERNAL_ASSERTION
      else Returns (ecma_find_named_property h obj_p property_name_p))"

text \<open>
  Modelled from the spec: the \<open>ecma_op_object_*\<close> entry points of ecma-objects.c
  (declared in ecma-objects.h, bodies not in the sources at hand) choose the routine by
  the type of the object. The spec (section 4.4) gives one algorithm per operation, the
  general one, and that is what the entry points are here.
\<close>

definition ecma_op_object_get_own_property ::
  "ecma_heap \<Rightarrow> ecma_object_ptr_t \<Rightarrow> ecma_string_t \<Rightarrow> ecma_property_ptr option outcome" where
  "ecma_op_object_get_own_property = ecma_op_general_object_get_own_property"

text \<open>
  \<open>[[GetProperty]]\<close> walks the prototype chain by recursion through
  \<open>ecma_op_object_get_property\<close>. The code has no bound on the walk: on a cyclic chain
  without the property it does not return, which is \<open>None\<close> here.
\<close>

partial_function (option) ecma_op_general_object_get_property ::
  "ecma_heap \<Rightarrow> ecma_object_ptr_t \<Rightarrow> ecma_string_t \<Rightarrow> ecma_property_ptr option outcome option" where
  "ecma_op_general_object_get_property h obj_p property_name_p =
     (if ecma_is_lexical_environment h obj_p then Some (Fatal ERR_FAILED_INTERNAL_ASSERTION)
      else
        (case ecma_op_object_get_own_property h obj_p property_name_p of
           Fatal e \<Rightarrow> Some (Fatal e)
         | Returns (Some prop_p) \<Rightarrow> Some (Returns (Some prop_p))
         | Returns None \<Rightarrow>
             (case ecma_get_object_prototype h obj_p of
                Some prototype_p \<Rightarrow> ecma_op_general_object_get_property h prototype_p property_name_p
              | None \<Rightarrow> Some (Returns None))))"

definition ecma_op_object_get_property ::
  "ecma_heap \<Rightarrow> ecma_object_ptr_t \<Rightarrow> ecma_string_t \<Rightarrow> ecma_property_ptr option outcome option" where
  "ecma_op_object_get_property = ecma_op_general_object_get_property"

subsection \<open>[[DefineOwnProperty]]\<close>

definition is_property_desc_generic_descriptor :: "ecma_property_descriptor_t \<Rightarrow> bool" where
  "is_property_desc_generic_descriptor property_desc_p =
     (\<not> is_value_defined property_desc_p \<and> \<not> is_writable_defined property_desc_p
      \<and> \<not> is_get_defined property_desc_p \<and> \<not> is_set_defined property_desc_p)"

definition is_property_desc_data_descriptor :: "ecma_property_descriptor_t \<Rightarrow> bool" where
  "is_property_desc_data_descriptor property_desc_p =
     (is_value_defined property_desc_p \<or> is_writable_defined property_desc_p)"

definition is_property_desc_accessor_descriptor :: "ecma_property_descriptor_t \<Rightarrow> bool" where
  "is_property_desc_accessor_descriptor property_desc_p =
     (is_get_defined property_desc_p \<or> is_set_defined property_desc_p)"

text \<open>
  Steps 3 and 4 of \<open>ecma_op_general_object_define_own_property\<close>: the object has no own
  property of the name.
\<close>

definition define_own_property_steps_3_4 ::
  "ecma_ext \<Rightarrow> ecma_heap \<Rightarrow> ecma_object_ptr_t \<Rightarrow> ecma_string_t \<Rightarrow> ecma_property_descriptor_t
     \<Rightarrow> bool \<Rightarrow> bool \<Rightarrow> (ecma_completion_value_t \<times> ecma_heap) outcome" where
  "define_own_property_steps_3_4 ext h obj_p property_name_p property_desc_p is_throw extensible =
     (if \<not> extensible then Returns (ecma_reject ext h is_throw)
      else if is_property_desc_generic_descriptor property_desc_p
              \<or> is_property_desc_data_descriptor property_desc_p then
        (case ecma_create_named_data_property h obj_p property_name_p
                (is_writable property_desc_p) (is_enumerable property_desc_p)
                (is_configurable property_desc_p) of
           (new_prop_p, h1) \<Rightarrow>
             Returns (ecma_make_simple_completion_value ECMA_SIMPLE_VALUE_TRUE,
                      ecma_named_data_property_assign_value h1 new_prop_p (desc_value property_desc_p)))
      else if \<not> is_property_desc_accessor_descriptor property_desc_p then
        Fatal ERR_FAILED_INTERNAL_ASSERTION
      else
        (case ecma_create_named_accessor_property h obj_p property_name_p
                (desc_get_p property_desc_p) (desc_set_p property_desc_p)
                (is_enumerable property_desc_p) (is_configurable property_desc_p) of
           (new_prop_p, h1) \<Rightarrow>
             Returns (ecma_make_simple_completion_value ECMA_SIMPLE_VALUE_TRUE, h1)))"

text \<open>
  The flag \<open>is_every_field_in_desc_also_occurs_in_current_desc_with_same_value\<close> of
  step 6, as the six tests compute it.
\<close>

definition is_every_field_in_desc_also_occurs_in_current_desc_with_same_value ::
  "ecma_property_descriptor_t \<Rightarrow> ecma_property_t \<Rightarrow> bool" where
  "is_every_field_in_desc_also_occurs_in_current_desc_with_same_value property_desc_p current =
     ((if is_value_defined property_desc_p then
         property_is_named_data current
         \<and> ecma_op_same_value (desc_value property_desc_p) (ecma_get_named_data_property_value current)
       else True)
      \<and> (if is_writable_defined property_desc_p then
            property_is_named_data current
            \<and> is_writable property_desc_p = ecma_is_property_writable current
          else True)
      \<and> (if is_get_defined property_desc_p then
            property_is_named_accessor current
            \<and> desc_get_p property_desc_p = named_accessor_property_get_p current
          else True)
      \<and> (if is_set_defined property_desc_p then
            property_is_named_accessor current
            \<and> desc_set_p property_desc_p = named_accessor_property_set_p current
          else True)
      \<and> (if is_enumerable_defined property_desc_p then
            is_enumerable property_desc_p = ecma_is_property_enumerable current
          else True)
      \<and> (if is_configurable_defined property_desc_p then
            is_configurable property_desc_p = ecma_is_property_configurable current
          else True))"

text \<open>
  Steps 5 to 11: the object has the own property \<open>current_p\<close>. The result is either the
  completion the function returns with (\<open>Inl\<close>), or the heap and the node that step 12
  goes on with (\<open>Inr\<close>). In step 9 the attributes handed to the new node are read
  through \<open>current_p\<close> after \<open>ecma_delete_property\<close> has unlinked that node; the
  model reads the node as it was when it was unlinked.
\<close>

definition define_own_property_steps_5_11 ::
  "ecma_ext \<Rightarrow> ecma_heap \<Rightarrow> ecma_object_ptr_t \<Rightarrow> ecma_string_t \<Rightarrow> ecma_property_descriptor_t
     \<Rightarrow> bool \<Rightarrow> ecma_property_ptr
     \<Rightarrow> ((ecma_completion_value_t \<times> ecma_heap) + (ecma_heap \<times> ecma_property_ptr)) outcome" where
  "define_own_property_steps_5_11 ext h obj_p property_name_p property_desc_p is_throw current_p =
     (let current = ecma_property_at h current_p;
          is_current_data_descriptor = property_is_named_data current;
          is_current_accessor_descriptor = property_is_named_accessor current
      in
      if is_property_desc_generic_descriptor property_desc_p
         \<and> \<not> is_enumerable_defined property_desc_p
         \<and> \<not> is_configurable_defined property_desc_p then
        Returns (Inl (ecma_make_simple_completion_value ECMA_SIMPLE_VALUE_TRUE, h))
      else if \<not> (is_current_data_descriptor \<or> is_current_accessor_descriptor) then
        Fatal ERR_FAILED_INTERNAL_ASSERTION
      else if is_every_field_in_desc_also_occurs_in_current_desc_with_same_value
                property_desc_p current then
        Returns (Inl (ecma_make_simple_completion_value ECMA_SIMPLE_VALUE_TRUE, h))
      else if \<not> ecma_is_property_configurable current
              \<and> (is_configurable property_desc_p
                   \<or> (is_enumerable_defined property_desc_p
                       \<and> is_enumerable property_desc_p \<noteq> ecma_is_property_enumerable current)) then
        Returns (Inl (ecma_reject ext h is_throw))
      else if is_property_desc_generic_descriptor property_desc_p then
        Returns (Inr (h, current_p))
      else if is_property_desc_data_descriptor property_desc_p \<noteq> is_current_data_descriptor then
        (if \<not> ecma_is_property_configurable current then
           Returns (Inl (ecma_reject ext h is_throw))
         else
           (let h1 = ecma_delete_property h current_p in
            if is_current_data_descriptor then
              (case ecma_create_named_accessor_property h1 obj_p property_name_p None None
                      (ecma_is_property_enumerable current)
                      (ecma_is_property_configurable current) of
                 (new_p, h2) \<Rightarrow> Returns (Inr (h2, new_p)))
            else
              (case ecma_create_named_data_property h1 obj_p property_name_p False
                      (ecma_is_property_enumerable current)
                      (ecma_is_property_configurable current) of
                 (new_p, h2) \<Rightarrow> Returns (Inr (h2, new_p)))))
      else if is_property_desc_data_descriptor property_desc_p \<and> is_current_data_descriptor then
        (if \<not> ecma_is_property_configurable current \<and> \<not> ecma_is_property_writable current then
           (if is_writable property_desc_p then
              Returns (Inl (ecma_reject ext h is_throw))
            else if is_value_defined property_desc_p
                    \<and> \<not> ecma_op_same_value (desc_value property_desc_p)
                           (ecma_get_named_data_property_value current) then
              Returns (Inl (ecma_reject ext h is_throw))
            else Returns (Inr (h, current_p)))
         else Returns (Inr (h, current_p)))
      else if \<not> (is_property_desc_accessor_descriptor property_desc_p
                   \<and> is_current_accessor_descriptor) then
        Fatal ERR_FAILED_INTERNAL_ASSERTION
      else if \<not> ecma_is_property_configurable current
              \<and> ((is_get_defined property_desc_p
                    \<and> desc_get_p property_desc_p \<noteq> named_accessor_property_get_p current)
                   \<or> (is_set_defined property_desc_p
                       \<and> desc_set_p property_desc_p \<noteq> named_accessor_property_set_p current)) then
        Returns (Inl (ecma_reject ext h is_throw))
      else Returns (Inr (h, current_p)))"

text \<open>
  Step 12 writes the fields of the descriptor into \<open>current_p\<close>. Its assertions test
  \<open>is_current_data_descriptor\<close> and \<open>is_current_accessor_descriptor\<close>, the two constants
  that step 6 computed from the node found in step 1.
\<close>

definition define_own_property_step_12 ::
  "ecma_heap \<Rightarrow> ecma_property_ptr \<Rightarrow> ecma_property_descriptor_t \<Rightarrow> bool \<Rightarrow> bool
     \<Rightarrow> (ecma_completion_value_t \<times> ecma_heap) outcome" where
  "define_own_property_step_12 h current_p property_desc_p
       is_current_data_descriptor is_current_accessor_descriptor =
     (if is_value_defined property_desc_p \<and> \<not> is_current_data_descriptor then
        Fatal ERR_FAILED_INTERNAL_ASSERTION
      else
        (let h1 = (if is_value_defined property_desc_p
                   then ecma_named_data_property_assign_value h current_p (desc_value property_desc_p)
                   else h)
         in
         if is_writable_defined property_desc_p \<and> \<not> is_current_data_descriptor then
           Fatal ERR_FAILED_INTERNAL_ASSERTION
         else
           (let h2 = (if is_writable_defined property_desc_p
                      then ecma_set_property_writable_attr h1 current_p (is_writable property_desc_p)
                      else h1)
            in
            if is_get_defined property_desc_p \<and> \<not> is_current_accessor_descriptor then
              Fatal ERR_FAILED_INTERNAL_ASSERTION
            else
              (let h3 = (if is_get_defined property_desc_p
                         then ecma_update_property h2 current_p
                                (set_accessor_get_p (desc_get_p property_desc_p))
                         else h2)
               in
               if is_set_defined property_desc_p \<and> \<not> is_current_accessor_descriptor then
                 Fatal ERR_FAILED_INTERNAL_ASSERTION
               else
                 (let h4 = (if is_set_defined property_desc_p
                            then ecma_update_property h3 current_p
                                   (set_accessor_set_p (desc_set_p property_desc_p))
                            else h3);
                      h5 = (if is_enumerable_defined property_desc_p
                            then ecma_set_property_enumerable_attr h4 current_p
                                   (is_enumerable property_desc_p)
                            else h4);
                      h6 = (if is_configurable_defined property_desc_p
                            then ecma_set_property_configurable_attr h5 current_p
                                   (is_configurable property_desc_p)
                            else h5)
                  in Returns (ecma_make_simple_completion_value ECMA_SIMPLE_VALUE_TRUE, h6))))))"

definition ecma_op_general_object_define_own_property ::
  "ecma_ext \<Rightarrow> ecma_heap \<Rightarrow> ecma_object_ptr_t \<Rightarrow> ecma_string_t \<Rightarrow> ecma_property_descriptor_t
     \<Rightarrow> bool \<Rightarrow> (ecma_completion_value_t \<times> ecma_heap) outcome" where
  "ecma_op_general_object_define_own_property ext h obj_p property_name_p property_desc_p is_throw =
     (if ecma_is_lexical_environment h obj_p then Fatal ERR_FAILED_INTERNAL_ASSERTION
      else
        (case ecma_op_object_get_own_property h obj_p property_name_p of
           Fatal e \<Rightarrow> Fatal e
         | Returns None \<Rightarrow>
             define_own_property_steps_3_4 ext h obj_p property_name_p property_desc_p is_throw
               (ecma_get_object_extensible h obj_p)
         | Returns (Some current_p) \<Rightarrow>
             (case define_own_property_steps_5_11 ext h obj_p property_name_p property_desc_p
                     is_throw current_p of
                Fatal e \<Rightarrow> Fatal e
              | Returns (Inl result) \<Rightarrow> Returns result
              | Returns (Inr (h', current_p')) \<Rightarrow>
                  define_own_property_step_12 h' current_p' property_desc_p
                    (property_is_named_data (ecma_property_at h current_p))
                    (property_is_named_accessor (ecma_property_at h current_p)))))"

definition ecma_op_object_define_own_property ::
  "ecma_ext \<Rightarrow> ecma_heap \<Rightarrow> ecma_object_ptr_t \<Rightarrow> ecma_string_t \<Rightarrow> ecma_property_descriptor_t
     \<Rightarrow> bool \<Rightarrow> (ecma_completion_value_t \<times> ecma_heap) outcome" where
  "ecma_op_object_define_own_property = ecma_op_general_object_define_own_property"

subsection \<open>[[Get]], [[CanPut]], [[Put]], [[Delete]]\<close>

definition ecma_op_general_object_get ::
  "ecma_ext \<Rightarrow> ecma_heap \<Rightarrow> ecma_object_ptr_t \<Rightarrow> ecma_string_t
     \<Rightarrow> (ecma_completion_value_t \<times> ecma_heap) outcome option" where
  "ecma_op_general_object_get ext h obj_p property_name_p =
     (if ecma_is_lexical_environment h obj_p then Some (Fatal ERR_FAILED_INTERNAL_ASSERTION)
      else
        (case ecma_op_object_get_property h obj_p property_name_p of
           None \<Rightarrow> None
         | Some (Fatal e) \<Rightarrow> Some (Fatal e)
         | Some (Returns None) \<Rightarrow>
             Some (Returns (ecma_make_simple_completion_value ECMA_SIMPLE_VALUE_UNDEFINED, h))
         | Some (Returns (Some prop_p)) \<Rightarrow>
             (if property_is_named_data (ecma_property_at h prop_p) then
                Some (Returns (ecma_make_normal_completion_value
                                 (ecma_get_named_data_property_value (ecma_property_at h prop_p)), h))
              else
                (case named_accessor_property_get_p (ecma_property_at h prop_p) of
                   None \<Rightarrow>
                     Some (Returns (ecma_make_simple_completion_value ECMA_SIMPLE_VALUE_UNDEFINED, h))
                 | Some getter_p \<Rightarrow>
                     ecma_op_function_call ext h getter_p (ECMA_TYPE_OBJECT obj_p) []))))"

definition ecma_op_object_get ::
  "ecma_ext \<Rightarrow> ecma_heap \<Rightarrow> ecma_object_ptr_t \<Rightarrow> ecma_string_t
     \<Rightarrow> (ecma_completion_value_t \<times> ecma_heap) outcome option" where
  "ecma_op_object_get = ecma_op_general_object_get"

definition ecma_op_general_object_can_put ::
  "ecma_heap \<Rightarrow> ecma_object_ptr_t \<Rightarrow> ecma_string_t \<Rightarrow> bool outcome option" where
  "ecma_op_general_object_can_put h obj_p property_name_p =
     (if ecma_is_lexical_environment h obj_p then Some (Fatal ERR_FAILED_INTERNAL_ASSERTION)
      else
        (case ecma_op_object_get_own_property h obj_p property_name_p of
           Fatal e \<Rightarrow> Some (Fatal e)
         | Returns (Some prop_p) \<Rightarrow>
             (if property_is_named_accessor (ecma_property_at h prop_p) then
                (case named_accessor_property_set_p (ecma_property_at h prop_p) of
                   None \<Rightarrow> Some (Returns False)
                 | Some setter_p \<Rightarrow> Some (Returns True))
              else if \<not> property_is_named_data (ecma_property_at h prop_p) then
                Some (Fatal ERR_FAILED_INTERNAL_ASSERTION)
              else Some (Returns (ecma_is_property_writable (ecma_property_at h prop_p))))
         | Returns None \<Rightarrow>
             (case ecma_get_object_prototype h obj_p of
                None \<Rightarrow> Some (Returns (ecma_get_object_extensible h obj_p))
              | Some proto_p \<Rightarrow>
                  (case ecma_op_object_get_property h proto_p property_name_p of
                     None \<Rightarrow> None
                   | Some (Fatal e) \<Rightarrow> Some (Fatal e)
                   | Some (Returns None) \<Rightarrow> Some (Returns (ecma_get_object_extensible h obj_p))
                   | Some (Returns (Some inherited_p)) \<Rightarrow>
                       (if property_is_named_accessor (ecma_property_at h inherited_p) then
                          (case named_accessor_property_set_p (ecma_property_at h inherited_p) of
                             None \<Rightarrow> Some (Returns False)
                           | Some setter_p \<Rightarrow> Some (Returns True))
                        else if \<not> property_is_named_data (ecma_property_at h inherited_p) then
                          Some (Fatal ERR_FAILED_INTERNAL_ASSERTION)
                        else if \<not> ecma_get_object_extensible h obj_p then Some (Returns False)
                        else Some (Returns (ecma_is_property_writable
                                              (ecma_property_at h inherited_p))))))))"

definition ecma_op_object_can_put ::
  "ecma_heap \<Rightarrow> ecma_object_ptr_t \<Rightarrow> ecma_string_t \<Rightarrow> bool outcome option" where
  "ecma_op_object_can_put = ecma_op_general_object_can_put"

text \<open>
  Steps 4 to 6 of \<open>ecma_op_general_object_put\<close>, reached when \<open>[[CanPut]]\<close> is true and
  the object has no own named data property of the name.
\<close>

definition put_steps_4_6 ::
  "ecma_ext \<Rightarrow> ecma_heap \<Rightarrow> ecma_object_ptr_t \<Rightarrow> ecma_string_t \<Rightarrow> ecma_value_t \<Rightarrow> bool
     \<Rightarrow> (ecma_completion_value_t \<times> ecma_heap) outcome option" where
  "put_steps_4_6 ext h obj_p property_name_p v is_throw =
     (case ecma_op_object_get_property h obj_p property_name_p of
        None \<Rightarrow> None
      | Some (Fatal e) \<Rightarrow> Some (Fatal e)
      | Some (Returns desc_p) \<Rightarrow>
          (if desc_p \<noteq> None \<and> property_is_named_accessor (ecma_property_at h (the desc_p)) then
             (case named_accessor_property_set_p (ecma_property_at h (the desc_p)) of
                None \<Rightarrow> Some (Fatal ERR_FAILED_INTERNAL_ASSERTION)
              | Some setter_p \<Rightarrow>
                  ECMA_TRY_CATCH (ecma_op_function_call ext h setter_p (ECMA_TYPE_OBJECT obj_p) [v])
                    (\<lambda>call_ret h'.
                       Some (Returns (ecma_make_simple_completion_value ECMA_SIMPLE_VALUE_TRUE, h'))))
           else
             Some (ecma_op_object_define_own_property ext h obj_p property_name_p
                     (ecma_make_empty_property_descriptor
                        \<lparr>is_value_defined := True, desc_value := v,
                         is_writable_defined := True, is_writable := True,
                         is_enumerable_defined := True, is_enumerable := True,
                         is_configurable_defined := True, is_configurable := True\<rparr>)
                     is_throw)))"

definition ecma_op_general_object_put ::
  "ecma_ext \<Rightarrow> ecma_heap \<Rightarrow> ecma_object_ptr_t \<Rightarrow> ecma_string_t \<Rightarrow> ecma_value_t \<Rightarrow> bool
     \<Rightarrow> (ecma_completion_value_t \<times> ecma_heap) outcome option" where
  "ecma_op_general_object_put ext h obj_p property_name_p v is_throw =
     (if ecma_is_lexical_environment h obj_p then Some (Fatal ERR_FAILED_INTERNAL_ASSERTION)
      else
        (case ecma_op_object_can_put h obj_p property_name_p of
           None \<Rightarrow> None
         | Some (Fatal e) \<Rightarrow> Some (Fatal e)
         | Some (Returns False) \<Rightarrow>
             (if is_throw then
                (case ecma_new_standard_error ext ECMA_ERROR_TYPE h of
                   (exception_obj_p, h') \<Rightarrow>
                     Some (Returns (ecma_make_throw_obj_completion_value exception_obj_p, h')))
              else Some (Returns (ecma_make_simple_completion_value ECMA_SIMPLE_VALUE_FALSE, h)))
         | Some (Returns True) \<Rightarrow>
             (case ecma_op_object_get_own_property h obj_p property_name_p of
                Fatal e \<Rightarrow> Some (Fatal e)
              | Returns own_desc_p \<Rightarrow>
                  (if own_desc_p \<noteq> None
                      \<and> property_is_named_data (ecma_property_at h (the own_desc_p)) then
                     Some (ecma_op_object_define_own_property ext h obj_p property_name_p
                             (ecma_make_empty_property_descriptor
                                \<lparr>is_value_defined := True, desc_value := v\<rparr>)
                             is_throw)
                   else put_steps_4_6 ext h obj_p property_name_p v is_throw))))"

definition ecma_op_object_put ::
  "ecma_ext \<Rightarrow> ecma_heap \<Rightarrow> ecma_object_ptr_t \<Rightarrow> ecma_string_t \<Rightarrow> ecma_value_t \<Rightarrow> bool
     \<Rightarrow> (ecma_completion_value_t \<times> ecma_heap) outcome option" where
  "ecma_op_object_put = ecma_op_general_object_put"

definition ecma_op_general_object_delete ::
  "ecma_ext \<Rightarrow> ecma_heap \<Rightarrow> ecma_object_ptr_t \<Rightarrow> ecma_string_t \<Rightarrow> bool
     \<Rightarrow> (ecma_completion_value_t \<times> ecma_heap) outcome" where
  "ecma_op_general_object_delete ext h obj_p property_name_p is_throw =
     (if ecma_is_lexical_environment h obj_p then Fatal ERR_FAILED_INTERNAL_ASSERTION
      else
        (case ecma_op_object_get_own_property h obj_p property_name_p of
           Fatal e \<Rightarrow> Fatal e
         | Returns None \<Rightarrow> Returns (ecma_make_simple_completion_value ECMA_SIMPLE_VALUE_TRUE, h)
         | Returns (Some desc_p) \<Rightarrow>
             (if ecma_is_property_configurable (ecma_property_at h desc_p) then
                Returns (ecma_make_simple_completion_value ECMA_SIMPLE_VALUE_TRUE,
                         ecma_delete_property h desc_p)
              else if is_throw then
                (case ecma_new_standard_error ext ECMA_ERROR_TYPE h of
                   (exception_obj_p, h') \<Rightarrow>
                     Returns (ecma_make_throw_obj_completion_value exception_obj_p, h'))
              else Returns (ecma_make_simple_completion_value ECMA_SIMPLE_VALUE_FALSE, h))))"

definition ecma_op_object_delete ::
  "ecma_ext \<Rightarrow> ecma_heap \<Rightarrow> ecma_object_ptr_t \<Rightarrow> ecma_string_t \<Rightarrow> bool
     \<Rightarrow> (ecma_completion_value_t \<times> ecma_heap) outcome" where
  "ecma_op_object_delete = ecma_op_general_object_delete"

subsection \<open>[[DefaultValue]]\<close>

datatype ecma_preferred_type_hint_t =
    ECMA_PREFERRED_TYPE_NO
  | ECMA_PREFERRED_TYPE_NUMBER
  | ECMA_PREFERRED_TYPE_STRING

text \<open>
  The loop \<open>for (i = 1; i <= 2; i++)\<close> of \<open>ecma_op_general_object_default_value\<close>.
  The variable \<open>call_completion\<close> is declared without a value and assigned only when
  the function value is callable. A completion declared without a value is the empty
  completion: \<open>opfunc_obj_decl\<close> tests such a variable with
  \<open>ecma_is_completion_value_empty\<close> when its loop has not assigned it.
\<close>

function default_value_loop ::
  "ecma_ext \<Rightarrow> ecma_heap \<Rightarrow> ecma_object_ptr_t \<Rightarrow> ecma_preferred_type_hint_t \<Rightarrow> nat
     \<Rightarrow> (ecma_completion_value_t \<times> ecma_heap) outcome option" where
  "default_value_loop ext h obj_p hint i =
     (if i \<le> 2 then
        (case ecma_op_object_get ext h obj_p
                (ecma_get_magic_string
                   (if (i = 1 \<and> hint = ECMA_PREFERRED_TYPE_STRING)
                       \<or> (i = 2 \<and> hint = ECMA_PREFERRED_TYPE_NUMBER)
                    then ECMA_MAGIC_STRING_TO_STRING_UL else ECMA_MAGIC_STRING_VALUE_OF_UL)) of
           None \<Rightarrow> None
         | Some (Fatal e) \<Rightarrow> Some (Fatal e)
         | Some (Returns (function_value_get_completion, h1)) \<Rightarrow>
             (if \<not> ecma_is_completion_value_normal function_value_get_completion then
                Some (Returns (function_value_get_completion, h1))
              else
                (case (if ecma_op_is_callable ext h1 (completion_value function_value_get_completion)
                       then (case completion_value function_value_get_completion of
                               ECMA_TYPE_OBJECT func_obj_p \<Rightarrow>
                                 ecma_op_function_call ext h1 func_obj_p (ECMA_TYPE_OBJECT obj_p) []
                             | _ \<Rightarrow> Some (Fatal ERR_FAILED_INTERNAL_ASSERTION))
                       else Some (Returns (ecma_make_empty_completion_value, h1))) of
                   None \<Rightarrow> None
                 | Some (Fatal e) \<Rightarrow> Some (Fatal e)
                 | Some (Returns (call_completion, h2)) \<Rightarrow>
                     (if \<not> ecma_is_completion_value_normal call_completion then
                        Some (Returns (call_completion, h2))
                      else if \<not> ecma_is_completion_value_empty call_completion
                              \<and> \<not> ecma_is_value_object (completion_value call_completion) then
                        Some (Returns (call_completion, h2))
                      else default_value_loop ext h2 obj_p hint (i + 1)))))
      else
        (case ecma_new_standard_error ext ECMA_ERROR_TYPE h of
           (exception_obj_p, h') \<Rightarrow>
             Some (Returns (ecma_make_throw_obj_completion_value exception_obj_p, h'))))"
  by pat_completeness auto
termination
  by (relation "measure (\<lambda>(ext, h, obj_p, hint, i). 3 - i)") auto

declare default_value_loop.simps [simp del]

definition ecma_op_general_object_default_value ::
  "ecma_ext \<Rightarrow> ecma_heap \<Rightarrow> ecma_object_ptr_t \<Rightarrow> ecma_preferred_type_hint_t
     \<Rightarrow> (ecma_completion_value_t \<times> ecma_heap) outcome option" where
  "ecma_op_general_object_default_value ext h obj_p hint =
     (if ecma_is_lexical_environment h obj_p then Some (Fatal ERR_FAILED_INTERNAL_ASSERTION)
      else if hint = ECMA_PREFERRED_TYPE_NO then
        (case ecma_get_internal_property h obj_p ECMA_INTERNAL_PROPERTY_CLASS of
           Fatal e \<Rightarrow> Some (Fatal e)
         | Returns class_prop_p \<Rightarrow>
             (if internal_property_value (ecma_property_at h class_prop_p)
                   = ECMA_INTERNAL_VALUE_MAGIC_STRING ECMA_MAGIC_STRING_DATE_UL
              then default_value_loop ext h obj_p ECMA_PREFERRED_TYPE_STRING 1
              else default_value_loop ext h obj_p ECMA_PREFERRED_TYPE_NUMBER 1))
      else default_value_loop ext h obj_p hint 1)"

section \<open>Conversion routines: property descriptors (ecma-conversion.c)\<close>

text \<open>
  One definition of a property of the result object in \<open>ecma_op_from_property_descriptor\<close>:
  the call of \<open>ecma_op_object_define_own_property\<close> with the magic string as the name and
  \<open>is_throw\<close> false, and the assertion that the completion is normal true.
\<close>

definition from_property_descriptor_define ::
  "ecma_ext \<Rightarrow> ecma_heap \<Rightarrow> ecma_object_ptr_t \<Rightarrow> ecma_magic_string_id_t
     \<Rightarrow> ecma_property_descriptor_t \<Rightarrow> ecma_heap outcome" where
  "from_property_descriptor_define ext h obj_p magic_string_id prop_desc =
     (case ecma_op_object_define_own_property ext h obj_p (ecma_get_magic_string magic_string_id)
             prop_desc False of
        Fatal e \<Rightarrow> Fatal e
      | Returns (completion, h') \<Rightarrow>
          if ecma_is_completion_value_normal_true completion then Returns h'
          else Fatal ERR_FAILED_INTERNAL_ASSERTION)"

definition ecma_value_of_bool :: "bool \<Rightarrow> ecma_value_t" where
  "ecma_value_of_bool b = ECMA_TYPE_SIMPLE (if b then ECMA_SIMPLE_VALUE_TRUE else ECMA_SIMPLE_VALUE_FALSE)"

definition ecma_value_of_object_or_undefined :: "ecma_object_ptr_t option \<Rightarrow> ecma_value_t" where
  "ecma_value_of_object_or_undefined p =
     (case p of None \<Rightarrow> ECMA_TYPE_SIMPLE ECMA_SIMPLE_VALUE_UNDEFINED | Some q \<Rightarrow> ECMA_TYPE_OBJECT q)"

text \<open>Step 3 of \<open>ecma_op_from_property_descriptor\<close>: the data branch.\<close>

definition from_property_descriptor_step_3 ::
  "ecma_ext \<Rightarrow> ecma_heap \<Rightarrow> ecma_object_ptr_t \<Rightarrow> ecma_property_descriptor_t
     \<Rightarrow> ecma_property_descriptor_t \<Rightarrow> ecma_heap outcome" where
  "from_property_descriptor_step_3 ext h obj_p prop_desc src_prop_desc_p =
     (if \<not> (is_value_defined prop_desc \<and> is_writable_defined prop_desc) then
        Fatal ERR_FAILED_INTERNAL_ASSERTION
      else
        (case from_property_descriptor_define ext h obj_p ECMA_MAGIC_STRING_VALUE
                (prop_desc\<lparr>desc_value := desc_value src_prop_desc_p\<rparr>) of
           Fatal e \<Rightarrow> Fatal e
         | Returns h1 \<Rightarrow>
             from_property_descriptor_define ext h1 obj_p ECMA_MAGIC_STRING_WRITABLE
               (prop_desc\<lparr>desc_value := ecma_value_of_bool (is_writable src_prop_desc_p)\<rparr>)))"

text \<open>Step 4 of \<open>ecma_op_from_property_descriptor\<close>: the accessor branch.\<close>

definition from_property_descriptor_step_4 ::
  "ecma_ext \<Rightarrow> ecma_heap \<Rightarrow> ecma_object_ptr_t \<Rightarrow> ecma_property_descriptor_t
     \<Rightarrow> ecma_property_descriptor_t \<Rightarrow> ecma_heap outcome" where
  "from_property_descriptor_step_4 ext h obj_p prop_desc src_prop_desc_p =
     (if \<not> (is_get_defined prop_desc \<and> is_set_defined prop_desc) then
        Fatal ERR_FAILED_INTERNAL_ASSERTION
      else
        (case from_property_descriptor_define ext h obj_p ECMA_MAGIC_STRING_GET
                (prop_desc\<lparr>desc_value :=
                   ecma_value_of_object_or_undefined (desc_get_p src_prop_desc_p)\<rparr>) of
           Fatal e \<Rightarrow> Fatal e
         | Returns h1 \<Rightarrow>
             from_property_descriptor_define ext h1 obj_p ECMA_MAGIC_STRING_SET
               (prop_desc\<lparr>desc_value :=
                  ecma_value_of_object_or_undefined (desc_set_p src_prop_desc_p)\<rparr>)))"

text \<open>
  The descriptor \<open>prop_desc\<close> that \<open>ecma_op_from_property_descriptor\<close> declares and
  fills before step 3.
\<close>

definition from_property_descriptor_prop_desc :: ecma_property_descriptor_t where
  "from_property_descriptor_prop_desc =
     ecma_make_empty_property_descriptor
       \<lparr>is_value_defined := True,
        is_writable_defined := True, is_writable := True,
        is_enumerable_defined := True, is_enumerable := True,
        is_configurable_defined := True, is_configurable := True\<rparr>"

definition ecma_op_from_property_descriptor ::
  "ecma_ext \<Rightarrow> ecma_heap \<Rightarrow> ecma_property_descriptor_t \<Rightarrow> (ecma_object_ptr_t \<times> ecma_heap) outcome" where
  "ecma_op_from_property_descriptor ext h src_prop_desc_p =
     (case ecma_op_create_object_object_noarg ext h of
        (obj_p, h0) \<Rightarrow>
          (let prop_desc = from_property_descriptor_prop_desc in
           case (if is_value_defined prop_desc \<or> is_writable_defined prop_desc
                 then from_property_descriptor_step_3 ext h0 obj_p prop_desc src_prop_desc_p
                 else from_property_descriptor_step_4 ext h0 obj_p prop_desc src_prop_desc_p) of
             Fatal e \<Rightarrow> Fatal e
           | Returns h2 \<Rightarrow>
               (case from_property_descriptor_define ext h2 obj_p ECMA_MAGIC_STRING_ENUMERABLE
                       (prop_desc\<lparr>desc_value := ecma_value_of_bool (is_enumerable src_prop_desc_p)\<rparr>) of
                  Fatal e \<Rightarrow> Fatal e
                | Returns h3 \<Rightarrow>
                    (case from_property_descriptor_define ext h3 obj_p ECMA_MAGIC_STRING_CONFIGURABLE
                            (prop_desc\<lparr>desc_value :=
                               ecma_value_of_bool (is_configurable src_prop_desc_p)\<rparr>) of
                       Fatal e \<Rightarrow> Fatal e
                     | Returns h4 \<Rightarrow> Returns (obj_p, h4)))))"

subsection \<open>ToBoolean and ToPropertyDescriptor\<close>

text \<open>
  Modelled from the spec: \<open>ecma_check_value_type_is_spec_defined\<close> (not in the sources
  at hand) asserts that the value has one of the types of the language: undefined, null,
  boolean, number, string or object.
\<close>

definition ecma_check_value_type_is_spec_defined :: "ecma_value_t \<Rightarrow> bool" where
  "ecma_check_value_type_is_spec_defined v =
     (ecma_is_value_undefined v \<or> ecma_is_value_null v \<or> ecma_is_value_boolean v
      \<or> ecma_is_value_number v \<or> ecma_is_value_string v \<or> ecma_is_value_object v)"

definition ecma_op_to_boolean :: "ecma_value_t \<Rightarrow> ecma_completion_value_t outcome" where
  "ecma_op_to_boolean v =
     (if \<not> ecma_check_value_type_is_spec_defined v then Fatal ERR_FAILED_INTERNAL_ASSERTION
      else if ecma_is_value_boolean v then
        Returns (ecma_make_simple_completion_value
                   (if ecma_is_value_true v then ECMA_SIMPLE_VALUE_TRUE else ECMA_SIMPLE_VALUE_FALSE))
      else if ecma_is_value_undefined v \<or> ecma_is_value_null v then
        Returns (ecma_make_simple_completion_value ECMA_SIMPLE_VALUE_FALSE)
      else
        (case v of
           ECMA_TYPE_NUMBER num \<Rightarrow>
             Returns (ecma_make_simple_completion_value
                        (if ecma_number_is_nan num \<or> ecma_number_is_zero num
                         then ECMA_SIMPLE_VALUE_FALSE else ECMA_SIMPLE_VALUE_TRUE))
         | ECMA_TYPE_STRING str \<Rightarrow>
             Returns (ecma_make_simple_completion_value
                        (if length str = 0 then ECMA_SIMPLE_VALUE_FALSE else ECMA_SIMPLE_VALUE_TRUE))
         | ECMA_TYPE_OBJECT obj \<Rightarrow> Returns (ecma_make_simple_completion_value ECMA_SIMPLE_VALUE_TRUE)
         | ECMA_TYPE_SIMPLE sv \<Rightarrow> Fatal ERR_FAILED_INTERNAL_ASSERTION))"










text \<open>
  The object that \<open>ecma_op_from_property_descriptor\<close> builds, written out: the
  properties are listed from the head of the property list, the last one created first.
\<close>

definition from_property_descriptor_result_object ::
  "ecma_ext \<Rightarrow> ecma_property_descriptor_t \<Rightarrow> ecma_object_t" where
  "from_property_descriptor_result_object ext src =
     \<lparr>prototype_object_p = Some (ecma_builtin_get ext ECMA_BUILTIN_ID_OBJECT_PROTOTYPE),
      is_extensible = True, is_lexical_environment = False,
      object_type = ECMA_OBJECT_TYPE_GENERAL,
      property_list =
        [ECMA_PROPERTY_NAMEDDATA ''configurable'' (ecma_value_of_bool (is_configurable src)) True True True,
         ECMA_PROPERTY_NAMEDDATA ''enumerable'' (ecma_value_of_bool (is_enumerable src)) True True True,
         ECMA_PROPERTY_NAMEDDATA ''writable'' (ecma_value_of_bool (is_writable src)) True True True,
         ECMA_PROPERTY_NAMEDDATA ''value'' (desc_value src) True True True,
         ECMA_PROPERTY_INTERNAL ECMA_INTERNAL_PROPERTY_CLASS
           (ECMA_INTERNAL_VALUE_MAGIC_STRING ECMA_MAGIC_STRING_OBJECT_UL)]\<rparr>"

section \<open>A small heap for concrete evaluation\<close>

text \<open>
  A heap whose objects have no properties and no prototype, and collaborators that never
  call back: error objects are fresh objects, no value is callable, a call returns
  undefined.
\<close>

definition example_object :: ecma_object_t where
  "example_object =
     \<lparr>prototype_object_p = None, is_extensible = True, is_lexical_environment = False,
      object_type = ECMA_OBJECT_TYPE_GENERAL, property_list = []\<rparr>"

definition example_heap :: ecma_heap where
  "example_heap = \<lparr>objects = (\<lambda>p. example_object), next_object = 1\<rparr>"

definition example_ext :: ecma_ext where
  "example_ext =
     \<lparr>ecma_builtin_get = (\<lambda>id. 0),
      ecma_new_standard_error =
        (\<lambda>error_type h. ecma_create_object h None True ECMA_OBJECT_TYPE_GENERAL),
      ecma_op_is_callable = (\<lambda>h v. False),
      ecma_free_property_descriptor = (\<lambda>d. ecma_make_empty_property_descriptor),
      ecma_op_function_call =
        (\<lambda>h func_obj_p this_arg args.
           Some (Returns (ecma_make_simple_completion_value ECMA_SIMPLE_VALUE_UNDEFINED, h)))\<rparr>"

text \<open>A heap whose objects have one accessor property \<open>x\<close> with a setter and no getter.\<close>

definition example_accessor_heap :: ecma_heap where
  "example_accessor_heap =
     \<lparr>objects = (\<lambda>p. example_object
         \<lparr>property_list := [ECMA_PROPERTY_NAMEDACCESSOR ''x'' None (Some 1) True True]\<rparr>),
      next_object = 2\<rparr>"

text \<open>
  A heap whose objects have one data property \<open>p\<close>, writable, enumerable and
  configurable, and a descriptor that defines only a getter.
\<close>

definition example_data_heap :: ecma_heap where
  "example_data_heap =
     \<lparr>objects = (\<lambda>p. example_object
         \<lparr>property_list :=
            [ECMA_PROPERTY_NAMEDDATA ''p'' (ECMA_TYPE_SIMPLE ECMA_SIMPLE_VALUE_NULL) True True True]\<rparr>),
      next_object = 2\<rparr>"

definition example_getter_desc :: ecma_property_descriptor_t where
  "example_getter_desc =
     ecma_make_empty_property_descriptor\<lparr>is_get_defined := True, desc_get_p := Some 1\<rparr>"

subsection \<open>[[DefaultValue]] in the words of the specification\<close>

text \<open>
  The second description of \<open>[[DefaultValue]]\<close>, written from the sentences of the
  specification and not from the code. Without a hint the hint is string exactly when the
  class tag of the object is \<open>Date\<close>, else number. With hint string the methods are
  tried in the order \<open>toString\<close>, \<open>valueOf\<close>, with hint number in the order
  \<open>valueOf\<close>, \<open>toString\<close>. A method that is absent or not callable is skipped. The
  first call whose result is not an object is returned. When no method is left, a
  TypeError is thrown. An abrupt completion of the lookup or of the call is the result.
\<close>

definition default_value_spec_hint ::
  "ecma_heap \<Rightarrow> ecma_object_ptr_t \<Rightarrow> ecma_preferred_type_hint_t \<Rightarrow> ecma_preferred_type_hint_t" where
  "default_value_spec_hint h obj_p hint =
     (if hint = ECMA_PREFERRED_TYPE_NO then
        (if map_option (\<lambda>class_prop_p. internal_property_value (ecma_property_at h class_prop_p))
              (ecma_find_internal_property h obj_p ECMA_INTERNAL_PROPERTY_CLASS)
            = Some (ECMA_INTERNAL_VALUE_MAGIC_STRING ECMA_MAGIC_STRING_DATE_UL)
         then ECMA_PREFERRED_TYPE_STRING else ECMA_PREFERRED_TYPE_NUMBER)
      else hint)"

definition default_value_spec_order :: "ecma_preferred_type_hint_t \<Rightarrow> ecma_string_t list" where
  "default_value_spec_order hint =
     (if hint = ECMA_PREFERRED_TYPE_STRING then [''toString'', ''valueOf'']
      else [''valueOf'', ''toString''])"

fun default_value_spec_try ::
  "ecma_ext \<Rightarrow> ecma_heap \<Rightarrow> ecma_object_ptr_t \<Rightarrow> ecma_string_t list
     \<Rightarrow> (ecma_completion_value_t \<times> ecma_heap) outcome option" where
  "default_value_spec_try ext h obj_p [] =
     (case ecma_new_standard_error ext ECMA_ERROR_TYPE h of
        (exception_obj_p, h') \<Rightarrow>
          Some (Returns (ecma_make_throw_obj_completion_value exception_obj_p, h')))"
| "default_value_spec_try ext h obj_p (method_name # method_names) =
     (case ecma_op_object_get ext h obj_p method_name of
        None \<Rightarrow> None
      | Some (Fatal e) \<Rightarrow> Some (Fatal e)
      | Some (Returns (method_completion, h1)) \<Rightarrow>
          if \<not> ecma_is_completion_value_normal method_completion then
            Some (Returns (method_completion, h1))
          else
            (case completion_value method_completion of
               ECMA_TYPE_OBJECT method_p \<Rightarrow>
                 if ecma_op_is_callable ext h1 (ECMA_TYPE_OBJECT method_p) then
                   (case ecma_op_function_call ext h1 method_p (ECMA_TYPE_OBJECT obj_p) [] of
                      None \<Rightarrow> None
                    | Some (Fatal e) \<Rightarrow> Some (Fatal e)
                    | Some (Returns (result, h2)) \<Rightarrow>
                        if \<not> ecma_is_completion_value_normal result then
                          Some (Returns (result, h2))
                        else if \<not> ecma_is_value_object (completion_value result) then
                          Some (Returns (result, h2))
                        else default_value_spec_try ext h2 obj_p method_names)
                 else default_value_spec_try ext h1 obj_p method_names
             | _ \<Rightarrow> default_value_spec_try ext h1 obj_p method_names))"

definition default_value_spec ::
  "ecma_ext \<Rightarrow> ecma_heap \<Rightarrow> ecma_object_ptr_t \<Rightarrow> ecma_preferred_type_hint_t
     \<Rightarrow> (ecma_completion_value_t \<times> ecma_heap) outcome option" where
  "default_value_spec ext h obj_p hint =
     default_value_spec_try ext h obj_p (default_value_spec_order (default_value_spec_hint h obj_p hint))"

text \<open>
  A heap whose objects have the class tag \<open>Date\<close> and a data property \<open>toString\<close>
  holding the object 7, and collaborators for which the object 7 is callable and every
  call returns the string \<open>date\<close>.
\<close>

definition example_method_heap :: ecma_heap where
  "example_method_heap =
     \<lparr>objects = (\<lambda>p. example_object
         \<lparr>property_list :=
            [ECMA_PROPERTY_NAMEDDATA ''toString'' (ECMA_TYPE_OBJECT 7) True True True,
             ECMA_PROPERTY_INTERNAL ECMA_INTERNAL_PROPERTY_CLASS
               (ECMA_INTERNAL_VALUE_MAGIC_STRING ECMA_MAGIC_STRING_DATE_UL)]\<rparr>),
      next_object = 2\<rparr>"

definition example_method_ext :: ecma_ext where
  "example_method_ext =
     example_ext
       \<lparr>ecma_op_is_callable := (\<lambda>h v. v = ECMA_TYPE_OBJECT 7),
        ecma_op_function_call :=
          (\<lambda>h func_obj_p this_arg args.
             Some (Returns (ecma_make_normal_completion_value (ECMA_TYPE_STRING ''date''), h)))\<rparr>"

section \<open>The interpreter (opcodes.c, opcodes-ecma-relational.c, interpreter.c)\<close>

subsection \<open>Opcodes and the frame\<close>

type_synonym idx_t = "8 word"
type_synonym opcode_counter_t = "16 word"
type_synonym literal_index_t = nat

datatype opcode_meta_type =
    OPCODE_META_TYPE_UNDEFINED
  | OPCODE_META_TYPE_THIS_ARG
  | OPCODE_META_TYPE_VARG
  | OPCODE_META_TYPE_VARG_PROP_DATA
  | OPCODE_META_TYPE_VARG_PROP_GETTER
  | OPCODE_META_TYPE_VARG_PROP_SETTER
  | OPCODE_META_TYPE_END_WITH
  | OPCODE_META_TYPE_FUNCTION_END
  | OPCODE_META_TYPE_CATCH
  | OPCODE_META_TYPE_CATCH_EXCEPTION_IDENTIFIER
  | OPCODE_META_TYPE_FINALLY
  | OPCODE_META_TYPE_END_TRY_CATCH_FINALLY
  | OPCODE_META_TYPE_STRICT_CODE

text \<open>
  The kinds of the right operand of an assignment (opcodes.h, not in the sources at
  hand): the seven that \<open>opfunc_assignment\<close> tells apart.
\<close>

datatype opcode_arg_type_operand =
    OPCODE_ARG_TYPE_SIMPLE
  | OPCODE_ARG_TYPE_SMALLINT
  | OPCODE_ARG_TYPE_SMALLINT_NEGATE
  | OPCODE_ARG_TYPE_NUMBER
  | OPCODE_ARG_TYPE_NUMBER_NEGATE
  | OPCODE_ARG_TYPE_STRING
  | OPCODE_ARG_TYPE_VARIABLE

text \<open>
  An instruction is a tagged union: the opcode tag \<open>op_idx\<close> and up to three operands of
  one byte (spec, section 4.1). The constructors below are the opcodes whose handlers are
  in opcodes.c and opcodes-ecma-relational.c, with the operand fields the handlers read;
  every other opcode is \<open>op_other\<close> with its tag and its three bytes.
\<close>

datatype opcode_t =
    op_nop
  | op_assignment idx_t opcode_arg_type_operand idx_t
  | op_pre_incr idx_t idx_t
  | op_pre_decr idx_t idx_t
  | op_post_incr idx_t idx_t
  | op_post_decr idx_t idx_t
  | op_reg_var_decl idx_t idx_t
  | op_var_decl idx_t
  | op_func_decl_n idx_t idx_t
  | op_func_expr_n idx_t idx_t idx_t
  | op_call_n idx_t idx_t idx_t
  | op_construct_n idx_t idx_t idx_t
  | op_array_decl idx_t idx_t
  | op_obj_decl idx_t idx_t
  | op_exitval idx_t
  | op_meta opcode_meta_type idx_t idx_t
  | op_ret
  | op_retval idx_t
  | op_prop_getter idx_t idx_t idx_t
  | op_prop_setter idx_t idx_t idx_t
  | op_logical_not idx_t idx_t
  | op_throw_value idx_t
  | op_this_binding idx_t
  | op_with idx_t
  | op_typeof idx_t idx_t
  | op_delete_var idx_t idx_t
  | op_delete_prop idx_t idx_t idx_t
  | op_less_than idx_t idx_t idx_t
  | op_greater_than idx_t idx_t idx_t
  | op_less_or_equal_than idx_t idx_t idx_t
  | op_greater_or_equal_than idx_t idx_t idx_t
  | op_other idx_t idx_t idx_t idx_t

text \<open>
  The program \<open>__program\<close> is the memory the interpreter reads instructions from, by
  opcode counter.
\<close>

type_synonym program_t = "opcode_counter_t \<Rightarrow> opcode_t"

definition read_opcode :: "program_t \<Rightarrow> opcode_counter_t \<Rightarrow> opcode_t" where
  "read_opcode program counter = program counter"

text \<open>
  The frame \<open>int_data_t\<close> (interpreter.h, not in the sources at hand; its fields are
  those \<open>run_int_from_pos\<close> assigns). \<open>regs\<close> is the register array of the stack frame.
\<close>

record int_data_t =
  pos :: opcode_counter_t
  this_binding :: ecma_value_t
  lex_env_p :: ecma_object_ptr_t
  is_strict :: bool
  is_eval_code :: bool
  min_reg_num :: idx_t
  max_reg_num :: idx_t
  regs :: "ecma_value_t list"

text \<open>What a handler gives back: the completion it writes, the frame and the heap.\<close>

type_synonym opfunc_result =
  "(ecma_completion_value_t \<times> int_data_t \<times> ecma_heap) outcome option"

text \<open>
  A literal of the literal table, as the handlers read it (literal.h is not in the
  sources at hand): its type, and its number when the type is \<open>LIT_NUMBER\<close>.
\<close>

datatype literal_type = LIT_NUMBER | LIT_NOT_A_NUMBER

record literal =
  lit_type :: literal_type
  lit_data_num :: ecma_number_t

text \<open>
  Modelled from the spec: the reference of ecma-reference.h (not in the sources at hand),
  "a transient (base, name, strict) triple resolved by GetValue/PutValue" (spec,
  glossary).
\<close>

record ecma_reference_t =
  ref_base :: ecma_value_t
  ref_referenced_name :: ecma_string_t
  ref_is_strict :: bool

definition ecma_make_reference :: "ecma_value_t \<Rightarrow> ecma_string_t \<Rightarrow> bool \<Rightarrow> ecma_reference_t" where
  "ecma_make_reference base name strict =
     \<lparr>ref_base = base, ref_referenced_name = name, ref_is_strict = strict\<rparr>"

text \<open>
  The parts of the interpreter whose code is not in the sources at hand are parameters:
  the literal table of the deserializer, the resolution of identifiers
  (ecma-reference.c) with the variable access that goes through it, the relational
  comparison (ecma-comparison.c), the creation of an object-bound lexical environment
  (ecma-helpers.c), the heap that \<open>ecma_init\<close> sets up, and the handlers of the opcodes
  that are \<open>op_other\<close> here.

  For the handlers of opcodes.c there are further parameters. Not in the sources at hand:
  the constant \<open>INVALID_VALUE\<close> and the bytes of an instruction read through the member
  \<open>meta\<close> of the union when the instruction is not a meta instruction (opcodes.h); the
  simple value an operand byte is cast to (ecma-globals.h); the literals of the
  deserializer; the arithmetic on numbers (ecma-helpers-number.c) with the conversion of
  an operand byte to a number; GetValue and PutValue on an object base and the
  identifier reference (ecma-get-put-value.c, ecma-reference.c); the declaration, the
  creation and the construction of functions (ecma-function-object.c); the array
  constructor (ecma-array-object.c); the creation of a declarative lexical environment
  (ecma-helpers.c); and the readers of the parameter names and of the arguments that
  follow an instruction (\<open>fill_params_list\<close>, \<open>fill_varg_list\<close>; the second runs the
  interpreter loop on every argument). In the sources at hand, but parameters here all
  the same: the conversions ToNumber, ToString and ToObject (ecma-conversion.c) and the
  operations on lexical environments (ecma-lex-env.c). They run \<open>[[DefaultValue]]\<close>,
  getters and setters, and through them any function of the program; the handlers use
  them either under \<open>ECMA_TRY_CATCH\<close> or under an assertion on what they return, so that
  what is proved of the handlers below is proved whatever these operations do.
\<close>

record interp_ext =
  deserialize_lit_id_by_uid :: "idx_t \<Rightarrow> opcode_counter_t \<Rightarrow> literal_index_t"
  INVALID_LITERAL :: literal_index_t
  ecma_new_ecma_string_from_lit_index :: "literal_index_t \<Rightarrow> ecma_string_t"
  ecma_op_resolve_reference_base ::
    "ecma_heap \<Rightarrow> ecma_object_ptr_t \<Rightarrow> ecma_string_t \<Rightarrow> ecma_object_ptr_t option"
  ecma_op_get_value_lex_env_base ::
    "ecma_heap \<Rightarrow> ecma_object_ptr_t \<Rightarrow> ecma_string_t \<Rightarrow> bool
       \<Rightarrow> (ecma_completion_value_t \<times> ecma_heap) outcome option"
  get_variable_value_by_name ::
    "int_data_t \<Rightarrow> ecma_heap \<Rightarrow> idx_t \<Rightarrow> bool
       \<Rightarrow> (ecma_completion_value_t \<times> ecma_heap) outcome option"
  set_variable_value_by_name ::
    "int_data_t \<Rightarrow> ecma_heap \<Rightarrow> opcode_counter_t \<Rightarrow> idx_t \<Rightarrow> ecma_value_t
       \<Rightarrow> (ecma_completion_value_t \<times> int_data_t \<times> ecma_heap) outcome option"
  ecma_op_abstract_relational_compare ::
    "ecma_heap \<Rightarrow> ecma_value_t \<Rightarrow> ecma_value_t \<Rightarrow> bool
       \<Rightarrow> (ecma_completion_value_t \<times> ecma_heap) outcome option"
  ecma_create_object_lex_env ::
    "ecma_heap \<Rightarrow> ecma_object_ptr_t option \<Rightarrow> ecma_object_ptr_t \<Rightarrow> bool
       \<Rightarrow> ecma_object_ptr_t \<times> ecma_heap"
  ecma_init :: ecma_heap
  opfunc_other ::
    "opcode_t \<Rightarrow> int_data_t \<Rightarrow> ecma_heap
       \<Rightarrow> (ecma_completion_value_t \<times> int_data_t \<times> ecma_heap) outcome option"
  INVALID_VALUE :: idx_t
  opcode_data_as_meta :: "opcode_t \<Rightarrow> opcode_meta_type \<times> idx_t \<times> idx_t"
  ecma_simple_value_of_idx :: "idx_t \<Rightarrow> ecma_simple_value_t"
  deserialize_literal_by_id :: "literal_index_t \<Rightarrow> literal"
  ecma_number_of_idx :: "idx_t \<Rightarrow> ecma_number_t"
  ecma_number_negate :: "ecma_number_t \<Rightarrow> ecma_number_t"
  ecma_number_add :: "ecma_number_t \<Rightarrow> ecma_number_t \<Rightarrow> ecma_number_t"
  ecma_number_substract :: "ecma_number_t \<Rightarrow> ecma_number_t \<Rightarrow> ecma_number_t"
  ECMA_NUMBER_ONE :: ecma_number_t
  ecma_op_to_number ::
    "ecma_heap \<Rightarrow> ecma_value_t \<Rightarrow> (ecma_completion_value_t \<times> ecma_heap) outcome option"
  ecma_op_to_string ::
    "ecma_heap \<Rightarrow> ecma_value_t \<Rightarrow> (ecma_completion_value_t \<times> ecma_heap) outcome option"
  ecma_op_to_object ::
    "ecma_heap \<Rightarrow> ecma_value_t \<Rightarrow> (ecma_completion_value_t \<times> ecma_heap) outcome option"
  ecma_op_get_value_object_base ::
    "ecma_heap \<Rightarrow> ecma_reference_t \<Rightarrow> (ecma_completion_value_t \<times> ecma_heap) outcome option"
  ecma_op_put_value_object_base ::
    "ecma_heap \<Rightarrow> ecma_reference_t \<Rightarrow> ecma_value_t
       \<Rightarrow> (ecma_completion_value_t \<times> ecma_heap) outcome option"
  ecma_op_get_identifier_reference ::
    "ecma_heap \<Rightarrow> ecma_object_ptr_t \<Rightarrow> ecma_string_t \<Rightarrow> bool \<Rightarrow> ecma_reference_t"
  ecma_op_has_binding ::
    "ecma_heap \<Rightarrow> ecma_object_ptr_t \<Rightarrow> ecma_string_t \<Rightarrow> bool outcome option"
  ecma_op_create_mutable_binding ::
    "ecma_heap \<Rightarrow> ecma_object_ptr_t \<Rightarrow> ecma_string_t \<Rightarrow> bool
       \<Rightarrow> (ecma_completion_value_t \<times> ecma_heap) outcome option"
  ecma_op_get_binding_value ::
    "ecma_heap \<Rightarrow> ecma_object_ptr_t \<Rightarrow> ecma_string_t \<Rightarrow> bool
       \<Rightarrow> (ecma_completion_value_t \<times> ecma_heap) outcome option"
  ecma_op_delete_binding ::
    "ecma_heap \<Rightarrow> ecma_object_ptr_t \<Rightarrow> ecma_string_t
       \<Rightarrow> (ecma_completion_value_t \<times> ecma_heap) outcome option"
  ecma_op_implicit_this_value ::
    "ecma_heap \<Rightarrow> ecma_object_ptr_t \<Rightarrow> (ecma_completion_value_t \<times> ecma_heap) outcome option"
  ecma_op_create_immutable_binding ::
    "ecma_heap \<Rightarrow> ecma_object_ptr_t \<Rightarrow> ecma_string_t \<Rightarrow> ecma_heap outcome"
  ecma_op_initialize_immutable_binding ::
    "ecma_heap \<Rightarrow> ecma_object_ptr_t \<Rightarrow> ecma_string_t \<Rightarrow> ecma_value_t \<Rightarrow> ecma_heap outcome"
  ecma_create_decl_lex_env ::
    "ecma_heap \<Rightarrow> ecma_object_ptr_t option \<Rightarrow> ecma_object_ptr_t \<times> ecma_heap"
  fill_params_list ::
    "program_t \<Rightarrow> int_data_t \<Rightarrow> nat \<Rightarrow> (ecma_string_t list \<times> int_data_t) outcome"
  fill_varg_list ::
    "program_t \<Rightarrow> int_data_t \<Rightarrow> ecma_heap \<Rightarrow> nat
       \<Rightarrow> (ecma_completion_value_t \<times> ecma_value_t list \<times> nat \<times> int_data_t \<times> ecma_heap)
            outcome option"
  ecma_op_function_declaration ::
    "ecma_heap \<Rightarrow> ecma_object_ptr_t \<Rightarrow> ecma_string_t \<Rightarrow> opcode_counter_t
       \<Rightarrow> ecma_string_t list \<Rightarrow> bool \<Rightarrow> bool
       \<Rightarrow> (ecma_completion_value_t \<times> ecma_heap) outcome option"
  ecma_op_create_function_object ::
    "ecma_heap \<Rightarrow> ecma_string_t list \<Rightarrow> ecma_object_ptr_t \<Rightarrow> bool \<Rightarrow> opcode_counter_t
       \<Rightarrow> ecma_object_ptr_t \<times> ecma_heap"
  ecma_is_constructor :: "ecma_heap \<Rightarrow> ecma_value_t \<Rightarrow> bool"
  ecma_op_function_construct ::
    "ecma_heap \<Rightarrow> ecma_object_ptr_t \<Rightarrow> ecma_value_t list
       \<Rightarrow> (ecma_completion_value_t \<times> ecma_heap) outcome option"
  ecma_op_create_array_object ::
    "ecma_heap \<Rightarrow> ecma_value_t list \<Rightarrow> bool
       \<Rightarrow> (ecma_completion_value_t \<times> ecma_heap) outcome option"

subsection \<open>Variables of a frame\<close>

text \<open>
  Modelled from the spec: \<open>is_reg_variable\<close>, \<open>get_variable_value\<close> and
  \<open>set_variable_value\<close> (opcodes-helpers-variables.c, not in the sources at hand).
  "Operands address either register slots (indexes in [min_reg, max_reg] of the current
  frame) or literal table entries" (spec, section 4.1). A register operand reads or
  writes its slot and completes normally, a write with the empty completion; any other
  operand is an identifier and goes through the lexical environment, which is the
  parameter \<open>*_by_name\<close>.
\<close>

definition is_reg_variable :: "int_data_t \<Rightarrow> idx_t \<Rightarrow> bool" where
  "is_reg_variable int_data var_idx =
     (min_reg_num int_data \<le> var_idx \<and> var_idx \<le> max_reg_num int_data)"

definition get_variable_value ::
  "interp_ext \<Rightarrow> int_data_t \<Rightarrow> ecma_heap \<Rightarrow> idx_t \<Rightarrow> bool
     \<Rightarrow> (ecma_completion_value_t \<times> ecma_heap) outcome option" where
  "get_variable_value iext int_data h var_idx do_eval_or_arguments_check =
     (if is_reg_variable int_data var_idx then
        Some (Returns (ecma_make_normal_completion_value
                         (regs int_data ! unat (var_idx - min_reg_num int_data)), h))
      else get_variable_value_by_name iext int_data h var_idx do_eval_or_arguments_check)"

definition set_variable_value ::
  "interp_ext \<Rightarrow> int_data_t \<Rightarrow> ecma_heap \<Rightarrow> opcode_counter_t \<Rightarrow> idx_t \<Rightarrow> ecma_value_t
     \<Rightarrow> (ecma_completion_value_t \<times> int_data_t \<times> ecma_heap) outcome option" where
  "set_variable_value iext int_data h lit_oc var_idx v =
     (if is_reg_variable int_data var_idx then
        Some (Returns (ecma_make_empty_completion_value,
                       int_data\<lparr>regs := (regs int_data)[unat (var_idx - min_reg_num int_data) := v]\<rparr>,
                       h))
      else set_variable_value_by_name iext int_data h lit_oc var_idx v)"

text \<open>An operation that leaves the frame as it is, as an operation on frame and heap.\<close>

definition with_frame ::
  "int_data_t \<Rightarrow> (ecma_completion_value_t \<times> ecma_heap) outcome option
     \<Rightarrow> (ecma_completion_value_t \<times> int_data_t \<times> ecma_heap) outcome option" where
  "with_frame int_data r =
     (case r of
        None \<Rightarrow> None
      | Some (Fatal e) \<Rightarrow> Some (Fatal e)
      | Some (Returns (completion, h)) \<Rightarrow> Some (Returns (completion, int_data, h)))"

text \<open>The statement \<open>int_data->pos++\<close> after the last \<open>ECMA_FINALIZE\<close> of a handler.\<close>

definition then_pos_increment ::
  "(ecma_completion_value_t \<times> int_data_t \<times> ecma_heap) outcome option
     \<Rightarrow> (ecma_completion_value_t \<times> int_data_t \<times> ecma_heap) outcome option" where
  "then_pos_increment r =
     (case r of
        None \<Rightarrow> None
      | Some (Fatal e) \<Rightarrow> Some (Fatal e)
      | Some (Returns (ret_value, int_data, h)) \<Rightarrow>
          Some (Returns (ret_value, int_data\<lparr>pos := pos int_data + 1\<rparr>, h)))"

subsection \<open>Opcode handlers\<close>

definition opfunc_nop ::
  "int_data_t \<Rightarrow> ecma_heap \<Rightarrow> (ecma_completion_value_t \<times> int_data_t \<times> ecma_heap) outcome option" where
  "opfunc_nop int_data h =
     Some (Returns (ecma_make_empty_completion_value, int_data\<lparr>pos := pos int_data + 1\<rparr>, h))"

definition opfunc_reg_var_decl ::
  "int_data_t \<Rightarrow> ecma_heap \<Rightarrow> (ecma_completion_value_t \<times> int_data_t \<times> ecma_heap) outcome option" where
  "opfunc_reg_var_decl int_data h = Some (Fatal ERR_FAILED_INTERNAL_ASSERTION)"

definition opfunc_exitval ::
  "idx_t \<Rightarrow> int_data_t \<Rightarrow> ecma_heap
     \<Rightarrow> (ecma_completion_value_t \<times> int_data_t \<times> ecma_heap) outcome option" where
  "opfunc_exitval status_code int_data h =
     (if \<not> (status_code = 0 \<or> status_code = 1) then Some (Fatal ERR_FAILED_INTERNAL_ASSERTION)
      else Some (Returns (ecma_make_exit_completion_value (status_code = 0), int_data, h)))"

fun opfunc_meta_completion :: "opcode_meta_type \<Rightarrow> ecma_completion_value_t outcome" where
  "opfunc_meta_completion OPCODE_META_TYPE_VARG = Returns ecma_make_meta_completion_value"
| "opfunc_meta_completion OPCODE_META_TYPE_VARG_PROP_DATA = Returns ecma_make_meta_completion_value"
| "opfunc_meta_completion OPCODE_META_TYPE_VARG_PROP_GETTER = Returns ecma_make_meta_completion_value"
| "opfunc_meta_completion OPCODE_META_TYPE_VARG_PROP_SETTER = Returns ecma_make_meta_completion_value"
| "opfunc_meta_completion OPCODE_META_TYPE_END_WITH = Returns ecma_make_meta_completion_value"
| "opfunc_meta_completion OPCODE_META_TYPE_CATCH = Returns ecma_make_meta_completion_value"
| "opfunc_meta_completion OPCODE_META_TYPE_FINALLY = Returns ecma_make_meta_completion_value"
| "opfunc_meta_completion OPCODE_META_TYPE_END_TRY_CATCH_FINALLY = Returns ecma_make_meta_completion_value"
| "opfunc_meta_completion OPCODE_META_TYPE_STRICT_CODE = Returns ecma_make_meta_completion_value"
| "opfunc_meta_completion OPCODE_META_TYPE_UNDEFINED = Fatal ERR_FAILED_INTERNAL_ASSERTION"
| "opfunc_meta_completion OPCODE_META_TYPE_THIS_ARG = Fatal ERR_FAILED_INTERNAL_ASSERTION"
| "opfunc_meta_completion OPCODE_META_TYPE_FUNCTION_END = Fatal ERR_FAILED_INTERNAL_ASSERTION"
| "opfunc_meta_completion OPCODE_META_TYPE_CATCH_EXCEPTION_IDENTIFIER =
     Fatal ERR_FAILED_INTERNAL_ASSERTION"

definition opfunc_meta ::
  "opcode_meta_type \<Rightarrow> int_data_t \<Rightarrow> ecma_heap
     \<Rightarrow> (ecma_completion_value_t \<times> int_data_t \<times> ecma_heap) outcome option" where
  "opfunc_meta type int_data h =
     (case opfunc_meta_completion type of
        Fatal e \<Rightarrow> Some (Fatal e)
      | Returns ret_value \<Rightarrow> Some (Returns (ret_value, int_data, h)))"

definition opfunc_ret ::
  "int_data_t \<Rightarrow> ecma_heap \<Rightarrow> (ecma_completion_value_t \<times> int_data_t \<times> ecma_heap) outcome option" where
  "opfunc_ret int_data h =
     Some (Returns (ecma_make_return_completion_value (ECMA_TYPE_SIMPLE ECMA_SIMPLE_VALUE_UNDEFINED),
                    int_data, h))"

definition opfunc_retval ::
  "interp_ext \<Rightarrow> idx_t \<Rightarrow> int_data_t \<Rightarrow> ecma_heap
     \<Rightarrow> (ecma_completion_value_t \<times> int_data_t \<times> ecma_heap) outcome option" where
  "opfunc_retval iext ret_value_idx int_data h =
     ECMA_TRY_CATCH (with_frame int_data (get_variable_value iext int_data h ret_value_idx False))
       (\<lambda>expr_val (int_data, h1).
          Some (Returns (ecma_make_return_completion_value expr_val, int_data, h1)))"

definition opfunc_throw_value ::
  "interp_ext \<Rightarrow> idx_t \<Rightarrow> int_data_t \<Rightarrow> ecma_heap
     \<Rightarrow> (ecma_completion_value_t \<times> int_data_t \<times> ecma_heap) outcome option" where
  "opfunc_throw_value iext var_idx int_data h =
     then_pos_increment
       (ECMA_TRY_CATCH (with_frame int_data (get_variable_value iext int_data h var_idx False))
          (\<lambda>var_value (int_data, h1).
             Some (Returns (ecma_make_throw_completion_value var_value, int_data, h1))))"

definition opfunc_this_binding ::
  "interp_ext \<Rightarrow> idx_t \<Rightarrow> int_data_t \<Rightarrow> ecma_heap
     \<Rightarrow> (ecma_completion_value_t \<times> int_data_t \<times> ecma_heap) outcome option" where
  "opfunc_this_binding iext dst_var_idx int_data h =
     set_variable_value iext (int_data\<lparr>pos := pos int_data + 1\<rparr>) h (pos int_data) dst_var_idx
       (this_binding int_data)"

subsection \<open>Relational opcode handlers (opcodes-ecma-relational.c)\<close>

definition opfunc_less_than ::
  "interp_ext \<Rightarrow> idx_t \<Rightarrow> idx_t \<Rightarrow> idx_t \<Rightarrow> int_data_t \<Rightarrow> ecma_heap
     \<Rightarrow> (ecma_completion_value_t \<times> int_data_t \<times> ecma_heap) outcome option" where
  "opfunc_less_than iext dst_var_idx left_var_idx right_var_idx int_data h =
     then_pos_increment
       (ECMA_TRY_CATCH (with_frame int_data (get_variable_value iext int_data h left_var_idx False))
          (\<lambda>left_value (int_data, h1).
             ECMA_TRY_CATCH
               (with_frame int_data (get_variable_value iext int_data h1 right_var_idx False))
               (\<lambda>right_value (int_data, h2).
                  ECMA_TRY_CATCH
                    (with_frame int_data
                       (ecma_op_abstract_relational_compare iext h2 left_value right_value True))
                    (\<lambda>compare_result (int_data, h3).
                       if ecma_is_value_undefined compare_result then
                         set_variable_value iext int_data h3 (pos int_data) dst_var_idx
                           (ECMA_TYPE_SIMPLE ECMA_SIMPLE_VALUE_FALSE)
                       else if \<not> ecma_is_value_boolean compare_result then
                         Some (Fatal ERR_FAILED_INTERNAL_ASSERTION)
                       else
                         set_variable_value iext int_data h3 (pos int_data) dst_var_idx
                           (ECMA_TYPE_SIMPLE (if ecma_is_value_true compare_result
                                          then ECMA_SIMPLE_VALUE_TRUE else ECMA_SIMPLE_VALUE_FALSE))))))"

definition opfunc_greater_than ::
  "interp_ext \<Rightarrow> idx_t \<Rightarrow> idx_t \<Rightarrow> idx_t \<Rightarrow> int_data_t \<Rightarrow> ecma_heap
     \<Rightarrow> (ecma_completion_value_t \<times> int_data_t \<times> ecma_heap) outcome option" where
  "opfunc_greater_than iext dst_var_idx left_var_idx right_var_idx int_data h =
     then_pos_increment
       (ECMA_TRY_CATCH (with_frame int_data (get_variable_value iext int_data h left_var_idx False))
          (\<lambda>left_value (int_data, h1).
             ECMA_TRY_CATCH
               (with_frame int_data (get_variable_value iext int_data h1 right_var_idx False))
               (\<lambda>right_value (int_data, h2).
                  ECMA_TRY_CATCH
                    (with_frame int_data
                       (ecma_op_abstract_relational_compare iext h2 right_value left_value False))
                    (\<lambda>compare_result (int_data, h3).
                       if ecma_is_value_undefined compare_result then
                         set_variable_value iext int_data h3 (pos int_data) dst_var_idx
                           (ECMA_TYPE_SIMPLE ECMA_SIMPLE_VALUE_FALSE)
                       else if \<not> ecma_is_value_boolean compare_result then
                         Some (Fatal ERR_FAILED_INTERNAL_ASSERTION)
                       else
                         set_variable_value iext int_data h3 (pos int_data) dst_var_idx
                           (ECMA_TYPE_SIMPLE (if ecma_is_value_true compare_result
                                          then ECMA_SIMPLE_VALUE_TRUE else ECMA_SIMPLE_VALUE_FALSE))))))"

definition opfunc_less_or_equal_than ::
  "interp_ext \<Rightarrow> idx_t \<Rightarrow> idx_t \<Rightarrow> idx_t \<Rightarrow> int_data_t \<Rightarrow> ecma_heap
     \<Rightarrow> (ecma_completion_value_t \<times> int_data_t \<times> ecma_heap) outcome option" where
  "opfunc_less_or_equal_than iext dst_var_idx left_var_idx right_var_idx int_data h =
     then_pos_increment
       (ECMA_TRY_CATCH (with_frame int_data (get_variable_value iext int_data h left_var_idx False))
          (\<lambda>left_value (int_data, h1).
             ECMA_TRY_CATCH
               (with_frame int_data (get_variable_value iext int_data h1 right_var_idx False))
               (\<lambda>right_value (int_data, h2).
                  ECMA_TRY_CATCH
                    (with_frame int_data
                       (ecma_op_abstract_relational_compare iext h2 right_value left_value False))
                    (\<lambda>compare_result (int_data, h3).
                       if ecma_is_value_undefined compare_result then
                         set_variable_value iext int_data h3 (pos int_data) dst_var_idx
                           (ECMA_TYPE_SIMPLE ECMA_SIMPLE_VALUE_FALSE)
                       else if \<not> ecma_is_value_boolean compare_result then
                         Some (Fatal ERR_FAILED_INTERNAL_ASSERTION)
                       else
                         set_variable_value iext int_data h3 (pos int_data) dst_var_idx
                           (ECMA_TYPE_SIMPLE (if ecma_is_value_true compare_result
                                          then ECMA_SIMPLE_VALUE_FALSE else ECMA_SIMPLE_VALUE_TRUE))))))"

definition opfunc_greater_or_equal_than ::
  "interp_ext \<Rightarrow> idx_t \<Rightarrow> idx_t \<Rightarrow> idx_t \<Rightarrow> int_data_t \<Rightarrow> ecma_heap
     \<Rightarrow> (ecma_completion_value_t \<times> int_data_t \<times> ecma_heap) outcome option" where
  "opfunc_greater_or_equal_than iext dst_var_idx left_var_idx right_var_idx int_data h =
     then_pos_increment
       (ECMA_TRY_CATCH (with_frame int_data (get_variable_value iext int_data h left_var_idx False))
          (\<lambda>left_value (int_data, h1).
             ECMA_TRY_CATCH
               (with_frame int_data (get_variable_value iext int_data h1 right_var_idx False))
               (\<lambda>right_value (int_data, h2).
                  ECMA_TRY_CATCH
                    (with_frame int_data
                       (ecma_op_abstract_relational_compare iext h2 left_value right_value True))
                    (\<lambda>compare_result (int_data, h3).
                       if ecma_is_value_undefined compare_result then
                         set_variable_value iext int_data h3 (pos int_data) dst_var_idx
                           (ECMA_TYPE_SIMPLE ECMA_SIMPLE_VALUE_FALSE)
                       else if \<not> ecma_is_value_boolean compare_result then
                         Some (Fatal ERR_FAILED_INTERNAL_ASSERTION)
                       else
                         set_variable_value iext int_data h3 (pos int_data) dst_var_idx
                           (ECMA_TYPE_SIMPLE (if ecma_is_value_true compare_result
                                          then ECMA_SIMPLE_VALUE_FALSE else ECMA_SIMPLE_VALUE_TRUE))))))"

subsection \<open>The typeof handler (opcodes.c)\<close>

definition evaluate_arg_for_typeof ::
  "interp_ext \<Rightarrow> int_data_t \<Rightarrow> ecma_heap \<Rightarrow> idx_t
     \<Rightarrow> (ecma_completion_value_t \<times> ecma_heap) outcome option" where
  "evaluate_arg_for_typeof iext int_data h var_idx =
     (if is_reg_variable int_data var_idx then
        (case get_variable_value iext int_data h var_idx False of
           None \<Rightarrow> None
         | Some (Fatal e) \<Rightarrow> Some (Fatal e)
         | Some (Returns (ret_value, h1)) \<Rightarrow>
             if ecma_is_completion_value_normal ret_value then Some (Returns (ret_value, h1))
             else Some (Fatal ERR_FAILED_INTERNAL_ASSERTION))
      else
        (let lit_id = deserialize_lit_id_by_uid iext var_idx (pos int_data) in
         if \<not> lit_id \<noteq> INVALID_LITERAL iext then Some (Fatal ERR_FAILED_INTERNAL_ASSERTION)
         else
           (let var_name_string_p = ecma_new_ecma_string_from_lit_index iext lit_id in
            case ecma_op_resolve_reference_base iext h (lex_env_p int_data) var_name_string_p of
              None \<Rightarrow>
                Some (Returns (ecma_make_simple_completion_value ECMA_SIMPLE_VALUE_UNDEFINED, h))
            | Some ref_base_lex_env_p \<Rightarrow>
                ecma_op_get_value_lex_env_base iext h ref_base_lex_env_p var_name_string_p
                  (is_strict int_data))))"

text \<open>The magic string that \<open>opfunc_typeof\<close> chooses for the value of its operand.\<close>

definition typeof_type_str ::
  "ecma_ext \<Rightarrow> ecma_heap \<Rightarrow> ecma_value_t \<Rightarrow> ecma_magic_string_id_t outcome" where
  "typeof_type_str ext h typeof_arg =
     (if ecma_is_value_undefined typeof_arg then Returns ECMA_MAGIC_STRING_UNDEFINED
      else if ecma_is_value_null typeof_arg then Returns ECMA_MAGIC_STRING_OBJECT
      else if ecma_is_value_boolean typeof_arg then Returns ECMA_MAGIC_STRING_BOOLEAN
      else if ecma_is_value_number typeof_arg then Returns ECMA_MAGIC_STRING_NUMBER
      else if ecma_is_value_string typeof_arg then Returns ECMA_MAGIC_STRING_STRING
      else if \<not> ecma_is_value_object typeof_arg then Fatal ERR_FAILED_INTERNAL_ASSERTION
      else if ecma_op_is_callable ext h typeof_arg then Returns ECMA_MAGIC_STRING_FUNCTION
      else Returns ECMA_MAGIC_STRING_OBJECT)"

definition opfunc_typeof ::
  "ecma_ext \<Rightarrow> interp_ext \<Rightarrow> idx_t \<Rightarrow> idx_t \<Rightarrow> int_data_t \<Rightarrow> ecma_heap
     \<Rightarrow> (ecma_completion_value_t \<times> int_data_t \<times> ecma_heap) outcome option" where
  "opfunc_typeof ext iext dst_var_idx obj_var_idx int_data h =
     then_pos_increment
       (ECMA_TRY_CATCH (with_frame int_data (evaluate_arg_for_typeof iext int_data h obj_var_idx))
          (\<lambda>typeof_arg (int_data, h1).
             case typeof_type_str ext h1 typeof_arg of
               Fatal e \<Rightarrow> Some (Fatal e)
             | Returns type_str_id \<Rightarrow>
                 set_variable_value iext int_data h1 (pos int_data) dst_var_idx
                   (ECMA_TYPE_STRING (ecma_get_magic_string type_str_id))))"

subsection \<open>The other handlers of opcodes.c\<close>

text \<open>
  Two tests on completions that the handlers below assert (ecma-helpers.h declares them;
  the bodies are not in the sources at hand).
\<close>

definition ecma_is_completion_value_normal_simple_value ::
  "ecma_completion_value_t \<Rightarrow> ecma_simple_value_t \<Rightarrow> bool" where
  "ecma_is_completion_value_normal_simple_value c simple_value =
     (ecma_is_completion_value_normal c \<and> completion_value c = ECMA_TYPE_SIMPLE simple_value)"

definition ecma_is_completion_value_normal_false :: "ecma_completion_value_t \<Rightarrow> bool" where
  "ecma_is_completion_value_normal_false c =
     ecma_is_completion_value_normal_simple_value c ECMA_SIMPLE_VALUE_FALSE"

text \<open>\<open>ecma_op_check_object_coercible\<close> (ecma-conversion.c).\<close>

definition ecma_op_check_object_coercible ::
  "ecma_ext \<Rightarrow> ecma_heap \<Rightarrow> ecma_value_t \<Rightarrow> (ecma_completion_value_t \<times> ecma_heap) outcome" where
  "ecma_op_check_object_coercible ext h v =
     (if \<not> ecma_check_value_type_is_spec_defined v then Fatal ERR_FAILED_INTERNAL_ASSERTION
      else if ecma_is_value_undefined v \<or> ecma_is_value_null v then
        (case ecma_new_standard_error ext ECMA_ERROR_TYPE h of
           (exception_obj_p, h') \<Rightarrow>
             Returns (ecma_make_throw_obj_completion_value exception_obj_p, h'))
      else Returns (ecma_make_empty_completion_value, h))"

text \<open>
  Modelled from the spec: \<open>ECMA_OP_TO_NUMBER_TRY_CATCH\<close> ...
  \<open>ECMA_OP_TO_NUMBER_FINALIZE\<close> of ecma-try-catch-macro.h (not in the sources at hand).
  The handler "invokes ToNumber" on the operand (spec, section 4.3); a completion that is
  not normal becomes the return value and the block is skipped (section 7); otherwise the
  block runs with the number.
\<close>

definition ECMA_OP_TO_NUMBER_TRY_CATCH ::
  "interp_ext \<Rightarrow> ecma_value_t \<Rightarrow> int_data_t \<times> ecma_heap
     \<Rightarrow> (ecma_number_t \<Rightarrow> int_data_t \<times> ecma_heap \<Rightarrow> opfunc_result) \<Rightarrow> opfunc_result" where
  "ECMA_OP_TO_NUMBER_TRY_CATCH iext v s block =
     ECMA_TRY_CATCH (with_frame (fst s) (ecma_op_to_number iext (snd s) v))
       (\<lambda>to_number_value s1.
          case to_number_value of
            ECMA_TYPE_NUMBER num \<Rightarrow> block num s1
          | _ \<Rightarrow> Some (Fatal ERR_FAILED_INTERNAL_ASSERTION))"

text \<open>
  \<open>opfunc_assignment\<close>. The last branch of the source asserts that the kind of the
  right operand is \<open>OPCODE_ARG_TYPE_SMALLINT_NEGATE\<close>; it is the one kind left here.
\<close>

definition opfunc_assignment ::
  "interp_ext \<Rightarrow> idx_t \<Rightarrow> opcode_arg_type_operand \<Rightarrow> idx_t \<Rightarrow> int_data_t \<Rightarrow> ecma_heap
     \<Rightarrow> opfunc_result" where
  "opfunc_assignment iext dst_var_idx type_value_right src_val_descr int_data h =
     then_pos_increment
       (case type_value_right of
          OPCODE_ARG_TYPE_SIMPLE \<Rightarrow>
            set_variable_value iext int_data h (pos int_data) dst_var_idx
              (ECMA_TYPE_SIMPLE (ecma_simple_value_of_idx iext src_val_descr))
        | OPCODE_ARG_TYPE_STRING \<Rightarrow>
            (let lit_id = deserialize_lit_id_by_uid iext src_val_descr (pos int_data);
                 string_p = ecma_new_ecma_string_from_lit_index iext lit_id
             in set_variable_value iext int_data h (pos int_data) dst_var_idx
                  (ECMA_TYPE_STRING string_p))
        | OPCODE_ARG_TYPE_VARIABLE \<Rightarrow>
            ECMA_TRY_CATCH
              (with_frame int_data (get_variable_value iext int_data h src_val_descr False))
              (\<lambda>var_value (int_data, h1).
                 set_variable_value iext int_data h1 (pos int_data) dst_var_idx var_value)
        | OPCODE_ARG_TYPE_NUMBER \<Rightarrow>
            (let lit_id = deserialize_lit_id_by_uid iext src_val_descr (pos int_data);
                 lit = deserialize_literal_by_id iext lit_id
             in if \<not> lit_type lit = LIT_NUMBER then Some (Fatal ERR_FAILED_INTERNAL_ASSERTION)
                else set_variable_value iext int_data h (pos int_data) dst_var_idx
                       (ECMA_TYPE_NUMBER (lit_data_num lit)))
        | OPCODE_ARG_TYPE_NUMBER_NEGATE \<Rightarrow>
            (let lit_id = deserialize_lit_id_by_uid iext src_val_descr (pos int_data);
                 lit = deserialize_literal_by_id iext lit_id
             in if \<not> lit_type lit = LIT_NUMBER then Some (Fatal ERR_FAILED_INTERNAL_ASSERTION)
                else set_variable_value iext int_data h (pos int_data) dst_var_idx
                       (ECMA_TYPE_NUMBER (ecma_number_negate iext (lit_data_num lit))))
        | OPCODE_ARG_TYPE_SMALLINT \<Rightarrow>
            set_variable_value iext int_data h (pos int_data) dst_var_idx
              (ECMA_TYPE_NUMBER (ecma_number_of_idx iext src_val_descr))
        | OPCODE_ARG_TYPE_SMALLINT_NEGATE \<Rightarrow>
            set_variable_value iext int_data h (pos int_data) dst_var_idx
              (ECMA_TYPE_NUMBER (ecma_number_negate iext (ecma_number_of_idx iext src_val_descr))))"

text \<open>
  The end of the four increment and decrement handlers: the new number goes to the
  operand (step 5), which gives the completion of the handler, and the result of the
  operator goes to the destination, where the source asserts the empty completion.
\<close>

definition incr_decr_store ::
  "interp_ext \<Rightarrow> idx_t \<Rightarrow> idx_t \<Rightarrow> ecma_value_t \<Rightarrow> ecma_value_t \<Rightarrow> int_data_t \<Rightarrow> ecma_heap
     \<Rightarrow> opfunc_result" where
  "incr_decr_store iext var_idx dst_var_idx new_num_value result_value int_data h =
     (case set_variable_value iext int_data h (pos int_data) var_idx new_num_value of
        None \<Rightarrow> None
      | Some (Fatal e) \<Rightarrow> Some (Fatal e)
      | Some (Returns (ret_value, int_data1, h1)) \<Rightarrow>
          (case set_variable_value iext int_data1 h1 (pos int_data1) dst_var_idx result_value of
             None \<Rightarrow> None
           | Some (Fatal e) \<Rightarrow> Some (Fatal e)
           | Some (Returns (reg_assignment_res, int_data2, h2)) \<Rightarrow>
               if \<not> ecma_is_completion_value_empty reg_assignment_res then
                 Some (Fatal ERR_FAILED_INTERNAL_ASSERTION)
               else Some (Returns (ret_value, int_data2, h2))))"

definition opfunc_pre_incr ::
  "interp_ext \<Rightarrow> idx_t \<Rightarrow> idx_t \<Rightarrow> int_data_t \<Rightarrow> ecma_heap \<Rightarrow> opfunc_result" where
  "opfunc_pre_incr iext dst_var_idx incr_var_idx int_data h =
     then_pos_increment
       (ECMA_TRY_CATCH (with_frame int_data (get_variable_value iext int_data h incr_var_idx True))
          (\<lambda>old_value s.
             ECMA_OP_TO_NUMBER_TRY_CATCH iext old_value s
               (\<lambda>old_num (int_data, h1).
                  let new_num_value =
                        ECMA_TYPE_NUMBER (ecma_number_add iext old_num (ECMA_NUMBER_ONE iext))
                  in incr_decr_store iext incr_var_idx dst_var_idx new_num_value new_num_value
                       int_data h1)))"

definition opfunc_pre_decr ::
  "interp_ext \<Rightarrow> idx_t \<Rightarrow> idx_t \<Rightarrow> int_data_t \<Rightarrow> ecma_heap \<Rightarrow> opfunc_result" where
  "opfunc_pre_decr iext dst_var_idx decr_var_idx int_data h =
     then_pos_increment
       (ECMA_TRY_CATCH (with_frame int_data (get_variable_value iext int_data h decr_var_idx True))
          (\<lambda>old_value s.
             ECMA_OP_TO_NUMBER_TRY_CATCH iext old_value s
               (\<lambda>old_num (int_data, h1).
                  let new_num_value =
                        ECMA_TYPE_NUMBER
                          (ecma_number_substract iext old_num (ECMA_NUMBER_ONE iext))
                  in incr_decr_store iext decr_var_idx dst_var_idx new_num_value new_num_value
                       int_data h1)))"

definition opfunc_post_incr ::
  "interp_ext \<Rightarrow> idx_t \<Rightarrow> idx_t \<Rightarrow> int_data_t \<Rightarrow> ecma_heap \<Rightarrow> opfunc_result" where
  "opfunc_post_incr iext dst_var_idx incr_var_idx int_data h =
     then_pos_increment
       (ECMA_TRY_CATCH (with_frame int_data (get_variable_value iext int_data h incr_var_idx True))
          (\<lambda>old_value s.
             ECMA_OP_TO_NUMBER_TRY_CATCH iext old_value s
               (\<lambda>old_num (int_data, h1).
                  let new_num_value =
                        ECMA_TYPE_NUMBER (ecma_number_add iext old_num (ECMA_NUMBER_ONE iext))
                  in incr_decr_store iext incr_var_idx dst_var_idx new_num_value
                       (ECMA_TYPE_NUMBER old_num) int_data h1)))"

definition opfunc_post_decr ::
  "interp_ext \<Rightarrow> idx_t \<Rightarrow> idx_t \<Rightarrow> int_data_t \<Rightarrow> ecma_heap \<Rightarrow> opfunc_result" where
  "opfunc_post_decr iext dst_var_idx decr_var_idx int_data h =
     then_pos_increment
       (ECMA_TRY_CATCH (with_frame int_data (get_variable_value iext int_data h decr_var_idx True))
          (\<lambda>old_value s.
             ECMA_OP_TO_NUMBER_TRY_CATCH iext old_value s
               (\<lambda>old_num (int_data, h1).
                  let new_num_value =
                        ECMA_TYPE_NUMBER
                          (ecma_number_substract iext old_num (ECMA_NUMBER_ONE iext))
                  in incr_decr_store iext decr_var_idx dst_var_idx new_num_value
                       (ECMA_TYPE_NUMBER old_num) int_data h1)))"

definition opfunc_var_decl ::
  "interp_ext \<Rightarrow> idx_t \<Rightarrow> int_data_t \<Rightarrow> ecma_heap \<Rightarrow> opfunc_result" where
  "opfunc_var_decl iext variable_name int_data h =
     (let lit_id = deserialize_lit_id_by_uid iext variable_name (pos int_data) in
      if \<not> lit_id \<noteq> INVALID_LITERAL iext then Some (Fatal ERR_FAILED_INTERNAL_ASSERTION)
      else
        (let var_name_string_p = ecma_new_ecma_string_from_lit_index iext lit_id in
         case ecma_op_has_binding iext h (lex_env_p int_data) var_name_string_p of
           None \<Rightarrow> None
         | Some (Fatal e) \<Rightarrow> Some (Fatal e)
         | Some (Returns True) \<Rightarrow>
             Some (Returns (ecma_make_empty_completion_value,
                            int_data\<lparr>pos := pos int_data + 1\<rparr>, h))
         | Some (Returns False) \<Rightarrow>
             (case ecma_op_create_mutable_binding iext h (lex_env_p int_data) var_name_string_p
                     (is_eval_code int_data) of
                None \<Rightarrow> None
              | Some (Fatal e) \<Rightarrow> Some (Fatal e)
              | Some (Returns (completion, h1)) \<Rightarrow>
                  if \<not> ecma_is_completion_value_empty completion then
                    Some (Fatal ERR_FAILED_INTERNAL_ASSERTION)
                  else
                    (case ecma_op_get_binding_value iext h1 (lex_env_p int_data)
                            var_name_string_p True of
                       None \<Rightarrow> None
                     | Some (Fatal e) \<Rightarrow> Some (Fatal e)
                     | Some (Returns (completion, h2)) \<Rightarrow>
                         if \<not> ecma_is_completion_value_normal_simple_value completion
                                ECMA_SIMPLE_VALUE_UNDEFINED then
                           Some (Fatal ERR_FAILED_INTERNAL_ASSERTION)
                         else
                           Some (Returns (ecma_make_empty_completion_value,
                                          int_data\<lparr>pos := pos int_data + 1\<rparr>, h2))))))"

text \<open>
  \<open>calc_opcode_counter_from_idx_idx\<close> and \<open>read_meta_opcode_counter\<close>. The second reads
  the member \<open>meta\<close> of the instruction at the position of the frame without a test of
  the opcode tag.
\<close>

definition calc_opcode_counter_from_idx_idx :: "idx_t \<Rightarrow> idx_t \<Rightarrow> opcode_counter_t" where
  "calc_opcode_counter_from_idx_idx oc_idx_1 oc_idx_2 =
     push_bit 8 (ucast oc_idx_1) OR ucast oc_idx_2"

definition opcode_meta_data ::
  "interp_ext \<Rightarrow> opcode_t \<Rightarrow> opcode_meta_type \<times> idx_t \<times> idx_t" where
  "opcode_meta_data iext opcode =
     (case opcode of
        op_meta type data_1 data_2 \<Rightarrow> (type, data_1, data_2)
      | _ \<Rightarrow> opcode_data_as_meta iext opcode)"

definition read_meta_opcode_counter ::
  "interp_ext \<Rightarrow> program_t \<Rightarrow> opcode_meta_type \<Rightarrow> int_data_t \<Rightarrow> opcode_counter_t outcome" where
  "read_meta_opcode_counter iext program expected_type int_data =
     (case opcode_meta_data iext (read_opcode program (pos int_data)) of
        (type, data_1, data_2) \<Rightarrow>
          if \<not> type = expected_type then Fatal ERR_FAILED_INTERNAL_ASSERTION
          else Returns (calc_opcode_counter_from_idx_idx data_1 data_2))"

text \<open>
  The test of \<open>run_int\<close>, \<open>function_declaration\<close> and \<open>opfunc_func_expr_n\<close> for the
  marker of strict code: a meta instruction of the type \<open>OPCODE_META_TYPE_STRICT_CODE\<close>.
\<close>

definition is_strict_code_marker :: "opcode_t \<Rightarrow> bool" where
  "is_strict_code_marker opcode =
     (case opcode of
        op_meta type data_1 data_2 \<Rightarrow> type = OPCODE_META_TYPE_STRICT_CODE
      | _ \<Rightarrow> False)"

definition function_declaration ::
  "interp_ext \<Rightarrow> program_t \<Rightarrow> int_data_t \<Rightarrow> ecma_heap \<Rightarrow> literal_index_t
     \<Rightarrow> ecma_string_t list \<Rightarrow> opfunc_result" where
  "function_declaration iext program int_data h function_name_lit_id args_names =
     (case read_meta_opcode_counter iext program OPCODE_META_TYPE_FUNCTION_END int_data of
        Fatal e \<Rightarrow> Some (Fatal e)
      | Returns function_end \<Rightarrow>
          (let function_code_end_oc = function_end + pos int_data;
               int_data1 = int_data\<lparr>pos := pos int_data + 1\<rparr>;
               strict_marker = is_strict_code_marker (read_opcode program (pos int_data1));
               is_strict_function = (is_strict int_data \<or> strict_marker);
               int_data2 = (if strict_marker then int_data1\<lparr>pos := pos int_data1 + 1\<rparr>
                            else int_data1);
               function_name_string_p =
                 ecma_new_ecma_string_from_lit_index iext function_name_lit_id
           in case ecma_op_function_declaration iext h (lex_env_p int_data2)
                     function_name_string_p (pos int_data2) args_names is_strict_function
                     (is_eval_code int_data) of
                None \<Rightarrow> None
              | Some (Fatal e) \<Rightarrow> Some (Fatal e)
              | Some (Returns (ret_value, h1)) \<Rightarrow>
                  Some (Returns (ret_value, int_data2\<lparr>pos := function_code_end_oc\<rparr>, h1))))"

definition opfunc_func_decl_n ::
  "interp_ext \<Rightarrow> program_t \<Rightarrow> idx_t \<Rightarrow> idx_t \<Rightarrow> int_data_t \<Rightarrow> ecma_heap \<Rightarrow> opfunc_result" where
  "opfunc_func_decl_n iext program function_name_idx params_number int_data h =
     (let function_name_lit_id = deserialize_lit_id_by_uid iext function_name_idx (pos int_data);
          int_data1 = int_data\<lparr>pos := pos int_data + 1\<rparr>
      in case fill_params_list iext program int_data1 (unat params_number) of
           Fatal e \<Rightarrow> Some (Fatal e)
         | Returns (params_names, int_data2) \<Rightarrow>
             function_declaration iext program int_data2 h function_name_lit_id params_names)"

text \<open>
  The scope of a function expression: for a named one a new declarative environment
  with the immutable binding of the name, else the environment of the frame. The result
  has the name, which is the null pointer for an expression without a name.
\<close>

definition func_expr_scope ::
  "interp_ext \<Rightarrow> opcode_counter_t \<Rightarrow> idx_t \<Rightarrow> int_data_t \<Rightarrow> ecma_heap
     \<Rightarrow> (ecma_object_ptr_t \<times> ecma_string_t option \<times> ecma_heap) outcome" where
  "func_expr_scope iext lit_oc function_name_lit_idx int_data h =
     (if function_name_lit_idx \<noteq> INVALID_VALUE iext then
        (case ecma_create_decl_lex_env iext h (Some (lex_env_p int_data)) of
           (scope_p, h1) \<Rightarrow>
             (let lit_id = deserialize_lit_id_by_uid iext function_name_lit_idx lit_oc in
              if \<not> lit_id \<noteq> INVALID_LITERAL iext then Fatal ERR_FAILED_INTERNAL_ASSERTION
              else
                (let function_name_string_p = ecma_new_ecma_string_from_lit_index iext lit_id in
                 case ecma_op_create_immutable_binding iext h1 scope_p function_name_string_p of
                   Fatal e \<Rightarrow> Fatal e
                 | Returns h2 \<Rightarrow> Returns (scope_p, Some function_name_string_p, h2))))
      else Returns (lex_env_p int_data, None, h))"

definition opfunc_func_expr_n ::
  "interp_ext \<Rightarrow> program_t \<Rightarrow> idx_t \<Rightarrow> idx_t \<Rightarrow> idx_t \<Rightarrow> int_data_t \<Rightarrow> ecma_heap
     \<Rightarrow> opfunc_result" where
  "opfunc_func_expr_n iext program dst_var_idx function_name_lit_idx params_number int_data h =
     (let lit_oc = pos int_data;
          int_data1 = int_data\<lparr>pos := pos int_data + 1\<rparr>
      in case fill_params_list iext program int_data1 (unat params_number) of
           Fatal e \<Rightarrow> Some (Fatal e)
         | Returns (params_names, int_data2) \<Rightarrow>
             (case read_meta_opcode_counter iext program OPCODE_META_TYPE_FUNCTION_END
                     int_data2 of
                Fatal e \<Rightarrow> Some (Fatal e)
              | Returns function_end \<Rightarrow>
                  (let function_code_end_oc = function_end + pos int_data2;
                       int_data3 = int_data2\<lparr>pos := pos int_data2 + 1\<rparr>;
                       strict_marker =
                         is_strict_code_marker (read_opcode program (pos int_data3));
                       is_strict_function = (is_strict int_data2 \<or> strict_marker);
                       int_data4 = (if strict_marker
                                    then int_data3\<lparr>pos := pos int_data3 + 1\<rparr>
                                    else int_data3)
                   in case func_expr_scope iext lit_oc function_name_lit_idx int_data4 h of
                        Fatal e \<Rightarrow> Some (Fatal e)
                      | Returns (scope_p, function_name_string_p, h1) \<Rightarrow>
                          (case ecma_op_create_function_object iext h1 params_names scope_p
                                  is_strict_function (pos int_data4) of
                             (func_obj_p, h2) \<Rightarrow>
                               (case set_variable_value iext int_data4 h2 lit_oc dst_var_idx
                                       (ECMA_TYPE_OBJECT func_obj_p) of
                                  None \<Rightarrow> None
                                | Some (Fatal e) \<Rightarrow> Some (Fatal e)
                                | Some (Returns (ret_value, int_data5, h3)) \<Rightarrow>
                                    (case (case function_name_string_p of
                                             None \<Rightarrow> Returns h3
                                           | Some name \<Rightarrow>
                                               ecma_op_initialize_immutable_binding iext h3
                                                 scope_p name (ECMA_TYPE_OBJECT func_obj_p)) of
                                       Fatal e \<Rightarrow> Some (Fatal e)
                                     | Returns h4 \<Rightarrow>
                                         Some (Returns
                                                 (ret_value,
                                                  int_data5\<lparr>pos := function_code_end_oc\<rparr>,
                                                  h4))))))))"

text \<open>
  The start of \<open>opfunc_call_n\<close> after the read of the function: a meta instruction of
  the type \<open>OPCODE_META_TYPE_THIS_ARG\<close> that follows names the register of the this
  value and counts as one of the arguments. The result is that register, if any, the
  number of the arguments proper, and the frame.
\<close>

definition call_n_this_arg ::
  "int_data_t \<Rightarrow> opcode_t \<Rightarrow> idx_t \<Rightarrow> (idx_t option \<times> idx_t \<times> int_data_t) outcome" where
  "call_n_this_arg int_data next_opcode args_number_idx =
     (case next_opcode of
        op_meta type data_1 data_2 \<Rightarrow>
          if type = OPCODE_META_TYPE_THIS_ARG then
            (if \<not> is_reg_variable int_data data_1 then Fatal ERR_FAILED_INTERNAL_ASSERTION
             else if \<not> args_number_idx > 0 then Fatal ERR_FAILED_INTERNAL_ASSERTION
             else Returns (Some data_1, args_number_idx - 1,
                           int_data\<lparr>pos := pos int_data + 1\<rparr>))
          else Returns (None, args_number_idx, int_data)
      | _ \<Rightarrow> Returns (None, args_number_idx, int_data))"

definition opfunc_call_n ::
  "ecma_ext \<Rightarrow> interp_ext \<Rightarrow> program_t \<Rightarrow> idx_t \<Rightarrow> idx_t \<Rightarrow> idx_t \<Rightarrow> int_data_t \<Rightarrow> ecma_heap
     \<Rightarrow> opfunc_result" where
  "opfunc_call_n ext iext program lhs_var_idx func_name_lit_idx args_number_idx int_data h =
     (let lit_oc = pos int_data in
      ECMA_TRY_CATCH
        (with_frame int_data (get_variable_value iext int_data h func_name_lit_idx False))
        (\<lambda>func_value (int_data, h1).
           let int_data1 = int_data\<lparr>pos := pos int_data + 1\<rparr> in
           case call_n_this_arg int_data1 (read_opcode program (pos int_data1)) args_number_idx of
             Fatal e \<Rightarrow> Some (Fatal e)
           | Returns (this_arg_var_idx, args_number, int_data2) \<Rightarrow>
               (case fill_varg_list iext program int_data2 h1 (unat args_number) of
                  None \<Rightarrow> None
                | Some (Fatal e) \<Rightarrow> Some (Fatal e)
                | Some (Returns (get_arg_completion, arg_values, args_read, int_data3, h2)) \<Rightarrow>
                    if ecma_is_completion_value_empty get_arg_completion then
                      (if \<not> args_read = unat args_number then
                         Some (Fatal ERR_FAILED_INTERNAL_ASSERTION)
                       else
                         (case (case this_arg_var_idx of
                                  Some var_idx \<Rightarrow> get_variable_value iext int_data3 h2 var_idx False
                                | None \<Rightarrow>
                                    ecma_op_implicit_this_value iext h2 (lex_env_p int_data3)) of
                            None \<Rightarrow> None
                          | Some (Fatal e) \<Rightarrow> Some (Fatal e)
                          | Some (Returns (get_this_completion_value, h3)) \<Rightarrow>
                              if \<not> ecma_is_completion_value_normal get_this_completion_value then
                                Some (Fatal ERR_FAILED_INTERNAL_ASSERTION)
                              else if \<not> ecma_op_is_callable ext h3 func_value then
                                (case ecma_new_standard_error ext ECMA_ERROR_TYPE h3 of
                                   (exception_obj_p, h4) \<Rightarrow>
                                     Some (Returns
                                             (ecma_make_throw_obj_completion_value exception_obj_p,
                                              int_data3, h4)))
                              else
                                (case func_value of
                                   ECMA_TYPE_OBJECT func_obj_p \<Rightarrow>
                                     ECMA_TRY_CATCH
                                       (with_frame int_data3
                                          (ecma_op_function_call ext h3 func_obj_p
                                             (completion_value get_this_completion_value)
                                             arg_values))
                                       (\<lambda>call_ret_value (int_data, h4).
                                          set_variable_value iext int_data h4 lit_oc lhs_var_idx
                                            call_ret_value)
                                 | _ \<Rightarrow> Some (Fatal ERR_FAILED_INTERNAL_ASSERTION))))
                    else if ecma_is_completion_value_normal get_arg_completion then
                      Some (Fatal ERR_FAILED_INTERNAL_ASSERTION)
                    else Some (Returns (get_arg_completion, int_data3, h2)))))"

definition opfunc_construct_n ::
  "ecma_ext \<Rightarrow> interp_ext \<Rightarrow> program_t \<Rightarrow> idx_t \<Rightarrow> idx_t \<Rightarrow> idx_t \<Rightarrow> int_data_t \<Rightarrow> ecma_heap
     \<Rightarrow> opfunc_result" where
  "opfunc_construct_n ext iext program lhs_var_idx constructor_name_lit_idx args_number
       int_data h =
     (let lit_oc = pos int_data in
      ECMA_TRY_CATCH
        (with_frame int_data
           (get_variable_value iext int_data h constructor_name_lit_idx False))
        (\<lambda>constructor_value (int_data, h1).
           let int_data1 = int_data\<lparr>pos := pos int_data + 1\<rparr> in
           case fill_varg_list iext program int_data1 h1 (unat args_number) of
             None \<Rightarrow> None
           | Some (Fatal e) \<Rightarrow> Some (Fatal e)
           | Some (Returns (get_arg_completion, arg_values, args_read, int_data2, h2)) \<Rightarrow>
               if ecma_is_completion_value_empty get_arg_completion then
                 (if \<not> args_read = unat args_number then
                    Some (Fatal ERR_FAILED_INTERNAL_ASSERTION)
                  else if \<not> ecma_is_constructor iext h2 constructor_value then
                    (case ecma_new_standard_error ext ECMA_ERROR_TYPE h2 of
                       (exception_obj_p, h3) \<Rightarrow>
                         Some (Returns (ecma_make_throw_obj_completion_value exception_obj_p,
                                        int_data2, h3)))
                  else
                    (case constructor_value of
                       ECMA_TYPE_OBJECT constructor_obj_p \<Rightarrow>
                         ECMA_TRY_CATCH
                           (with_frame int_data2
                              (ecma_op_function_construct iext h2 constructor_obj_p arg_values))
                           (\<lambda>construction_ret_value (int_data, h3).
                              set_variable_value iext int_data h3 lit_oc lhs_var_idx
                                construction_ret_value)
                     | _ \<Rightarrow> Some (Fatal ERR_FAILED_INTERNAL_ASSERTION)))
               else if ecma_is_completion_value_normal get_arg_completion then
                 Some (Fatal ERR_FAILED_INTERNAL_ASSERTION)
               else Some (Returns (get_arg_completion, int_data2, h2))))"

definition opfunc_array_decl ::
  "interp_ext \<Rightarrow> program_t \<Rightarrow> idx_t \<Rightarrow> idx_t \<Rightarrow> int_data_t \<Rightarrow> ecma_heap \<Rightarrow> opfunc_result" where
  "opfunc_array_decl iext program lhs_var_idx args_number int_data h =
     (let lit_oc = pos int_data;
          int_data1 = int_data\<lparr>pos := pos int_data + 1\<rparr>
      in case fill_varg_list iext program int_data1 h (unat args_number) of
           None \<Rightarrow> None
         | Some (Fatal e) \<Rightarrow> Some (Fatal e)
         | Some (Returns (get_arg_completion, arg_values, args_read, int_data2, h1)) \<Rightarrow>
             if ecma_is_completion_value_empty get_arg_completion then
               (if \<not> args_read = unat args_number then Some (Fatal ERR_FAILED_INTERNAL_ASSERTION)
                else
                  ECMA_TRY_CATCH
                    (with_frame int_data2 (ecma_op_create_array_object iext h1 arg_values False))
                    (\<lambda>array_obj_value (int_data, h2).
                       set_variable_value iext int_data h2 lit_oc lhs_var_idx array_obj_value))
             else if ecma_is_completion_value_normal get_arg_completion then
               Some (Fatal ERR_FAILED_INTERNAL_ASSERTION)
             else Some (Returns (get_arg_completion, int_data2, h1)))"

text \<open>
  \<open>opfunc_obj_decl\<close>, in three parts. First the block of an iteration that defines the
  property: the property of that name that the object has so far, the descriptor for the
  kind of the entry, the assertion that stands for the early SyntaxError, and
  \<open>[[DefineOwnProperty]]\<close>.
\<close>

definition obj_decl_define_property ::
  "ecma_ext \<Rightarrow> ecma_heap \<Rightarrow> ecma_object_ptr_t \<Rightarrow> bool \<Rightarrow> opcode_meta_type \<Rightarrow> ecma_string_t
     \<Rightarrow> ecma_value_t \<Rightarrow> ecma_heap outcome" where
  "obj_decl_define_property ext h obj_p strict type prop_name_string_p value_for_prop_desc =
     (case ecma_op_object_get_own_property h obj_p prop_name_string_p of
        Fatal e \<Rightarrow> Fatal e
      | Returns previous_p \<Rightarrow>
          (let is_previous_undefined = (previous_p = None);
               is_previous_data_desc =
                 (case previous_p of
                    None \<Rightarrow> False
                  | Some p \<Rightarrow> property_is_named_data (ecma_property_at h p));
               is_previous_accessor_desc =
                 (case previous_p of
                    None \<Rightarrow> False
                  | Some p \<Rightarrow> property_is_named_accessor (ecma_property_at h p));
               prop_desc0 =
                 ecma_make_empty_property_descriptor
                   \<lparr>is_enumerable_defined := True, is_enumerable := True,
                    is_configurable_defined := True, is_configurable := True\<rparr>
           in if \<not> (is_previous_undefined \<or> is_previous_data_desc \<or> is_previous_accessor_desc)
              then Fatal ERR_FAILED_INTERNAL_ASSERTION
              else
                (case (if type = OPCODE_META_TYPE_VARG_PROP_DATA then
                         Returns
                           (prop_desc0\<lparr>is_value_defined := True,
                                       desc_value := value_for_prop_desc,
                                       is_writable_defined := True, is_writable := True\<rparr>,
                            \<not> is_previous_undefined
                            \<and> ((is_previous_data_desc \<and> strict) \<or> is_previous_accessor_desc))
                       else if type = OPCODE_META_TYPE_VARG_PROP_GETTER then
                         (case value_for_prop_desc of
                            ECMA_TYPE_OBJECT get_p \<Rightarrow>
                              Returns
                                (prop_desc0\<lparr>is_get_defined := True, desc_get_p := Some get_p\<rparr>,
                                 \<not> is_previous_undefined \<and> is_previous_data_desc)
                          | _ \<Rightarrow> Fatal ERR_FAILED_INTERNAL_ASSERTION)
                       else
                         (case value_for_prop_desc of
                            ECMA_TYPE_OBJECT set_p \<Rightarrow>
                              Returns
                                (prop_desc0\<lparr>is_set_defined := True, desc_set_p := Some set_p\<rparr>,
                                 \<not> is_previous_undefined \<and> is_previous_data_desc)
                          | _ \<Rightarrow> Fatal ERR_FAILED_INTERNAL_ASSERTION)) of
                   Fatal e \<Rightarrow> Fatal e
                 | Returns (prop_desc, is_throw_syntax_error) \<Rightarrow>
                     if is_throw_syntax_error then Fatal ERR_FAILED_INTERNAL_ASSERTION
                     else
                       (case ecma_op_object_define_own_property ext h obj_p prop_name_string_p
                               prop_desc False of
                          Fatal e \<Rightarrow> Fatal e
                        | Returns (define_prop_completion, h1) \<Rightarrow>
                            if \<not> (ecma_is_completion_value_normal_true define_prop_completion
                                   \<or> ecma_is_completion_value_normal_false define_prop_completion)
                            then Fatal ERR_FAILED_INTERNAL_ASSERTION
                            else Returns h1))))"

text \<open>
  Second, the two \<open>ECMA_TRY_CATCH\<close> around that block: the name of the property is read
  from its register and converted to a string. A completion that is not normal skips the
  block; it is written to the return value of the handler, which the handler overwrites
  after the loop, so that what is left of it here is the heap.
\<close>

definition obj_decl_property ::
  "ecma_ext \<Rightarrow> interp_ext \<Rightarrow> ecma_object_ptr_t \<Rightarrow> opcode_meta_type \<Rightarrow> idx_t \<Rightarrow> ecma_value_t
     \<Rightarrow> int_data_t \<Rightarrow> ecma_heap \<Rightarrow> ecma_heap outcome option" where
  "obj_decl_property ext iext obj_p type prop_name_var_idx value_for_prop_desc int_data h =
     (case get_variable_value iext int_data h prop_name_var_idx False of
        None \<Rightarrow> None
      | Some (Fatal e) \<Rightarrow> Some (Fatal e)
      | Some (Returns (prop_name_completion, h1)) \<Rightarrow>
          if \<not> ecma_is_completion_value_normal prop_name_completion then Some (Returns h1)
          else
            (case ecma_op_to_string iext h1 (completion_value prop_name_completion) of
               None \<Rightarrow> None
             | Some (Fatal e) \<Rightarrow> Some (Fatal e)
             | Some (Returns (prop_name_str_completion, h2)) \<Rightarrow>
                 if \<not> ecma_is_completion_value_normal prop_name_str_completion then
                   Some (Returns h2)
                 else
                   (case completion_value prop_name_str_completion of
                      ECMA_TYPE_STRING prop_name_string_p \<Rightarrow>
                        Some (obj_decl_define_property ext h2 obj_p (is_strict int_data) type
                                prop_name_string_p value_for_prop_desc)
                    | _ \<Rightarrow> Some (Fatal ERR_FAILED_INTERNAL_ASSERTION))))"

text \<open>
  Third, the \<open>for\<close> loop over the entries, by the number of the entries that are left.
  Every iteration runs the interpreter loop, which is the parameter \<open>loop\<close>, on the right
  side of the entry and reads the meta instruction that follows. The result is the value
  of the local variable \<open>completion\<close> after the loop: the empty completion that it is
  constructed with, or the completion that left the loop at \<open>break\<close>.
\<close>

fun obj_decl_props ::
  "ecma_ext \<Rightarrow> interp_ext \<Rightarrow> program_t \<Rightarrow> (int_data_t \<Rightarrow> ecma_heap \<Rightarrow> opfunc_result) \<Rightarrow> nat
     \<Rightarrow> ecma_object_ptr_t \<Rightarrow> int_data_t \<Rightarrow> ecma_heap \<Rightarrow> opfunc_result" where
  "obj_decl_props ext iext program loop 0 obj_p int_data h =
     Some (Returns (ecma_make_empty_completion_value, int_data, h))"
| "obj_decl_props ext iext program loop (Suc props_left) obj_p int_data h =
     (case loop int_data h of
        None \<Rightarrow> None
      | Some (Fatal e) \<Rightarrow> Some (Fatal e)
      | Some (Returns (evaluate_prop_completion, int_data1, h1)) \<Rightarrow>
          if ecma_is_completion_value_normal evaluate_prop_completion then
            (if \<not> ecma_is_completion_value_empty evaluate_prop_completion then
               Some (Fatal ERR_FAILED_INTERNAL_ASSERTION)
             else
               (case read_opcode program (pos int_data1) of
                  op_meta type prop_name_var_idx value_for_prop_desc_var_idx \<Rightarrow>
                    if \<not> (type = OPCODE_META_TYPE_VARG_PROP_DATA
                           \<or> type = OPCODE_META_TYPE_VARG_PROP_GETTER
                           \<or> type = OPCODE_META_TYPE_VARG_PROP_SETTER) then
                      Some (Fatal ERR_FAILED_INTERNAL_ASSERTION)
                    else
                      (case get_variable_value iext int_data1 h1 value_for_prop_desc_var_idx
                              False of
                         None \<Rightarrow> None
                       | Some (Fatal e) \<Rightarrow> Some (Fatal e)
                       | Some (Returns (value_for_prop_desc_completion, h2)) \<Rightarrow>
                           if ecma_is_completion_value_normal value_for_prop_desc_completion then
                             (if \<not> is_reg_variable int_data1 prop_name_var_idx then
                                Some (Fatal ERR_FAILED_INTERNAL_ASSERTION)
                              else
                                (case obj_decl_property ext iext obj_p type prop_name_var_idx
                                        (completion_value value_for_prop_desc_completion)
                                        int_data1 h2 of
                                   None \<Rightarrow> None
                                 | Some (Fatal e) \<Rightarrow> Some (Fatal e)
                                 | Some (Returns h3) \<Rightarrow>
                                     obj_decl_props ext iext program loop props_left obj_p
                                       (int_data1\<lparr>pos := pos int_data1 + 1\<rparr>) h3))
                           else Some (Returns (value_for_prop_desc_completion, int_data1, h2)))
                | _ \<Rightarrow> Some (Fatal ERR_FAILED_INTERNAL_ASSERTION)))
          else Some (Returns (evaluate_prop_completion, int_data1, h1)))"

definition opfunc_obj_decl ::
  "ecma_ext \<Rightarrow> interp_ext \<Rightarrow> program_t \<Rightarrow> (int_data_t \<Rightarrow> ecma_heap \<Rightarrow> opfunc_result)
     \<Rightarrow> idx_t \<Rightarrow> idx_t \<Rightarrow> int_data_t \<Rightarrow> ecma_heap \<Rightarrow> opfunc_result" where
  "opfunc_obj_decl ext iext program loop lhs_var_idx args_number int_data h =
     (let obj_lit_oc = pos int_data;
          int_data1 = int_data\<lparr>pos := pos int_data + 1\<rparr>
      in case ecma_op_create_object_object_noarg ext h of
           (obj_p, h1) \<Rightarrow>
             (case obj_decl_props ext iext program loop (unat args_number) obj_p int_data1 h1 of
                None \<Rightarrow> None
              | Some (Fatal e) \<Rightarrow> Some (Fatal e)
              | Some (Returns (completion, int_data2, h2)) \<Rightarrow>
                  if ecma_is_completion_value_empty completion then
                    set_variable_value iext int_data2 h2 obj_lit_oc lhs_var_idx
                      (ECMA_TYPE_OBJECT obj_p)
                  else Some (Returns (completion, int_data2, h2))))"

definition opfunc_prop_getter ::
  "ecma_ext \<Rightarrow> interp_ext \<Rightarrow> idx_t \<Rightarrow> idx_t \<Rightarrow> idx_t \<Rightarrow> int_data_t \<Rightarrow> ecma_heap
     \<Rightarrow> opfunc_result" where
  "opfunc_prop_getter ext iext lhs_var_idx base_var_idx prop_name_var_idx int_data h =
     then_pos_increment
       (ECMA_TRY_CATCH (with_frame int_data (get_variable_value iext int_data h base_var_idx False))
          (\<lambda>base_value (int_data, h1).
             ECMA_TRY_CATCH
               (with_frame int_data (get_variable_value iext int_data h1 prop_name_var_idx False))
               (\<lambda>prop_name_value (int_data, h2).
                  ECMA_TRY_CATCH
                    (with_frame int_data (Some (ecma_op_check_object_coercible ext h2 base_value)))
                    (\<lambda>check_coercible_ret (int_data, h3).
                       ECMA_TRY_CATCH
                         (with_frame int_data (ecma_op_to_string iext h3 prop_name_value))
                         (\<lambda>prop_name_str_value (int_data, h4).
                            case prop_name_str_value of
                              ECMA_TYPE_STRING prop_name_string_p \<Rightarrow>
                                ECMA_TRY_CATCH
                                  (with_frame int_data
                                     (ecma_op_get_value_object_base iext h4
                                        (ecma_make_reference base_value prop_name_string_p
                                           (is_strict int_data))))
                                  (\<lambda>prop_value (int_data, h5).
                                     set_variable_value iext int_data h5 (pos int_data)
                                       lhs_var_idx prop_value)
                            | _ \<Rightarrow> Some (Fatal ERR_FAILED_INTERNAL_ASSERTION))))))"

definition opfunc_prop_setter ::
  "ecma_ext \<Rightarrow> interp_ext \<Rightarrow> idx_t \<Rightarrow> idx_t \<Rightarrow> idx_t \<Rightarrow> int_data_t \<Rightarrow> ecma_heap
     \<Rightarrow> opfunc_result" where
  "opfunc_prop_setter ext iext base_var_idx prop_name_var_idx rhs_var_idx int_data h =
     then_pos_increment
       (ECMA_TRY_CATCH (with_frame int_data (get_variable_value iext int_data h base_var_idx False))
          (\<lambda>base_value (int_data, h1).
             ECMA_TRY_CATCH
               (with_frame int_data (get_variable_value iext int_data h1 prop_name_var_idx False))
               (\<lambda>prop_name_value (int_data, h2).
                  ECMA_TRY_CATCH
                    (with_frame int_data (Some (ecma_op_check_object_coercible ext h2 base_value)))
                    (\<lambda>check_coercible_ret (int_data, h3).
                       ECMA_TRY_CATCH
                         (with_frame int_data (ecma_op_to_string iext h3 prop_name_value))
                         (\<lambda>prop_name_str_value (int_data, h4).
                            case prop_name_str_value of
                              ECMA_TYPE_STRING prop_name_string_p \<Rightarrow>
                                ECMA_TRY_CATCH
                                  (with_frame int_data
                                     (get_variable_value iext int_data h4 rhs_var_idx False))
                                  (\<lambda>rhs_value (int_data, h5).
                                     with_frame int_data
                                       (ecma_op_put_value_object_base iext h5
                                          (ecma_make_reference base_value prop_name_string_p
                                             (is_strict int_data))
                                          rhs_value))
                            | _ \<Rightarrow> Some (Fatal ERR_FAILED_INTERNAL_ASSERTION))))))"

definition opfunc_logical_not ::
  "interp_ext \<Rightarrow> idx_t \<Rightarrow> idx_t \<Rightarrow> int_data_t \<Rightarrow> ecma_heap \<Rightarrow> opfunc_result" where
  "opfunc_logical_not iext dst_var_idx right_var_idx int_data h =
     then_pos_increment
       (ECMA_TRY_CATCH
          (with_frame int_data (get_variable_value iext int_data h right_var_idx False))
          (\<lambda>right_value (int_data, h1).
             case ecma_op_to_boolean right_value of
               Fatal e \<Rightarrow> Some (Fatal e)
             | Returns to_bool_value \<Rightarrow>
                 set_variable_value iext int_data h1 (pos int_data) dst_var_idx
                   (ECMA_TYPE_SIMPLE
                      (if ecma_is_completion_value_normal_true to_bool_value
                       then ECMA_SIMPLE_VALUE_FALSE else ECMA_SIMPLE_VALUE_TRUE))))"

text \<open>
  \<open>opfunc_with\<close> runs the interpreter loop, the parameter \<open>loop\<close>, on the body, in a
  frame whose lexical environment is the new object-bound environment, and puts the old
  environment back afterwards.
\<close>

definition opfunc_with ::
  "interp_ext \<Rightarrow> program_t \<Rightarrow> (int_data_t \<Rightarrow> ecma_heap \<Rightarrow> opfunc_result) \<Rightarrow> idx_t
     \<Rightarrow> int_data_t \<Rightarrow> ecma_heap \<Rightarrow> opfunc_result" where
  "opfunc_with iext program loop expr_var_idx int_data h =
     ECMA_TRY_CATCH (with_frame int_data (get_variable_value iext int_data h expr_var_idx False))
       (\<lambda>expr_value (int_data, h1).
          ECMA_TRY_CATCH (with_frame int_data (ecma_op_to_object iext h1 expr_value))
            (\<lambda>obj_expr_value (int_data, h2).
               let int_data1 = int_data\<lparr>pos := pos int_data + 1\<rparr> in
               case obj_expr_value of
                 ECMA_TYPE_OBJECT obj_p \<Rightarrow>
                   (let old_env_p = lex_env_p int_data1 in
                    case ecma_create_object_lex_env iext h2 (Some old_env_p) obj_p True of
                      (new_env_p, h3) \<Rightarrow>
                        (case loop (int_data1\<lparr>lex_env_p := new_env_p\<rparr>) h3 of
                           None \<Rightarrow> None
                         | Some (Fatal e) \<Rightarrow> Some (Fatal e)
                         | Some (Returns (evaluation_completion, int_data2, h4)) \<Rightarrow>
                             if ecma_is_completion_value_normal evaluation_completion then
                               (if \<not> ecma_is_completion_value_empty evaluation_completion then
                                  Some (Fatal ERR_FAILED_INTERNAL_ASSERTION)
                                else
                                  (case read_opcode program (pos int_data2) of
                                     op_meta type data_1 data_2 \<Rightarrow>
                                       if \<not> type = OPCODE_META_TYPE_END_WITH then
                                         Some (Fatal ERR_FAILED_INTERNAL_ASSERTION)
                                       else
                                         Some (Returns
                                                 (ecma_make_empty_completion_value,
                                                  int_data2\<lparr>pos := pos int_data2 + 1,
                                                            lex_env_p := old_env_p\<rparr>,
                                                  h4))
                                   | _ \<Rightarrow> Some (Fatal ERR_FAILED_INTERNAL_ASSERTION)))
                             else
                               Some (Returns (evaluation_completion,
                                              int_data2\<lparr>lex_env_p := old_env_p\<rparr>, h4))))
               | _ \<Rightarrow> Some (Fatal ERR_FAILED_INTERNAL_ASSERTION)))"

definition opfunc_delete_var ::
  "interp_ext \<Rightarrow> idx_t \<Rightarrow> idx_t \<Rightarrow> int_data_t \<Rightarrow> ecma_heap \<Rightarrow> opfunc_result" where
  "opfunc_delete_var iext dst_var_idx name_lit_idx int_data h =
     (let lit_oc = pos int_data;
          int_data1 = int_data\<lparr>pos := pos int_data + 1\<rparr>;
          lit_id = deserialize_lit_id_by_uid iext name_lit_idx lit_oc
      in if \<not> lit_id \<noteq> INVALID_LITERAL iext then Some (Fatal ERR_FAILED_INTERNAL_ASSERTION)
         else
           (let name_string_p = ecma_new_ecma_string_from_lit_index iext lit_id;
                ref = ecma_op_get_identifier_reference iext h (lex_env_p int_data1) name_string_p
                        (is_strict int_data1)
            in if ref_is_strict ref then Some (Fatal ERR_FAILED_INTERNAL_ASSERTION)
               else if ecma_is_value_undefined (ref_base ref) then
                 set_variable_value iext int_data1 h lit_oc dst_var_idx
                   (ECMA_TYPE_SIMPLE ECMA_SIMPLE_VALUE_TRUE)
               else
                 (case ref_base ref of
                    ECMA_TYPE_OBJECT bindings_p \<Rightarrow>
                      if \<not> ecma_is_lexical_environment h bindings_p then
                        Some (Fatal ERR_FAILED_INTERNAL_ASSERTION)
                      else
                        ECMA_TRY_CATCH
                          (with_frame int_data1
                             (ecma_op_delete_binding iext h bindings_p (ref_referenced_name ref)))
                          (\<lambda>delete_completion (int_data, h1).
                             set_variable_value iext int_data h1 lit_oc dst_var_idx
                               delete_completion)
                  | _ \<Rightarrow> Some (Fatal ERR_FAILED_INTERNAL_ASSERTION))))"

definition opfunc_delete_prop ::
  "ecma_ext \<Rightarrow> interp_ext \<Rightarrow> idx_t \<Rightarrow> idx_t \<Rightarrow> idx_t \<Rightarrow> int_data_t \<Rightarrow> ecma_heap
     \<Rightarrow> opfunc_result" where
  "opfunc_delete_prop ext iext dst_var_idx base_var_idx name_var_idx int_data h =
     then_pos_increment
       (ECMA_TRY_CATCH (with_frame int_data (get_variable_value iext int_data h base_var_idx False))
          (\<lambda>base_value (int_data, h1).
             ECMA_TRY_CATCH
               (with_frame int_data (get_variable_value iext int_data h1 name_var_idx False))
               (\<lambda>name_value (int_data, h2).
                  ECMA_TRY_CATCH
                    (with_frame int_data (Some (ecma_op_check_object_coercible ext h2 base_value)))
                    (\<lambda>check_coercible_ret (int_data, h3).
                       ECMA_TRY_CATCH
                         (with_frame int_data (ecma_op_to_string iext h3 name_value))
                         (\<lambda>str_name_value (int_data, h4).
                            case str_name_value of
                              ECMA_TYPE_STRING name_string_p \<Rightarrow>
                                if ecma_is_value_undefined base_value then
                                  (if is_strict int_data then
                                     Some (Fatal ERR_FAILED_INTERNAL_ASSERTION)
                                   else
                                     Some (Returns
                                             (ecma_make_simple_completion_value
                                                ECMA_SIMPLE_VALUE_TRUE,
                                              int_data, h4)))
                                else
                                  ECMA_TRY_CATCH
                                    (with_frame int_data (ecma_op_to_object iext h4 base_value))
                                    (\<lambda>obj_value (int_data, h5).
                                       case obj_value of
                                         ECMA_TYPE_OBJECT obj_p \<Rightarrow>
                                           if ecma_is_lexical_environment h5 obj_p then
                                             Some (Fatal ERR_FAILED_INTERNAL_ASSERTION)
                                           else
                                             ECMA_TRY_CATCH
                                               (with_frame int_data
                                                  (Some (ecma_op_object_delete ext h5 obj_p
                                                           name_string_p (is_strict int_data))))
                                               (\<lambda>delete_op_ret_val (int_data, h6).
                                                  set_variable_value iext int_data h6
                                                    (pos int_data) dst_var_idx delete_op_ret_val)
                                       | _ \<Rightarrow> Some (Fatal ERR_FAILED_INTERNAL_ASSERTION))
                            | _ \<Rightarrow> Some (Fatal ERR_FAILED_INTERNAL_ASSERTION))))))"

subsection \<open>Dispatch, the loop and the entry points (interpreter.c)\<close>

text \<open>
  The table \<open>__opfuncs\<close>: the handler of an instruction, chosen by its opcode tag. The
  handlers read the program and call \<open>run_int_loop\<close> through the globals of
  interpreter.c; here the program and the loop are arguments of the table.
\<close>

fun opfuncs ::
  "ecma_ext \<Rightarrow> interp_ext \<Rightarrow> program_t \<Rightarrow> (int_data_t \<Rightarrow> ecma_heap \<Rightarrow> opfunc_result)
     \<Rightarrow> opcode_t \<Rightarrow> int_data_t \<Rightarrow> ecma_heap \<Rightarrow> opfunc_result" where
  "opfuncs ext iext program loop op_nop = opfunc_nop"
| "opfuncs ext iext program loop (op_assignment var_left type_value_right value_right) =
     opfunc_assignment iext var_left type_value_right value_right"
| "opfuncs ext iext program loop (op_pre_incr dst var_right) = opfunc_pre_incr iext dst var_right"
| "opfuncs ext iext program loop (op_pre_decr dst var_right) = opfunc_pre_decr iext dst var_right"
| "opfuncs ext iext program loop (op_post_incr dst var_right) =
     opfunc_post_incr iext dst var_right"
| "opfuncs ext iext program loop (op_post_decr dst var_right) =
     opfunc_post_decr iext dst var_right"
| "opfuncs ext iext program loop (op_reg_var_decl min_reg max_reg) = opfunc_reg_var_decl"
| "opfuncs ext iext program loop (op_var_decl variable_name) = opfunc_var_decl iext variable_name"
| "opfuncs ext iext program loop (op_func_decl_n name_lit_idx arg_list) =
     opfunc_func_decl_n iext program name_lit_idx arg_list"
| "opfuncs ext iext program loop (op_func_expr_n lhs name_lit_idx arg_list) =
     opfunc_func_expr_n iext program lhs name_lit_idx arg_list"
| "opfuncs ext iext program loop (op_call_n lhs name_lit_idx arg_list) =
     opfunc_call_n ext iext program lhs name_lit_idx arg_list"
| "opfuncs ext iext program loop (op_construct_n lhs name_lit_idx arg_list) =
     opfunc_construct_n ext iext program lhs name_lit_idx arg_list"
| "opfuncs ext iext program loop (op_array_decl lhs list) =
     opfunc_array_decl iext program lhs list"
| "opfuncs ext iext program loop (op_obj_decl lhs list) =
     opfunc_obj_decl ext iext program loop lhs list"
| "opfuncs ext iext program loop (op_exitval status_code) = opfunc_exitval status_code"
| "opfuncs ext iext program loop (op_meta type data_1 data_2) = opfunc_meta type"
| "opfuncs ext iext program loop op_ret = opfunc_ret"
| "opfuncs ext iext program loop (op_retval ret_value_idx) = opfunc_retval iext ret_value_idx"
| "opfuncs ext iext program loop (op_prop_getter lhs obj prop) =
     opfunc_prop_getter ext iext lhs obj prop"
| "opfuncs ext iext program loop (op_prop_setter obj prop rhs) =
     opfunc_prop_setter ext iext obj prop rhs"
| "opfuncs ext iext program loop (op_logical_not dst var_right) =
     opfunc_logical_not iext dst var_right"
| "opfuncs ext iext program loop (op_throw_value var_idx) = opfunc_throw_value iext var_idx"
| "opfuncs ext iext program loop (op_this_binding lhs) = opfunc_this_binding iext lhs"
| "opfuncs ext iext program loop (op_with expr) = opfunc_with iext program loop expr"
| "opfuncs ext iext program loop (op_typeof lhs obj) = opfunc_typeof ext iext lhs obj"
| "opfuncs ext iext program loop (op_delete_var lhs name) = opfunc_delete_var iext lhs name"
| "opfuncs ext iext program loop (op_delete_prop lhs base name) =
     opfunc_delete_prop ext iext lhs base name"
| "opfuncs ext iext program loop (op_less_than dst var_left var_right) =
     opfunc_less_than iext dst var_left var_right"
| "opfuncs ext iext program loop (op_greater_than dst var_left var_right) =
     opfunc_greater_than iext dst var_left var_right"
| "opfuncs ext iext program loop (op_less_or_equal_than dst var_left var_right) =
     opfunc_less_or_equal_than iext dst var_left var_right"
| "opfuncs ext iext program loop (op_greater_or_equal_than dst var_left var_right) =
     opfunc_greater_or_equal_than iext dst var_left var_right"
| "opfuncs ext iext program loop (op_other tag data_1 data_2 data_3) =
     opfunc_other iext (op_other tag data_1 data_2 data_3)"

text \<open>
  \<open>run_int_loop\<close> is defined by recursion through the handlers, two of which call it.
  For the definition the handlers have to be monotone in the loop they are given: with a
  loop that returns in more cases they return in more cases, with the same results.
\<close>

lemma obj_decl_props_mono:
  fixes L :: "('x \<Rightarrow> 'y option) \<Rightarrow> int_data_t \<Rightarrow> ecma_heap \<Rightarrow> opfunc_result"
  assumes "\<And>frame heap. mono_option (\<lambda>f. L f frame heap)"
  shows "mono_option (\<lambda>f. obj_decl_props ext iext program (L f) props_left obj_p int_data h)"
proof (rule monotoneI)
  fix f g :: "'x \<Rightarrow> 'y option"
  assume fg: "fun_ord option_ord f g"
  have L: "option_ord (L f frame heap) (L g frame heap)" for frame heap
  proof -
    have "mono_option (\<lambda>f. L f frame heap)" by (rule assms)
    then show ?thesis by (rule monotoneD) (rule fg)
  qed
  show "option_ord (obj_decl_props ext iext program (L f) props_left obj_p int_data h)
          (obj_decl_props ext iext program (L g) props_left obj_p int_data h)"
  proof (induction props_left arbitrary: int_data h)
    case 0
    show ?case by (simp add: flat_ord_def)
  next
    case (Suc props_left)
    show ?case
    proof (cases "L f int_data h")
      case None
      then show ?thesis by (simp add: flat_ord_def)
    next
      case (Some r)
      with L [of int_data h] have "L g int_data h = Some r" by (simp add: flat_ord_def)
      with Some Suc.IH show ?thesis
        by (simp split: outcome.splits prod.splits opcode_t.splits option.splits)
           (simp add: flat_ord_def)
    qed
  qed
qed

lemma opfunc_with_mono:
  fixes L :: "('x \<Rightarrow> 'y option) \<Rightarrow> int_data_t \<Rightarrow> ecma_heap \<Rightarrow> opfunc_result"
  assumes "\<And>frame heap. mono_option (\<lambda>f. L f frame heap)"
  shows "mono_option (\<lambda>f. opfunc_with iext program (L f) expr_var_idx int_data h)"
proof (rule monotoneI)
  fix f g :: "'x \<Rightarrow> 'y option"
  assume fg: "fun_ord option_ord f g"
  have L: "L g frame heap = Some r" if "L f frame heap = Some r" for frame heap r
  proof -
    have "mono_option (\<lambda>f. L f frame heap)" by (rule assms)
    then have "option_ord (L f frame heap) (L g frame heap)" by (rule monotoneD) (rule fg)
    with that show ?thesis by (simp add: flat_ord_def)
  qed
  show "option_ord (opfunc_with iext program (L f) expr_var_idx int_data h)
          (opfunc_with iext program (L g) expr_var_idx int_data h)"
    unfolding opfunc_with_def ECMA_TRY_CATCH_def flat_ord_def Let_def
    by (auto split: option.splits outcome.splits prod.splits ecma_value_t.splits dest: L)
qed

lemma opfunc_obj_decl_mono:
  fixes L :: "('x \<Rightarrow> 'y option) \<Rightarrow> int_data_t \<Rightarrow> ecma_heap \<Rightarrow> opfunc_result"
  assumes "\<And>frame heap. mono_option (\<lambda>f. L f frame heap)"
  shows "mono_option (\<lambda>f. opfunc_obj_decl ext iext program (L f) lhs_var_idx args_number
                             int_data h)"
proof (rule monotoneI)
  fix f g :: "'x \<Rightarrow> 'y option"
  assume fg: "fun_ord option_ord f g"
  have props: "obj_decl_props ext iext program (L g) props_left obj_p frame heap = Some r"
    if "obj_decl_props ext iext program (L f) props_left obj_p frame heap = Some r"
    for props_left obj_p frame heap r
  proof -
    have "mono_option (\<lambda>f. obj_decl_props ext iext program (L f) props_left obj_p frame heap)"
      by (rule obj_decl_props_mono) (rule assms)
    then have "option_ord (obj_decl_props ext iext program (L f) props_left obj_p frame heap)
                 (obj_decl_props ext iext program (L g) props_left obj_p frame heap)"
      by (rule monotoneD) (rule fg)
    with that show ?thesis by (simp add: flat_ord_def)
  qed
  show "option_ord (opfunc_obj_decl ext iext program (L f) lhs_var_idx args_number int_data h)
          (opfunc_obj_decl ext iext program (L g) lhs_var_idx args_number int_data h)"
    unfolding opfunc_obj_decl_def flat_ord_def Let_def
    by (auto split: option.splits outcome.splits prod.splits dest: props)
qed

lemma opfuncs_mono [partial_function_mono]:
  fixes L :: "('x \<Rightarrow> 'y option) \<Rightarrow> int_data_t \<Rightarrow> ecma_heap \<Rightarrow> opfunc_result"
  assumes "\<And>frame heap. mono_option (\<lambda>f. L f frame heap)"
  shows "mono_option (\<lambda>f. opfuncs ext iext program (L f) opcode int_data h)"
proof (cases opcode)
  case (op_obj_decl lhs list)
  then show ?thesis by (simp add: opfunc_obj_decl_mono [OF assms])
next
  case (op_with expr)
  then show ?thesis by (simp add: opfunc_with_mono [OF assms])
qed (simp_all add: option.const_mono)

text \<open>
  \<open>run_int_loop\<close>: the \<open>do ... while\<close> runs the handler of the instruction at the
  position of the frame, asserts that a normal completion is empty, and goes on while the
  completion is normal; after the loop a meta completion is replaced by the empty
  completion. The loop has no bound, so a run that never leaves it is \<open>None\<close>, and so
  is a run whose handler never returns.
\<close>

partial_function (option) run_int_loop ::
  "ecma_ext \<Rightarrow> interp_ext \<Rightarrow> program_t \<Rightarrow> int_data_t \<Rightarrow> ecma_heap
     \<Rightarrow> (ecma_completion_value_t \<times> int_data_t \<times> ecma_heap) outcome option" where
  "run_int_loop ext iext program int_data h =
     Option.bind
       (opfuncs ext iext program (run_int_loop ext iext program) (program (pos int_data))
          int_data h)
       (\<lambda>handler_result.
          case handler_result of
            Fatal e \<Rightarrow> Some (Fatal e)
          | Returns (completion, int_data', h') \<Rightarrow>
              if \<not> (\<not> ecma_is_completion_value_normal completion
                     \<or> ecma_is_completion_value_empty completion) then
                Some (Fatal ERR_FAILED_INTERNAL_ASSERTION)
              else if ecma_is_completion_value_normal completion then
                run_int_loop ext iext program int_data' h'
              else if ecma_is_completion_value_meta completion then
                Some (Returns (ecma_make_empty_completion_value, int_data', h'))
              else Some (Returns (completion, int_data', h')))"

definition run_int_from_pos ::
  "ecma_ext \<Rightarrow> interp_ext \<Rightarrow> program_t \<Rightarrow> ecma_heap \<Rightarrow> opcode_counter_t \<Rightarrow> ecma_value_t
     \<Rightarrow> ecma_object_ptr_t \<Rightarrow> bool \<Rightarrow> bool
     \<Rightarrow> (ecma_completion_value_t \<times> ecma_heap) outcome option" where
  "run_int_from_pos ext iext program h start_pos this_binding_value lex_env is_strict_mode
       is_eval =
     (case program start_pos of
        op_reg_var_decl min_reg max_reg \<Rightarrow>
          if \<not> max_reg \<ge> min_reg then Some (Fatal ERR_FAILED_INTERNAL_ASSERTION)
          else
            (case run_int_loop ext iext program
                    \<lparr>pos = start_pos + 1, this_binding = this_binding_value, lex_env_p = lex_env,
                     is_strict = is_strict_mode, is_eval_code = is_eval,
                     min_reg_num = min_reg, max_reg_num = max_reg,
                     regs = replicate (unat max_reg - unat min_reg + 1)
                              (ECMA_TYPE_SIMPLE ECMA_SIMPLE_VALUE_UNDEFINED)\<rparr>
                    h of
               None \<Rightarrow> None
             | Some (Fatal e) \<Rightarrow> Some (Fatal e)
             | Some (Returns (completion, int_data', h')) \<Rightarrow>
                 if ecma_is_completion_value_normal completion
                    \<or> ecma_is_completion_value_throw completion
                    \<or> ecma_is_completion_value_return completion
                    \<or> ecma_is_completion_value_exit completion
                 then Some (Returns (completion, h'))
                 else Some (Fatal ERR_FAILED_INTERNAL_ASSERTION))
      | _ \<Rightarrow> Some (Fatal ERR_FAILED_INTERNAL_ASSERTION))"

text \<open>
  \<open>ecma_op_create_global_environment\<close> (ecma-lex-env.c), in the configuration without
  \<open>CONFIG_ECMA_GLOBAL_ENVIRONMENT_DECLARATIVE\<close>.
\<close>

definition ecma_op_create_global_environment ::
  "interp_ext \<Rightarrow> ecma_heap \<Rightarrow> ecma_object_ptr_t \<Rightarrow> ecma_object_ptr_t \<times> ecma_heap" where
  "ecma_op_create_global_environment iext h glob_obj_p =
     ecma_create_object_lex_env iext h None glob_obj_p False"

text \<open>
  \<open>run_int\<close> up to and with the call of \<open>run_int_from_pos\<close>: the interpretation of
  the installed program. \<open>None\<close> for the program is the null pointer \<open>__program\<close>
  before \<open>init_int\<close>.
\<close>

definition run_int_interpretation ::
  "ecma_ext \<Rightarrow> interp_ext \<Rightarrow> program_t
     \<Rightarrow> (ecma_completion_value_t \<times> ecma_heap) outcome option" where
  "run_int_interpretation ext iext program =
     (let first_opcode = read_opcode program 0;
          strict_marker = (case first_opcode of
                             op_meta type data_1 data_2 \<Rightarrow> type = OPCODE_META_TYPE_STRICT_CODE
                           | _ \<Rightarrow> False);
          is_strict_mode = strict_marker;
          start_pos = (if strict_marker then 1 else 0);
          glob_obj_p = ecma_builtin_get ext ECMA_BUILTIN_ID_GLOBAL
      in case ecma_op_create_global_environment iext (ecma_init iext) glob_obj_p of
           (lex_env, h1) \<Rightarrow>
             run_int_from_pos ext iext program h1 start_pos (ECMA_TYPE_OBJECT glob_obj_p)
               lex_env is_strict_mode False)"

text \<open>
  The result of \<open>run_int\<close>: \<open>Returns b\<close> when it returns the boolean \<open>b\<close>,
  \<open>Fatal ERR_UNHANDLED_EXCEPTION\<close> for \<open>jerry_exit (ERR_UNHANDLED_EXCEPTION)\<close>, and
  \<open>Fatal ERR_FAILED_INTERNAL_ASSERTION\<close> for \<open>JERRY_UNREACHABLE\<close> and the assertions.
\<close>

definition run_int :: "ecma_ext \<Rightarrow> interp_ext \<Rightarrow> program_t option \<Rightarrow> bool outcome option" where
  "run_int ext iext program_p =
     (case program_p of
        None \<Rightarrow> Some (Fatal ERR_FAILED_INTERNAL_ASSERTION)
      | Some program \<Rightarrow>
          (case run_int_interpretation ext iext program of
             None \<Rightarrow> None
           | Some (Fatal e) \<Rightarrow> Some (Fatal e)
           | Some (Returns (run_completion, h)) \<Rightarrow>
               if ecma_is_completion_value_exit run_completion then
                 Some (Returns (ecma_is_value_true (completion_value run_completion)))
               else if ecma_is_completion_value_throw run_completion then
                 Some (Fatal ERR_UNHANDLED_EXCEPTION)
               else Some (Fatal ERR_FAILED_INTERNAL_ASSERTION)))"

subsection \<open>The stored result of a relational opcode, in the words of the specification\<close>

text \<open>
  For \<open><\<close> and \<open>>\<close>: false when the comparison is undefined, else the boolean the
  comparison gave. For \<open><=\<close> and \<open>>=\<close>: false when the comparison is undefined or
  true, and true when it is false.
\<close>

definition relational_result :: "ecma_value_t \<Rightarrow> ecma_value_t" where
  "relational_result compare_result =
     (if ecma_is_value_undefined compare_result then ECMA_TYPE_SIMPLE ECMA_SIMPLE_VALUE_FALSE
      else compare_result)"

definition negated_relational_result :: "ecma_value_t \<Rightarrow> ecma_value_t" where
  "negated_relational_result compare_result =
     (if ecma_is_value_undefined compare_result \<or> ecma_is_value_true compare_result
      then ECMA_TYPE_SIMPLE ECMA_SIMPLE_VALUE_FALSE
      else ECMA_TYPE_SIMPLE ECMA_SIMPLE_VALUE_TRUE)"

text \<open>
  Collaborators of the interpreter for concrete evaluation: no identifier resolves, and
  the comparison gives true when \<open>leftFirst\<close> is set and undefined when it is not. A
  strict-mode frame with the registers 128 to 130.
\<close>

definition example_iext :: interp_ext where
  "example_iext =
     \<lparr>deserialize_lit_id_by_uid = (\<lambda>uid oc. 3),
      INVALID_LITERAL = 0,
      ecma_new_ecma_string_from_lit_index = (\<lambda>lit_id. ''x''),
      ecma_op_resolve_reference_base = (\<lambda>h lex_env name. None),
      ecma_op_get_value_lex_env_base =
        (\<lambda>h lex_env name strict.
           Some (Returns (ecma_make_simple_completion_value ECMA_SIMPLE_VALUE_UNDEFINED, h))),
      get_variable_value_by_name =
        (\<lambda>int_data h var_idx chk.
           Some (Returns (ecma_make_simple_completion_value ECMA_SIMPLE_VALUE_UNDEFINED, h))),
      set_variable_value_by_name =
        (\<lambda>int_data h lit_oc var_idx v.
           Some (Returns (ecma_make_empty_completion_value, int_data, h))),
      ecma_op_abstract_relational_compare =
        (\<lambda>h x y left_first.
           Some (Returns (ecma_make_simple_completion_value
                            (if left_first then ECMA_SIMPLE_VALUE_TRUE
                             else ECMA_SIMPLE_VALUE_UNDEFINED), h))),
      ecma_create_object_lex_env = (\<lambda>h outer binding_obj_p provide_this. (0, h)),
      ecma_init = example_heap,
      opfunc_other = (\<lambda>opdata int_data h. Some (Fatal ERR_FAILED_INTERNAL_ASSERTION)),
      INVALID_VALUE = 255,
      opcode_data_as_meta = (\<lambda>opcode. (OPCODE_META_TYPE_UNDEFINED, 0, 0)),
      ecma_simple_value_of_idx = (\<lambda>idx. ECMA_SIMPLE_VALUE_UNDEFINED),
      deserialize_literal_by_id = (\<lambda>lit_id. \<lparr>lit_type = LIT_NUMBER, lit_data_num = 0\<rparr>),
      ecma_number_of_idx = (\<lambda>idx. 0),
      ecma_number_negate = (\<lambda>num. num),
      ecma_number_add = (\<lambda>num_left num_right. num_left),
      ecma_number_substract = (\<lambda>num_left num_right. num_left),
      ECMA_NUMBER_ONE = 0,
      ecma_op_to_number =
        (\<lambda>h v. Some (Returns (ecma_make_normal_completion_value (ECMA_TYPE_NUMBER 0), h))),
      ecma_op_to_string =
        (\<lambda>h v. Some (Returns (ecma_make_normal_completion_value (ECMA_TYPE_STRING ''p''), h))),
      ecma_op_to_object =
        (\<lambda>h v. Some (Returns (ecma_make_normal_completion_value (ECMA_TYPE_OBJECT 0), h))),
      ecma_op_get_value_object_base =
        (\<lambda>h ref.
           Some (Returns (ecma_make_simple_completion_value ECMA_SIMPLE_VALUE_UNDEFINED, h))),
      ecma_op_put_value_object_base =
        (\<lambda>h ref v. Some (Returns (ecma_make_empty_completion_value, h))),
      ecma_op_get_identifier_reference =
        (\<lambda>h lex_env name strict.
           ecma_make_reference (ECMA_TYPE_SIMPLE ECMA_SIMPLE_VALUE_UNDEFINED) name strict),
      ecma_op_has_binding = (\<lambda>h lex_env name. Some (Returns True)),
      ecma_op_create_mutable_binding =
        (\<lambda>h lex_env name is_deletable. Some (Returns (ecma_make_empty_completion_value, h))),
      ecma_op_get_binding_value =
        (\<lambda>h lex_env name strict.
           Some (Returns (ecma_make_simple_completion_value ECMA_SIMPLE_VALUE_UNDEFINED, h))),
      ecma_op_delete_binding =
        (\<lambda>h lex_env name.
           Some (Returns (ecma_make_simple_completion_value ECMA_SIMPLE_VALUE_TRUE, h))),
      ecma_op_implicit_this_value =
        (\<lambda>h lex_env.
           Some (Returns (ecma_make_simple_completion_value ECMA_SIMPLE_VALUE_UNDEFINED, h))),
      ecma_op_create_immutable_binding = (\<lambda>h lex_env name. Returns h),
      ecma_op_initialize_immutable_binding = (\<lambda>h lex_env name v. Returns h),
      ecma_create_decl_lex_env = (\<lambda>h outer. (0, h)),
      fill_params_list = (\<lambda>program int_data params_number. Returns ([], int_data)),
      fill_varg_list =
        (\<lambda>program int_data h args_number.
           Some (Returns (ecma_make_empty_completion_value, [], args_number, int_data, h))),
      ecma_op_function_declaration =
        (\<lambda>h lex_env name code_pos args_names strict is_configurable.
           Some (Returns (ecma_make_empty_completion_value, h))),
      ecma_op_create_function_object =
        (\<lambda>h params_names scope_p strict code_pos. (0, h)),
      ecma_is_constructor = (\<lambda>h v. False),
      ecma_op_function_construct =
        (\<lambda>h constructor_obj_p arg_values.
           Some (Returns (ecma_make_simple_completion_value ECMA_SIMPLE_VALUE_UNDEFINED, h))),
      ecma_op_create_array_object =
        (\<lambda>h arg_values is_treat_single_arg_as_length.
           Some (Returns (ecma_make_normal_completion_value (ECMA_TYPE_OBJECT 0), h)))\<rparr>"

definition example_frame :: int_data_t where
  "example_frame =
     \<lparr>pos = 1, this_binding = ECMA_TYPE_SIMPLE ECMA_SIMPLE_VALUE_UNDEFINED, lex_env_p = 0,
      is_strict = True, is_eval_code = False, min_reg_num = 128, max_reg_num = 130,
      regs = [ECMA_TYPE_SIMPLE ECMA_SIMPLE_VALUE_UNDEFINED,
              ECMA_TYPE_STRING ''a'', ECMA_TYPE_STRING ''b'']\<rparr>"

subsection \<open>The invariant of the completions of the handlers\<close>

text \<open>
  The result of a handler, or of an operation a handler ends with, respects the invariant
  of the loop when its completion, if it is normal, is the empty completion. A result
  that ends the process or never comes has no completion.
\<close>

definition normal_completion_is_empty ::
  "(ecma_completion_value_t \<times> 's) outcome option \<Rightarrow> bool" where
  "normal_completion_is_empty r =
     (case r of
        Some (Returns (completion, s)) \<Rightarrow>
          \<not> ecma_is_completion_value_normal completion
          \<or> ecma_is_completion_value_empty completion
      | _ \<Rightarrow> True)"

subsection \<open>The states a run of the interpreter loop goes through\<close>



definition example_exit_program :: "idx_t \<Rightarrow> program_t" where
  "example_exit_program status_code =
     (\<lambda>counter. op_nop)(0 := op_reg_var_decl 128 130, 1 := op_exitval status_code)"

definition example_throw_program :: program_t where
  "example_throw_program =
     (\<lambda>counter. op_nop)(0 := op_reg_var_decl 128 130, 1 := op_throw_value 129)"

section \<open>Verified properties\<close>

lemmas helper_defs =
  ecma_is_lexical_environment_def ecma_get_object_extensible_def ecma_get_object_prototype_def
  ecma_get_property_list_def ecma_set_property_list_def ecma_property_at_def ecma_update_property_def
  ecma_find_named_property_def ecma_create_object_def ecma_create_internal_property_def
  ecma_create_named_data_property_def ecma_create_named_accessor_property_def ecma_delete_property_def
  ecma_named_data_property_assign_value_def ecma_set_property_writable_attr_def
  ecma_set_property_enumerable_attr_def ecma_set_property_configurable_attr_def

lemmas completion_defs =
  ecma_make_normal_completion_value_def ecma_make_simple_completion_value_def
  ecma_make_empty_completion_value_def ecma_make_throw_completion_value_def
  ecma_make_throw_obj_completion_value_def ecma_make_return_completion_value_def
  ecma_make_exit_completion_value_def ecma_make_meta_completion_value_def
  ecma_is_completion_value_normal_def ecma_is_completion_value_throw_def
  ecma_is_completion_value_return_def ecma_is_completion_value_exit_def
  ecma_is_completion_value_meta_def ecma_is_completion_value_empty_def
  ecma_is_completion_value_normal_true_def

lemmas value_defs =
  ecma_is_value_empty_def ecma_is_value_undefined_def ecma_is_value_null_def
  ecma_is_value_true_def ecma_is_value_boolean_def

subsection \<open>FromPropertyDescriptor\<close>

lemma create_object_object_noarg_result:
  "ecma_op_create_object_object_noarg ext h =
     (next_object h,
      h\<lparr>objects := (objects h)(next_object h :=
           \<lparr>prototype_object_p = Some (ecma_builtin_get ext ECMA_BUILTIN_ID_OBJECT_PROTOTYPE),
            is_extensible = True, is_lexical_environment = False,
            object_type = ECMA_OBJECT_TYPE_GENERAL,
            property_list = [ECMA_PROPERTY_INTERNAL ECMA_INTERNAL_PROPERTY_CLASS
               (ECMA_INTERNAL_VALUE_MAGIC_STRING ECMA_MAGIC_STRING_OBJECT_UL)]\<rparr>),
        next_object := Suc (next_object h)\<rparr>)"
  by (simp add: ecma_op_create_object_object_noarg_def helper_defs)

lemma from_property_descriptor_result:
  "ecma_op_from_property_descriptor ext h src =
     Returns (next_object h,
       h\<lparr>objects := (objects h)(next_object h := from_property_descriptor_result_object ext src),
         next_object := Suc (next_object h)\<rparr>)"
  by (simp add: ecma_op_from_property_descriptor_def create_object_object_noarg_result
      from_property_descriptor_prop_desc_def ecma_make_empty_property_descriptor_def
      from_property_descriptor_step_3_def from_property_descriptor_define_def
      ecma_op_object_define_own_property_def ecma_op_general_object_define_own_property_def
      ecma_op_object_get_own_property_def ecma_op_general_object_get_own_property_def
      define_own_property_steps_3_4_def is_property_desc_generic_descriptor_def
      is_property_desc_data_descriptor_def completion_defs value_defs helper_defs
      from_property_descriptor_result_object_def)

text \<open>
  C1. In \<open>ecma_op_from_property_descriptor\<close> the branch between step 3 (data: the
  properties \<open>value\<close> and \<open>writable\<close>) and step 4 (accessor: \<open>get\<close> and \<open>set\<close>) tests
  the flags of the local descriptor, which are set to true before the test. So for every
  source descriptor the call returns the object with the four data properties \<open>value\<close>,
  \<open>writable\<close>, \<open>enumerable\<close> and \<open>configurable\<close>; the object has no \<open>get\<close> and no
  \<open>set\<close> property; and the result does not depend on any \<open>*_defined\<close> flag nor on the
  getter and setter of the source descriptor, accessor descriptors included.
\<close>

theorem from_property_descriptor_always_data_branch:
  "is_value_defined from_property_descriptor_prop_desc
   \<and> is_writable_defined from_property_descriptor_prop_desc
   \<and> \<not> is_get_defined from_property_descriptor_prop_desc
   \<and> \<not> is_set_defined from_property_descriptor_prop_desc
   \<and> ecma_op_from_property_descriptor ext h src =
       Returns (next_object h,
         h\<lparr>objects := (objects h)(next_object h := from_property_descriptor_result_object ext src),
           next_object := Suc (next_object h)\<rparr>)
   \<and> find_named_property_in (property_list (from_property_descriptor_result_object ext src)) ''value''
       = Some 3
   \<and> find_named_property_in (property_list (from_property_descriptor_result_object ext src)) ''writable''
       = Some 2
   \<and> find_named_property_in (property_list (from_property_descriptor_result_object ext src)) ''get''
       = None
   \<and> find_named_property_in (property_list (from_property_descriptor_result_object ext src)) ''set''
       = None
   \<and> ecma_op_from_property_descriptor ext h
         (src\<lparr>is_value_defined := a, is_writable_defined := b, is_get_defined := c,
              is_set_defined := d, is_enumerable_defined := e, is_configurable_defined := f,
              desc_get_p := g, desc_set_p := s\<rparr>)
       = ecma_op_from_property_descriptor ext h src"
  by (simp add: from_property_descriptor_result from_property_descriptor_prop_desc_def
      ecma_make_empty_property_descriptor_def from_property_descriptor_result_object_def)

subsection \<open>ToPropertyDescriptor\<close>


lemma example_heap_get_property:
  "ecma_op_object_get_property example_heap 0 n = Some (Returns None)"
  unfolding ecma_op_object_get_property_def
  by (subst ecma_op_general_object_get_property.simps)
     (simp add: example_heap_def example_object_def helper_defs
        ecma_op_object_get_own_property_def ecma_op_general_object_get_own_property_def)





subsection \<open>[[Put]] after [[CanPut]]\<close>

lemma get_property_unfold:
  "ecma_op_object_get_property h obj_p n =
     (if ecma_is_lexical_environment h obj_p then Some (Fatal ERR_FAILED_INTERNAL_ASSERTION)
      else
        (case ecma_op_object_get_own_property h obj_p n of
           Fatal e \<Rightarrow> Some (Fatal e)
         | Returns (Some prop_p) \<Rightarrow> Some (Returns (Some prop_p))
         | Returns None \<Rightarrow>
             (case ecma_get_object_prototype h obj_p of
                Some prototype_p \<Rightarrow> ecma_op_object_get_property h prototype_p n
              | None \<Rightarrow> Some (Returns None))))"
  unfolding ecma_op_object_get_property_def
  by (rule ecma_op_general_object_get_property.simps)

lemma get_property_none_own:
  assumes "ecma_op_object_get_property h obj_p n = Some (Returns None)"
  shows "\<not> ecma_is_lexical_environment h obj_p \<and> ecma_find_named_property h obj_p n = None"
  using assms
  by (subst (asm) get_property_unfold)
     (auto simp: ecma_op_object_get_own_property_def ecma_op_general_object_get_own_property_def
        split: if_splits outcome.splits option.splits)

lemma setter_of_can_put:
  assumes can: "ecma_op_object_can_put h obj_p n = Some (Returns True)"
    and gp: "ecma_op_object_get_property h obj_p n = Some (Returns (Some desc_p))"
    and acc: "property_is_named_accessor (ecma_property_at h desc_p)"
  shows "named_accessor_property_set_p (ecma_property_at h desc_p) \<noteq> None"
  using assms
  by (subst (asm) get_property_unfold)
     (auto simp: ecma_op_object_can_put_def ecma_op_general_object_can_put_def
        split: if_splits outcome.splits option.splits)

lemma put_unfold_can_put_true:
  assumes can: "ecma_op_object_can_put h obj_p n = Some (Returns True)"
    and own: "ecma_op_object_get_own_property h obj_p n = Returns own_desc_p"
    and nodata: "\<not> (own_desc_p \<noteq> None \<and> property_is_named_data (ecma_property_at h (the own_desc_p)))"
  shows "ecma_op_general_object_put ext h obj_p n v is_throw = put_steps_4_6 ext h obj_p n v is_throw"
proof -
  have "\<not> ecma_is_lexical_environment h obj_p"
    using can
    by (auto simp: ecma_op_object_can_put_def ecma_op_general_object_can_put_def split: if_splits)
  then show ?thesis
    using can own nodata by (auto simp: ecma_op_general_object_put_def)
qed

text \<open>
  C9. In \<open>ecma_op_general_object_put\<close>, once \<open>[[CanPut]]\<close> has returned true and the
  object has no own named data property of the name, a named accessor property found by
  \<open>[[GetProperty]]\<close> has a setter that is not null. The assertion on the setter before
  the call of the setter holds, and the call of \<open>[[Put]]\<close> is the call of that setter:
  it does not end in the failed assertion.
\<close>

theorem put_setter_assertion_holds:
  assumes can: "ecma_op_object_can_put h obj_p n = Some (Returns True)"
    and own: "ecma_op_object_get_own_property h obj_p n = Returns own_desc_p"
    and nodata: "\<not> (own_desc_p \<noteq> None \<and> property_is_named_data (ecma_property_at h (the own_desc_p)))"
    and gp: "ecma_op_object_get_property h obj_p n = Some (Returns (Some desc_p))"
    and acc: "property_is_named_accessor (ecma_property_at h desc_p)"
  shows "\<exists>setter_p.
           named_accessor_property_set_p (ecma_property_at h desc_p) = Some setter_p
           \<and> ecma_op_general_object_put ext h obj_p n v is_throw =
               ECMA_TRY_CATCH (ecma_op_function_call ext h setter_p (ECMA_TYPE_OBJECT obj_p) [v])
                 (\<lambda>call_ret h'.
                    Some (Returns (ecma_make_simple_completion_value ECMA_SIMPLE_VALUE_TRUE, h')))"
proof -
  from setter_of_can_put [OF can gp acc]
  obtain setter_p where s: "named_accessor_property_set_p (ecma_property_at h desc_p) = Some setter_p"
    by auto
  have "put_steps_4_6 ext h obj_p n v is_throw =
          ECMA_TRY_CATCH (ecma_op_function_call ext h setter_p (ECMA_TYPE_OBJECT obj_p) [v])
            (\<lambda>call_ret h'.
               Some (Returns (ecma_make_simple_completion_value ECMA_SIMPLE_VALUE_TRUE, h')))"
    using gp acc s by (simp add: put_steps_4_6_def)
  with s put_unfold_can_put_true [OF can own nodata] show ?thesis by simp
qed

lemma example_accessor_heap_own:
  "ecma_op_object_get_own_property example_accessor_heap 0 ''x'' = Returns (Some (0, 0))"
  by (simp add: ecma_op_object_get_own_property_def ecma_op_general_object_get_own_property_def
      example_accessor_heap_def example_object_def helper_defs)

lemma example_accessor_heap_get_property:
  "ecma_op_object_get_property example_accessor_heap 0 ''x'' = Some (Returns (Some (0, 0)))"
  by (subst get_property_unfold)
     (simp add: example_accessor_heap_own,
      simp add: example_accessor_heap_def example_object_def helper_defs)

lemma example_accessor_heap_at:
  "ecma_property_at example_accessor_heap (0, 0) =
     ECMA_PROPERTY_NAMEDACCESSOR ''x'' None (Some 1) True True"
  by (simp add: example_accessor_heap_def example_object_def helper_defs)

lemma example_accessor_heap_can_put:
  "ecma_op_object_can_put example_accessor_heap 0 ''x'' = Some (Returns True)"
  by (simp add: ecma_op_object_can_put_def ecma_op_general_object_can_put_def
        example_accessor_heap_own example_accessor_heap_at)
     (simp add: example_accessor_heap_def example_object_def helper_defs)

theorem put_setter_assertion_holds_witness:
  "ecma_op_object_can_put example_accessor_heap 0 ''x'' = Some (Returns True)
   \<and> ecma_op_object_get_own_property example_accessor_heap 0 ''x'' = Returns (Some (0, 0))
   \<and> \<not> property_is_named_data (ecma_property_at example_accessor_heap (0, 0))
   \<and> ecma_op_object_get_property example_accessor_heap 0 ''x'' = Some (Returns (Some (0, 0)))
   \<and> property_is_named_accessor (ecma_property_at example_accessor_heap (0, 0))
   \<and> named_accessor_property_set_p (ecma_property_at example_accessor_heap (0, 0)) = Some 1
   \<and> ecma_op_general_object_put example_ext example_accessor_heap 0 ''x''
         (ECMA_TYPE_SIMPLE ECMA_SIMPLE_VALUE_NULL) False =
       Some (Returns (ecma_make_simple_completion_value ECMA_SIMPLE_VALUE_TRUE, example_accessor_heap))"
  using put_setter_assertion_holds
          [OF example_accessor_heap_can_put example_accessor_heap_own _
              example_accessor_heap_get_property,
           of example_ext "ECMA_TYPE_SIMPLE ECMA_SIMPLE_VALUE_NULL" False]
  by (simp add: example_accessor_heap_can_put example_accessor_heap_own
      example_accessor_heap_get_property example_accessor_heap_at ECMA_TRY_CATCH_def
      example_ext_def completion_defs)

subsection \<open>[[Put]], [[Delete]], [[Get]]\<close>

lemma can_put_absent:
  assumes ext: "ecma_get_object_extensible h obj_p"
    and gp: "ecma_op_object_get_property h obj_p n = Some (Returns None)"
  shows "ecma_op_object_can_put h obj_p n = Some (Returns True)"
  using gp ext
  by (subst (asm) get_property_unfold)
     (auto simp: ecma_op_object_can_put_def ecma_op_general_object_can_put_def
        split: if_splits outcome.splits option.splits)

lemma put_absent:
  assumes ext: "ecma_get_object_extensible h obj_p"
    and gp: "ecma_op_object_get_property h obj_p n = Some (Returns None)"
  shows "ecma_op_object_put ext h obj_p n v is_throw =
     Some (Returns (ecma_make_simple_completion_value ECMA_SIMPLE_VALUE_TRUE,
       ecma_set_property_list h obj_p
         (ECMA_PROPERTY_NAMEDDATA n v True True True # ecma_get_property_list h obj_p)))"
proof -
  from get_property_none_own [OF gp]
  have nl: "\<not> ecma_is_lexical_environment h obj_p"
    and nf: "ecma_find_named_property h obj_p n = None" by simp_all
  have own: "ecma_op_object_get_own_property h obj_p n = Returns None"
    using nl nf by (simp add: ecma_op_object_get_own_property_def ecma_op_general_object_get_own_property_def)
  have "ecma_op_general_object_put ext h obj_p n v is_throw = put_steps_4_6 ext h obj_p n v is_throw"
    by (rule put_unfold_can_put_true [OF can_put_absent [OF ext gp] own]) simp
  moreover have "put_steps_4_6 ext h obj_p n v is_throw =
     Some (Returns (ecma_make_simple_completion_value ECMA_SIMPLE_VALUE_TRUE,
       ecma_set_property_list h obj_p
         (ECMA_PROPERTY_NAMEDDATA n v True True True # ecma_get_property_list h obj_p)))"
    using gp nl own ext
    by (simp add: put_steps_4_6_def ecma_op_object_define_own_property_def
        ecma_op_general_object_define_own_property_def define_own_property_steps_3_4_def
        is_property_desc_generic_descriptor_def is_property_desc_data_descriptor_def
        ecma_make_empty_property_descriptor_def
        ecma_create_named_data_property_def ecma_named_data_property_assign_value_def
        ecma_update_property_def ecma_property_at_def ecma_get_property_list_def
        ecma_set_property_list_def)
  ultimately show ?thesis by (simp add: ecma_op_object_put_def)
qed

lemma set_property_list_same:
  "ecma_set_property_list h obj_p (ecma_get_property_list h obj_p) = h"
  by (simp add: ecma_set_property_list_def ecma_get_property_list_def)

lemma delete_after_put:
  assumes nl: "\<not> ecma_is_lexical_environment h obj_p"
  shows "ecma_op_object_delete ext
           (ecma_set_property_list h obj_p
              (ECMA_PROPERTY_NAMEDDATA n v True True True # ecma_get_property_list h obj_p))
           obj_p n is_throw =
         Returns (ecma_make_simple_completion_value ECMA_SIMPLE_VALUE_TRUE, h)"
  using nl
  by (simp add: ecma_op_object_delete_def ecma_op_general_object_delete_def
      ecma_op_object_get_own_property_def ecma_op_general_object_get_own_property_def
      helper_defs)


text \<open>
  C8. For an extensible object on which \<open>[[GetProperty]]\<close> finds no property of the
  name, neither own nor inherited, and every value: \<open>[[Put]]\<close> returns true and creates
  the own data property with the value and with writable, enumerable and configurable
  true; \<open>[[Delete]]\<close> on the heap after the put returns true and the object has no own
  property of the name afterwards; \<open>[[Get]]\<close> on the heap after the delete returns
  undefined.
\<close>

theorem put_delete_get_undefined:
  assumes ext: "ecma_get_object_extensible h obj_p"
    and gp: "ecma_op_object_get_property h obj_p n = Some (Returns None)"
  shows "\<exists>h1 h2.
           ecma_op_object_put ext h obj_p n v put_is_throw =
             Some (Returns (ecma_make_simple_completion_value ECMA_SIMPLE_VALUE_TRUE, h1))
           \<and> ecma_op_object_get_own_property h1 obj_p n = Returns (Some (obj_p, 0))
           \<and> ecma_property_at h1 (obj_p, 0) = ECMA_PROPERTY_NAMEDDATA n v True True True
           \<and> ecma_op_object_delete ext h1 obj_p n delete_is_throw =
               Returns (ecma_make_simple_completion_value ECMA_SIMPLE_VALUE_TRUE, h2)
           \<and> ecma_op_object_get_own_property h2 obj_p n = Returns None
           \<and> ecma_op_object_get ext h2 obj_p n =
               Some (Returns (ecma_make_simple_completion_value ECMA_SIMPLE_VALUE_UNDEFINED, h2))"
proof -
  from get_property_none_own [OF gp]
  have nl: "\<not> ecma_is_lexical_environment h obj_p"
    and nf: "ecma_find_named_property h obj_p n = None" by simp_all
  let ?h1 = "ecma_set_property_list h obj_p
               (ECMA_PROPERTY_NAMEDDATA n v True True True # ecma_get_property_list h obj_p)"
  have nl1: "\<not> ecma_is_lexical_environment ?h1 obj_p"
    using nl by (simp add: helper_defs)
  have own1: "ecma_op_object_get_own_property ?h1 obj_p n = Returns (Some (obj_p, 0))"
    using nl1
    by (simp add: ecma_op_object_get_own_property_def ecma_op_general_object_get_own_property_def)
       (simp add: helper_defs)
  have at1: "ecma_property_at ?h1 (obj_p, 0) = ECMA_PROPERTY_NAMEDDATA n v True True True"
    by (simp add: helper_defs)
  have own2: "ecma_op_object_get_own_property h obj_p n = Returns None"
    using nl nf
    by (simp add: ecma_op_object_get_own_property_def ecma_op_general_object_get_own_property_def)
  have get2: "ecma_op_object_get ext h obj_p n =
                Some (Returns (ecma_make_simple_completion_value ECMA_SIMPLE_VALUE_UNDEFINED, h))"
    using nl gp by (simp add: ecma_op_object_get_def ecma_op_general_object_get_def)
  show ?thesis
    using put_absent [OF ext gp, of ext v put_is_throw] own1 at1
      delete_after_put [OF nl, of ext n v delete_is_throw] own2 get2
    by blast
qed

theorem put_delete_get_undefined_witness:
  "ecma_get_object_extensible example_heap 0
   \<and> ecma_op_object_get_property example_heap 0 ''p'' = Some (Returns None)
   \<and> (\<exists>h1 h2.
           ecma_op_object_put example_ext example_heap 0 ''p'' (ECMA_TYPE_STRING ''v'') True =
             Some (Returns (ecma_make_simple_completion_value ECMA_SIMPLE_VALUE_TRUE, h1))
           \<and> ecma_op_object_get_own_property h1 0 ''p'' = Returns (Some (0, 0))
           \<and> ecma_property_at h1 (0, 0) =
               ECMA_PROPERTY_NAMEDDATA ''p'' (ECMA_TYPE_STRING ''v'') True True True
           \<and> ecma_op_object_delete example_ext h1 0 ''p'' True =
               Returns (ecma_make_simple_completion_value ECMA_SIMPLE_VALUE_TRUE, h2)
           \<and> ecma_op_object_get_own_property h2 0 ''p'' = Returns None
           \<and> ecma_op_object_get example_ext h2 0 ''p'' =
               Some (Returns (ecma_make_simple_completion_value ECMA_SIMPLE_VALUE_UNDEFINED, h2)))"
proof -
  have e: "ecma_get_object_extensible example_heap 0"
    by (simp add: example_heap_def example_object_def helper_defs)
  show ?thesis
    using e example_heap_get_property [of "''p''"]
      put_delete_get_undefined [OF e example_heap_get_property, of example_ext "''p''"
        "ECMA_TYPE_STRING ''v''" True True]
    by simp
qed

subsection \<open>[[DefineOwnProperty]]: a descriptor of the other kind\<close>

text \<open>
  Whenever the descriptor is of the other kind than a configurable own property, step 9
  replaces the node, and step 12 then fails an assertion: the descriptor defines a field
  of its own kind, and the assertion on that field tests the kind of the node that
  step 1 found.
\<close>

lemma define_own_property_kind_switch_aborts:
  assumes own: "ecma_op_object_get_own_property h obj_p n = Returns (Some current_p)"
    and conf: "ecma_is_property_configurable (ecma_property_at h current_p)"
    and ng: "\<not> is_property_desc_generic_descriptor desc"
    and sw: "is_property_desc_data_descriptor desc
               \<noteq> property_is_named_data (ecma_property_at h current_p)"
  shows "ecma_op_general_object_define_own_property ext h obj_p n desc is_throw =
           Fatal ERR_FAILED_INTERNAL_ASSERTION"
proof -
  have nl: "\<not> ecma_is_lexical_environment h obj_p"
    using own by (auto simp: ecma_op_object_get_own_property_def
        ecma_op_general_object_get_own_property_def split: if_splits)
  show ?thesis
  proof (cases "ecma_property_at h current_p")
    case (ECMA_PROPERTY_NAMEDDATA nm v w e c)
    then show ?thesis
      using own conf ng sw nl
      by (auto simp: ecma_op_general_object_define_own_property_def
          define_own_property_steps_5_11_def define_own_property_step_12_def
          is_every_field_in_desc_also_occurs_in_current_desc_with_same_value_def
          is_property_desc_generic_descriptor_def is_property_desc_data_descriptor_def
          is_property_desc_accessor_descriptor_def
          ecma_create_named_accessor_property_def ecma_create_named_data_property_def Let_def)
  next
    case (ECMA_PROPERTY_NAMEDACCESSOR nm g s e c)
    then show ?thesis
      using own conf ng sw nl
      by (auto simp: ecma_op_general_object_define_own_property_def
          define_own_property_steps_5_11_def define_own_property_step_12_def
          is_every_field_in_desc_also_occurs_in_current_desc_with_same_value_def
          is_property_desc_generic_descriptor_def is_property_desc_data_descriptor_def
          is_property_desc_accessor_descriptor_def
          ecma_create_named_accessor_property_def ecma_create_named_data_property_def Let_def)
  next
    case (ECMA_PROPERTY_INTERNAL i v)
    then show ?thesis using conf by simp
  qed
qed

lemma example_data_heap_own:
  "ecma_op_object_get_own_property example_data_heap 0 ''p'' = Returns (Some (0, 0))"
  by (simp add: ecma_op_object_get_own_property_def ecma_op_general_object_get_own_property_def
      example_data_heap_def example_object_def helper_defs)

lemma example_data_heap_at:
  "ecma_property_at example_data_heap (0, 0) =
     ECMA_PROPERTY_NAMEDDATA ''p'' (ECMA_TYPE_SIMPLE ECMA_SIMPLE_VALUE_NULL) True True True"
  by (simp add: example_data_heap_def example_object_def helper_defs)

lemma example_data_heap_steps_5_11:
  "define_own_property_steps_5_11 example_ext example_data_heap 0 ''p''
         example_getter_desc False (0, 0) =
       Returns (Inr (ecma_set_property_list example_data_heap 0
                       [ECMA_PROPERTY_NAMEDACCESSOR ''p'' None None True True], (0, 0)))"
  by (simp add: define_own_property_steps_5_11_def example_data_heap_at example_getter_desc_def
      ecma_make_empty_property_descriptor_def
      is_every_field_in_desc_also_occurs_in_current_desc_with_same_value_def
      is_property_desc_generic_descriptor_def is_property_desc_data_descriptor_def
      is_property_desc_accessor_descriptor_def Let_def)
     (simp add: example_data_heap_def example_object_def helper_defs)

text \<open>
  C2, the code at a failing input. The object has the own data property \<open>p\<close>,
  configurable and enumerable; the descriptor defines a getter and nothing else. Step 9
  unlinks the data node and creates the accessor node with the attributes of the old
  node; step 12 then asserts \<open>is_current_accessor_descriptor\<close>, which step 6 computed
  from the data node, and the call ends in \<open>ERR_FAILED_INTERNAL_ASSERTION\<close>. It does
  not return with the accessor property the claim describes.
\<close>

theorem define_own_property_kind_switch_fails_assertion:
  "ecma_op_object_get_own_property example_data_heap 0 ''p'' = Returns (Some (0, 0))
   \<and> ecma_property_at example_data_heap (0, 0) =
       ECMA_PROPERTY_NAMEDDATA ''p'' (ECMA_TYPE_SIMPLE ECMA_SIMPLE_VALUE_NULL) True True True
   \<and> is_property_desc_accessor_descriptor example_getter_desc
   \<and> define_own_property_steps_5_11 example_ext example_data_heap 0 ''p''
         example_getter_desc False (0, 0) =
       Returns (Inr (ecma_set_property_list example_data_heap 0
                       [ECMA_PROPERTY_NAMEDACCESSOR ''p'' None None True True], (0, 0)))
   \<and> ecma_op_general_object_define_own_property example_ext example_data_heap 0 ''p''
         example_getter_desc False = Fatal ERR_FAILED_INTERNAL_ASSERTION
   \<and> ecma_op_general_object_define_own_property example_ext example_data_heap 0 ''p''
         example_getter_desc True = Fatal ERR_FAILED_INTERNAL_ASSERTION"
proof -
  have sw: "ecma_op_general_object_define_own_property example_ext example_data_heap 0 ''p''
              example_getter_desc is_throw = Fatal ERR_FAILED_INTERNAL_ASSERTION" for is_throw
    by (rule define_own_property_kind_switch_aborts [OF example_data_heap_own])
       (simp_all add: example_data_heap_at example_getter_desc_def
          ecma_make_empty_property_descriptor_def is_property_desc_generic_descriptor_def
          is_property_desc_data_descriptor_def)
  have acc: "is_property_desc_accessor_descriptor example_getter_desc"
    by (simp add: is_property_desc_accessor_descriptor_def example_getter_desc_def
        ecma_make_empty_property_descriptor_def)
  show ?thesis
    using sw acc example_data_heap_own example_data_heap_at example_data_heap_steps_5_11
    by simp
qed

subsection \<open>[[DefaultValue]]\<close>

lemma default_value_loop_end: "default_value_loop ext h obj_p hint 3 = default_value_spec_try ext h obj_p []"
  by (subst default_value_loop.simps) simp

lemma default_value_loop_step:
  assumes call: "\<And>h f t a c h'. ecma_op_function_call ext h f t a = Some (Returns (c, h'))
                   \<Longrightarrow> \<not> ecma_is_completion_value_empty c"
    and callable: "\<And>h v. ecma_op_is_callable ext h v \<Longrightarrow> ecma_is_value_object v"
    and i: "i \<le> 2"
    and rest: "\<And>h'. default_value_loop ext h' obj_p hint (Suc i) = default_value_spec_try ext h' obj_p names"
  shows "default_value_loop ext h obj_p hint i =
           default_value_spec_try ext h obj_p
             (ecma_get_magic_string
                (if (i = 1 \<and> hint = ECMA_PREFERRED_TYPE_STRING)
                    \<or> (i = 2 \<and> hint = ECMA_PREFERRED_TYPE_NUMBER)
                 then ECMA_MAGIC_STRING_TO_STRING_UL else ECMA_MAGIC_STRING_VALUE_OF_UL) # names)"
    (is "_ = default_value_spec_try ext h obj_p (?name # names)")
proof (cases "ecma_op_object_get ext h obj_p ?name")
  case None
  then show ?thesis using i by (subst default_value_loop.simps) simp
next
  case (Some r)
  show ?thesis
  proof (cases r)
    case (Fatal e)
    with Some show ?thesis using i by (subst default_value_loop.simps) simp
  next
    case (Returns p)
    obtain c h1 where p: "p = (c, h1)" by (cases p)
    note get = Some [unfolded Returns p]
    show ?thesis
    proof (cases "ecma_is_completion_value_normal c")
      case False
      with get show ?thesis using i by (subst default_value_loop.simps) simp
    next
      case normal: True
      show ?thesis
      proof (cases "ecma_op_is_callable ext h1 (completion_value c)")
        case False
        with get normal show ?thesis using i
          by (subst default_value_loop.simps)
             (auto simp: rest completion_defs value_defs split: ecma_value_t.splits)
      next
        case True
        from callable [OF True] obtain f where f: "completion_value c = ECMA_TYPE_OBJECT f"
          by (cases "completion_value c") simp_all
        show ?thesis
        proof (cases "ecma_op_function_call ext h1 f (ECMA_TYPE_OBJECT obj_p) []")
          case None
          with get normal True f show ?thesis using i
            by (subst default_value_loop.simps) simp
        next
          case (Some r2)
          show ?thesis
          proof (cases r2)
            case (Fatal e)
            with Some get normal True f show ?thesis using i
              by (subst default_value_loop.simps) simp
          next
            case (Returns p2)
            obtain c2 h2 where p2: "p2 = (c2, h2)" by (cases p2)
            note cl = Some [unfolded Returns p2]
            from call [OF cl] have ne: "\<not> ecma_is_completion_value_empty c2" .
            with cl get normal True f show ?thesis using i
              by (subst default_value_loop.simps) (simp add: rest)
          qed
        qed
      qed
    qed
  qed
qed

text \<open>
  C5. For every object that is not a lexical environment,
  \<open>ecma_op_general_object_default_value\<close> is the function described in the words of
  the specification, \<open>default_value_spec\<close>: the order of the two methods by the hint,
  the skipping of a method that is absent or not callable, the return of the first call
  whose result is not an object, the TypeError at the end, and the default of the hint by
  the class tag. The collaborators are held to two facts: a call that returns gives a
  completion other than the empty one (the empty value is never a result of a call), and
  only object values are callable. With no hint the object has its class property.
\<close>

theorem default_value_refines_spec:
  assumes call: "\<And>h f t a c h'. ecma_op_function_call ext h f t a = Some (Returns (c, h'))
                   \<Longrightarrow> \<not> ecma_is_completion_value_empty c"
    and callable: "\<And>h v. ecma_op_is_callable ext h v \<Longrightarrow> ecma_is_value_object v"
    and nl: "\<not> ecma_is_lexical_environment h obj_p"
    and cls: "hint = ECMA_PREFERRED_TYPE_NO
                \<Longrightarrow> ecma_find_internal_property h obj_p ECMA_INTERNAL_PROPERTY_CLASS \<noteq> None"
  shows "ecma_op_general_object_default_value ext h obj_p hint = default_value_spec ext h obj_p hint"
proof -
  have l2: "default_value_loop ext h' obj_p hint' 2 =
          default_value_spec_try ext h' obj_p
            [ecma_get_magic_string
               (if hint' = ECMA_PREFERRED_TYPE_NUMBER
                then ECMA_MAGIC_STRING_TO_STRING_UL else ECMA_MAGIC_STRING_VALUE_OF_UL)]" for h' hint'
    using default_value_loop_step [OF call callable, where i = 2 and obj_p = obj_p and hint = hint'
                       and names = "[]" and h = h'] default_value_loop_end [of ext _ obj_p hint']
    by (simp add: numeral_3_eq_3)
  have l1: "default_value_loop ext h' obj_p hint' (Suc 0) =
          default_value_spec_try ext h' obj_p
            [ecma_get_magic_string
               (if hint' = ECMA_PREFERRED_TYPE_STRING
                then ECMA_MAGIC_STRING_TO_STRING_UL else ECMA_MAGIC_STRING_VALUE_OF_UL),
             ecma_get_magic_string
               (if hint' = ECMA_PREFERRED_TYPE_NUMBER
                then ECMA_MAGIC_STRING_TO_STRING_UL else ECMA_MAGIC_STRING_VALUE_OF_UL)]" for h' hint'
    using default_value_loop_step [OF call callable, where i = "Suc 0" and obj_p = obj_p and hint = hint'
                       and h = h'] l2 [of _ hint']
    by (simp add: numeral_2_eq_2)
  show ?thesis
  proof (cases "hint = ECMA_PREFERRED_TYPE_NO")
    case True
    from cls [OF True] obtain class_prop_p
      where c: "ecma_find_internal_property h obj_p ECMA_INTERNAL_PROPERTY_CLASS = Some class_prop_p"
      by auto
    show ?thesis
      using nl c True
      by (simp del: default_value_spec_try.simps
            add: ecma_op_general_object_default_value_def default_value_spec_def
            default_value_spec_hint_def default_value_spec_order_def l1
            ecma_get_internal_property_def)
  next
    case False
    then show ?thesis
      using nl
      by (cases hint)
         (simp_all del: default_value_spec_try.simps
            add: ecma_op_general_object_default_value_def default_value_spec_def
            default_value_spec_hint_def default_value_spec_order_def l1)
  qed
qed

lemma example_method_heap_get: "ecma_op_object_get example_method_ext example_method_heap 0 ''toString'' =
   Some (Returns (ecma_make_normal_completion_value (ECMA_TYPE_OBJECT 7), example_method_heap))"
  unfolding ecma_op_object_get_def ecma_op_general_object_get_def
  by (subst get_property_unfold)
     (simp add: example_method_heap_def example_object_def helper_defs
       ecma_op_object_get_own_property_def ecma_op_general_object_get_own_property_def)

lemma example_method_heap_hint: "default_value_spec_hint example_method_heap 0 ECMA_PREFERRED_TYPE_NO =
    ECMA_PREFERRED_TYPE_STRING"
  by (simp add: default_value_spec_hint_def example_method_heap_def example_object_def helper_defs
        ecma_find_internal_property_def)

theorem default_value_refines_spec_witness:
  "ecma_op_general_object_default_value example_method_ext example_method_heap 0
     ECMA_PREFERRED_TYPE_NO =
   Some (Returns (ecma_make_normal_completion_value (ECMA_TYPE_STRING ''date''), example_method_heap))"
proof -
  have 1: "ecma_op_function_call example_method_ext h f t a = Some (Returns (c, h'))
            \<Longrightarrow> \<not> ecma_is_completion_value_empty c" for h f t a c h'
    by (auto simp: example_method_ext_def example_ext_def completion_defs value_defs)
  have 2: "ecma_op_is_callable example_method_ext h v \<Longrightarrow> ecma_is_value_object v" for h v
    by (auto simp: example_method_ext_def example_ext_def)
  have 3: "\<not> ecma_is_lexical_environment example_method_heap 0"
    by (simp add: example_method_heap_def example_object_def helper_defs)
  have 4: "ecma_find_internal_property example_method_heap 0 ECMA_INTERNAL_PROPERTY_CLASS \<noteq> None"
    by (simp add: example_method_heap_def example_object_def helper_defs
        ecma_find_internal_property_def)
  have 5: "ecma_op_is_callable example_method_ext h (ECMA_TYPE_OBJECT 7)" for h
    by (simp add: example_method_ext_def example_ext_def)
  have 6: "ecma_op_function_call example_method_ext h f t a =
             Some (Returns (ecma_make_normal_completion_value (ECMA_TYPE_STRING ''date''), h))" for h f t a
    by (simp add: example_method_ext_def example_ext_def)
  have "default_value_spec example_method_ext example_method_heap 0 ECMA_PREFERRED_TYPE_NO =
     Some (Returns (ecma_make_normal_completion_value (ECMA_TYPE_STRING ''date''), example_method_heap))"
    by (simp add: default_value_spec_def default_value_spec_order_def example_method_heap_hint example_method_heap_get 5 6
        completion_defs)
  with default_value_refines_spec [where hint = ECMA_PREFERRED_TYPE_NO, OF 1 2 3] 4 show ?thesis by simp
qed

subsection \<open>Relational opcodes\<close>

lemmas interp_defs = ECMA_TRY_CATCH_def with_frame_def then_pos_increment_def
   get_variable_value_def set_variable_value_def

text \<open>
  C4. For all operand values \<open>left_value\<close> and \<open>right_value\<close> that the two operands
  evaluate to: \<open>opfunc_less_than\<close> stores the result of the comparison called with
  (left, right, leftFirst = true), false when that result is undefined and else the
  boolean; \<open>opfunc_greater_than\<close> does the same with the comparison called with (right,
  left, leftFirst = false); \<open>opfunc_less_or_equal_than\<close> calls it with (right, left,
  leftFirst = false) and \<open>opfunc_greater_or_equal_than\<close> with (left, right, leftFirst =
  true), and both store false when the result is undefined or true, and true when it is
  false. Each handler then advances the position.
\<close>

theorem relational_opcodes:
  assumes l: "get_variable_value iext int_data h left_var_idx False =
                Some (Returns (ecma_make_normal_completion_value left_value, h1))"
    and r: "get_variable_value iext int_data h1 right_var_idx False =
                Some (Returns (ecma_make_normal_completion_value right_value, h2))"
    and lr: "ecma_op_abstract_relational_compare iext h2 left_value right_value True =
                Some (Returns (ecma_make_normal_completion_value v_lr, h_lr))"
    and rl: "ecma_op_abstract_relational_compare iext h2 right_value left_value False =
                Some (Returns (ecma_make_normal_completion_value v_rl, h_rl))"
    and blr: "ecma_is_value_undefined v_lr \<or> ecma_is_value_boolean v_lr"
    and brl: "ecma_is_value_undefined v_rl \<or> ecma_is_value_boolean v_rl"
  shows "opfunc_less_than iext dst_var_idx left_var_idx right_var_idx int_data h =
           then_pos_increment
             (set_variable_value iext int_data h_lr (pos int_data) dst_var_idx (relational_result v_lr))
         \<and> opfunc_greater_than iext dst_var_idx left_var_idx right_var_idx int_data h =
           then_pos_increment
             (set_variable_value iext int_data h_rl (pos int_data) dst_var_idx (relational_result v_rl))
         \<and> opfunc_less_or_equal_than iext dst_var_idx left_var_idx right_var_idx int_data h =
           then_pos_increment
             (set_variable_value iext int_data h_rl (pos int_data) dst_var_idx
                (negated_relational_result v_rl))
         \<and> opfunc_greater_or_equal_than iext dst_var_idx left_var_idx right_var_idx int_data h =
           then_pos_increment
             (set_variable_value iext int_data h_lr (pos int_data) dst_var_idx
                (negated_relational_result v_lr))"
proof -
  have a: "opfunc_less_than iext dst_var_idx left_var_idx right_var_idx int_data h =
           then_pos_increment
             (set_variable_value iext int_data h_lr (pos int_data) dst_var_idx (relational_result v_lr))"
    using blr
    by (auto simp: opfunc_less_than_def l r lr ECMA_TRY_CATCH_def with_frame_def
        completion_defs value_defs relational_result_def)
  have b: "opfunc_greater_than iext dst_var_idx left_var_idx right_var_idx int_data h =
           then_pos_increment
             (set_variable_value iext int_data h_rl (pos int_data) dst_var_idx (relational_result v_rl))"
    using brl
    by (auto simp: opfunc_greater_than_def l r rl ECMA_TRY_CATCH_def with_frame_def
        completion_defs value_defs relational_result_def)
  have c: "opfunc_less_or_equal_than iext dst_var_idx left_var_idx right_var_idx int_data h =
           then_pos_increment
             (set_variable_value iext int_data h_rl (pos int_data) dst_var_idx
                (negated_relational_result v_rl))"
    using brl
    by (auto simp: opfunc_less_or_equal_than_def l r rl ECMA_TRY_CATCH_def with_frame_def
        completion_defs value_defs negated_relational_result_def)
  have d: "opfunc_greater_or_equal_than iext dst_var_idx left_var_idx right_var_idx int_data h =
           then_pos_increment
             (set_variable_value iext int_data h_lr (pos int_data) dst_var_idx
                (negated_relational_result v_lr))"
    using blr
    by (auto simp: opfunc_greater_or_equal_than_def l r lr ECMA_TRY_CATCH_def with_frame_def
        completion_defs value_defs negated_relational_result_def)
  from a b c d show ?thesis by simp
qed


theorem relational_opcodes_witness:
  "opfunc_less_than example_iext 128 129 130 example_frame example_heap =
     Some (Returns (ecma_make_empty_completion_value,
             example_frame\<lparr>regs := [ECMA_TYPE_SIMPLE ECMA_SIMPLE_VALUE_TRUE,
                                     ECMA_TYPE_STRING ''a'', ECMA_TYPE_STRING ''b''],
                           pos := 2\<rparr>, example_heap))
   \<and> opfunc_greater_than example_iext 128 129 130 example_frame example_heap =
     Some (Returns (ecma_make_empty_completion_value,
             example_frame\<lparr>regs := [ECMA_TYPE_SIMPLE ECMA_SIMPLE_VALUE_FALSE,
                                     ECMA_TYPE_STRING ''a'', ECMA_TYPE_STRING ''b''],
                           pos := 2\<rparr>, example_heap))
   \<and> opfunc_less_or_equal_than example_iext 128 129 130 example_frame example_heap =
     Some (Returns (ecma_make_empty_completion_value,
             example_frame\<lparr>regs := [ECMA_TYPE_SIMPLE ECMA_SIMPLE_VALUE_FALSE,
                                     ECMA_TYPE_STRING ''a'', ECMA_TYPE_STRING ''b''],
                           pos := 2\<rparr>, example_heap))
   \<and> opfunc_greater_or_equal_than example_iext 128 129 130 example_frame example_heap =
     Some (Returns (ecma_make_empty_completion_value,
             example_frame\<lparr>regs := [ECMA_TYPE_SIMPLE ECMA_SIMPLE_VALUE_FALSE,
                                     ECMA_TYPE_STRING ''a'', ECMA_TYPE_STRING ''b''],
                           pos := 2\<rparr>, example_heap))"
proof -
  have l: "get_variable_value example_iext example_frame example_heap 129 False =
             Some (Returns (ecma_make_normal_completion_value (ECMA_TYPE_STRING ''a''), example_heap))"
    by (simp add: get_variable_value_def is_reg_variable_def example_frame_def)
  have r: "get_variable_value example_iext example_frame example_heap 130 False =
             Some (Returns (ecma_make_normal_completion_value (ECMA_TYPE_STRING ''b''), example_heap))"
    by (simp add: get_variable_value_def is_reg_variable_def example_frame_def)
  have lr: "ecma_op_abstract_relational_compare example_iext example_heap
              (ECMA_TYPE_STRING ''a'') (ECMA_TYPE_STRING ''b'') True =
            Some (Returns (ecma_make_normal_completion_value
                             (ECMA_TYPE_SIMPLE ECMA_SIMPLE_VALUE_TRUE), example_heap))"
    by (simp add: example_iext_def completion_defs)
  have rl: "ecma_op_abstract_relational_compare example_iext example_heap
              (ECMA_TYPE_STRING ''b'') (ECMA_TYPE_STRING ''a'') False =
            Some (Returns (ecma_make_normal_completion_value
                             (ECMA_TYPE_SIMPLE ECMA_SIMPLE_VALUE_UNDEFINED), example_heap))"
    by (simp add: example_iext_def completion_defs)
  have blr: "ecma_is_value_undefined (ECMA_TYPE_SIMPLE ECMA_SIMPLE_VALUE_TRUE)
             \<or> ecma_is_value_boolean (ECMA_TYPE_SIMPLE ECMA_SIMPLE_VALUE_TRUE)"
    by (simp add: value_defs)
  have brl: "ecma_is_value_undefined (ECMA_TYPE_SIMPLE ECMA_SIMPLE_VALUE_UNDEFINED)
             \<or> ecma_is_value_boolean (ECMA_TYPE_SIMPLE ECMA_SIMPLE_VALUE_UNDEFINED)"
    by (simp add: value_defs)
  have st: "then_pos_increment
              (set_variable_value example_iext example_frame example_heap (pos example_frame) 128 v) =
            Some (Returns (ecma_make_empty_completion_value,
              example_frame\<lparr>regs := [v, ECMA_TYPE_STRING ''a'', ECMA_TYPE_STRING ''b''],
                            pos := 2\<rparr>, example_heap))" for v
    by (simp add: then_pos_increment_def set_variable_value_def is_reg_variable_def
        example_frame_def)
  show ?thesis
    using relational_opcodes [OF l r lr rl blr brl, of 128]
    by (simp add: st relational_result_def negated_relational_result_def value_defs)
qed

subsection \<open>typeof of an unresolvable identifier\<close>

text \<open>
  C10. For a \<open>typeof\<close> opcode whose operand is not a register and names an identifier
  for which the resolution of the reference base finds no environment,
  \<open>evaluate_arg_for_typeof\<close> gives undefined, and \<open>opfunc_typeof\<close> writes the string
  \<open>undefined\<close> into the destination register and returns the empty normal completion,
  in strict and in non-strict frames alike: no throw completion, so no ReferenceError.
\<close>

theorem typeof_unresolvable_identifier:
  assumes dst: "is_reg_variable int_data dst_var_idx"
    and nonreg: "\<not> is_reg_variable int_data obj_var_idx"
    and lit: "deserialize_lit_id_by_uid iext obj_var_idx (pos int_data) \<noteq> INVALID_LITERAL iext"
    and unres: "ecma_op_resolve_reference_base iext h (lex_env_p int_data)
                  (ecma_new_ecma_string_from_lit_index iext
                     (deserialize_lit_id_by_uid iext obj_var_idx (pos int_data))) = None"
  shows "evaluate_arg_for_typeof iext int_data h obj_var_idx =
           Some (Returns (ecma_make_simple_completion_value ECMA_SIMPLE_VALUE_UNDEFINED, h))
         \<and> opfunc_typeof ext iext dst_var_idx obj_var_idx int_data h =
           Some (Returns (ecma_make_empty_completion_value,
                   int_data\<lparr>regs := (regs int_data)
                               [unat (dst_var_idx - min_reg_num int_data) :=
                                  ECMA_TYPE_STRING ''undefined''],
                             pos := pos int_data + 1\<rparr>, h))
         \<and> ecma_is_completion_value_normal ecma_make_empty_completion_value
         \<and> \<not> ecma_is_completion_value_throw ecma_make_empty_completion_value"
proof -
  have ev: "evaluate_arg_for_typeof iext int_data h obj_var_idx =
           Some (Returns (ecma_make_simple_completion_value ECMA_SIMPLE_VALUE_UNDEFINED, h))"
    using nonreg lit unres by (simp add: evaluate_arg_for_typeof_def Let_def)
  show ?thesis
    using dst
    by (simp add: ev opfunc_typeof_def interp_defs typeof_type_str_def completion_defs value_defs)
qed


theorem typeof_unresolvable_identifier_witness:
  "is_reg_variable example_frame 128
   \<and> \<not> is_reg_variable example_frame 5
   \<and> deserialize_lit_id_by_uid example_iext 5 (pos example_frame) \<noteq> INVALID_LITERAL example_iext
   \<and> ecma_op_resolve_reference_base example_iext example_heap (lex_env_p example_frame) ''x'' = None
   \<and> opfunc_typeof example_ext example_iext 128 5 example_frame example_heap =
       Some (Returns (ecma_make_empty_completion_value,
               example_frame\<lparr>regs := [ECMA_TYPE_STRING ''undefined'',
                                       ECMA_TYPE_STRING ''a'', ECMA_TYPE_STRING ''b''],
                             pos := 2\<rparr>, example_heap))"
proof -
  have 1: "is_reg_variable example_frame 128"
    by (simp add: is_reg_variable_def example_frame_def)
  have 2: "\<not> is_reg_variable example_frame 5"
    by (simp add: is_reg_variable_def example_frame_def)
  have 3: "deserialize_lit_id_by_uid example_iext 5 (pos example_frame)
             \<noteq> INVALID_LITERAL example_iext"
    by (simp add: example_iext_def)
  have 4: "ecma_op_resolve_reference_base example_iext example_heap (lex_env_p example_frame)
             (ecma_new_ecma_string_from_lit_index example_iext
                (deserialize_lit_id_by_uid example_iext 5 (pos example_frame))) = None"
    by (simp add: example_iext_def)
  show ?thesis
    using 1 2 3 typeof_unresolvable_identifier [OF 1 2 3 4, of example_ext]
    by (simp add: example_iext_def example_frame_def)
qed

subsection \<open>The completions the handlers write\<close>

lemma normal_completion_is_emptyI:
  assumes "\<And>c s. r = Some (Returns (c, s)) \<Longrightarrow> ecma_is_completion_value_normal c
             \<Longrightarrow> ecma_is_completion_value_empty c"
  shows "normal_completion_is_empty r"
  using assms
  by (auto simp: normal_completion_is_empty_def split: option.splits outcome.splits)

lemma normal_completion_is_emptyD:
  assumes "normal_completion_is_empty r" and "r = Some (Returns (c, s))"
      and "ecma_is_completion_value_normal c"
  shows "ecma_is_completion_value_empty c"
  using assms by (simp add: normal_completion_is_empty_def)


























subsection \<open>The interpreter loop\<close>

text \<open>The definition of \<open>run_int_loop\<close>, by cases of what the handler gives.\<close>

lemma run_int_loop_unfold:
  "run_int_loop ext iext program int_data h =
     (case opfuncs ext iext program (run_int_loop ext iext program) (program (pos int_data))
             int_data h of
        None \<Rightarrow> None
      | Some (Fatal e) \<Rightarrow> Some (Fatal e)
      | Some (Returns (completion, int_data', h')) \<Rightarrow>
          if \<not> (\<not> ecma_is_completion_value_normal completion
                 \<or> ecma_is_completion_value_empty completion) then
            Some (Fatal ERR_FAILED_INTERNAL_ASSERTION)
          else if ecma_is_completion_value_normal completion then
            run_int_loop ext iext program int_data' h'
          else if ecma_is_completion_value_meta completion then
            Some (Returns (ecma_make_empty_completion_value, int_data', h'))
          else Some (Returns (completion, int_data', h')))"
  by (subst run_int_loop.simps)
     (simp split: option.splits outcome.splits prod.splits)


lemma run_int_loop_result_kinds_aux:
  assumes "run_int_loop ext iext program int_data h = Some y"
  shows "\<forall>c int_data_end h_end. y = Returns (c, int_data_end, h_end) \<longrightarrow>
           (ecma_is_completion_value_empty c
            \<or> (\<not> ecma_is_completion_value_normal c \<and> \<not> ecma_is_completion_value_meta c))"
proof (rule run_int_loop.raw_induct [OF _ assms])
  fix loop :: "ecma_ext \<Rightarrow> interp_ext \<Rightarrow> program_t \<Rightarrow> int_data_t \<Rightarrow> ecma_heap
               \<Rightarrow> (ecma_completion_value_t \<times> int_data_t \<times> ecma_heap) outcome option"
  fix ext iext program int_data h y
  assume IH: "\<And>ext iext program int_data h y. loop ext iext program int_data h = Some y \<Longrightarrow>
          \<forall>c int_data_end h_end. y = Returns (c, int_data_end, h_end) \<longrightarrow>
            (ecma_is_completion_value_empty c
             \<or> (\<not> ecma_is_completion_value_normal c \<and> \<not> ecma_is_completion_value_meta c))"
  assume body: "Option.bind
       (opfuncs ext iext program (loop ext iext program) (program (pos int_data)) int_data h)
       (\<lambda>handler_result.
          case handler_result of
            Fatal e \<Rightarrow> Some (Fatal e)
          | Returns (completion, int_data', h') \<Rightarrow>
              if \<not> (\<not> ecma_is_completion_value_normal completion
                     \<or> ecma_is_completion_value_empty completion) then
                Some (Fatal ERR_FAILED_INTERNAL_ASSERTION)
              else if ecma_is_completion_value_normal completion then
                loop ext iext program int_data' h'
              else if ecma_is_completion_value_meta completion then
                Some (Returns (ecma_make_empty_completion_value, int_data', h'))
              else Some (Returns (completion, int_data', h'))) = Some y"
  show "\<forall>c int_data_end h_end. y = Returns (c, int_data_end, h_end) \<longrightarrow>
            (ecma_is_completion_value_empty c
             \<or> (\<not> ecma_is_completion_value_normal c \<and> \<not> ecma_is_completion_value_meta c))"
  proof (cases "opfuncs ext iext program (loop ext iext program) (program (pos int_data))
                  int_data h")
    case None
    with body show ?thesis by simp
  next
    case (Some r)
    show ?thesis
    proof (cases r)
      case (Fatal e)
      with Some body show ?thesis by auto
    next
      case (Returns t)
      obtain completion int_data' h' where t: "t = (completion, int_data', h')"
        by (cases t) auto
      show ?thesis
      proof (cases "ecma_is_completion_value_normal completion")
        case True
        with Some Returns t body have "loop ext iext program int_data' h' = Some y \<or> y = Fatal ERR_FAILED_INTERNAL_ASSERTION"
          by (auto split: if_splits)
        then show ?thesis using IH by blast
      next
        case False
        with Some Returns t body show ?thesis
          by (auto simp: completion_defs value_defs split: if_splits)
      qed
    qed
  qed
qed

lemma run_int_loop_result_kinds:
  assumes "run_int_loop ext iext program int_data h = Some (Returns (c, int_data_end, h_end))"
  shows "ecma_is_completion_value_empty c
         \<or> (\<not> ecma_is_completion_value_normal c \<and> \<not> ecma_is_completion_value_meta c)"
  using run_int_loop_result_kinds_aux [OF assms] by simp


lemma completion_kind_cases:
  "ecma_is_completion_value_normal c \<or> ecma_is_completion_value_throw c
   \<or> ecma_is_completion_value_return c \<or> ecma_is_completion_value_exit c
   \<or> ecma_is_completion_value_meta c"
  by (cases c; cases "completion_type c") (simp_all add: completion_defs)

lemma run_int_from_pos_result:
  assumes "program start_pos = op_reg_var_decl min_reg max_reg" and "min_reg \<le> max_reg"
  shows "run_int_from_pos ext iext program h start_pos this_binding_value lex_env is_strict_mode
           is_eval =
         (case run_int_loop ext iext program
                 \<lparr>pos = start_pos + 1, this_binding = this_binding_value, lex_env_p = lex_env,
                  is_strict = is_strict_mode, is_eval_code = is_eval,
                  min_reg_num = min_reg, max_reg_num = max_reg,
                  regs = replicate (unat max_reg - unat min_reg + 1)
                           (ECMA_TYPE_SIMPLE ECMA_SIMPLE_VALUE_UNDEFINED)\<rparr>
                 h of
            None \<Rightarrow> None
          | Some (Fatal e) \<Rightarrow> Some (Fatal e)
          | Some (Returns (completion, int_data', h')) \<Rightarrow> Some (Returns (completion, h')))"
proof -
  let ?loop = "run_int_loop ext iext program
                 \<lparr>pos = start_pos + 1, this_binding = this_binding_value, lex_env_p = lex_env,
                  is_strict = is_strict_mode, is_eval_code = is_eval,
                  min_reg_num = min_reg, max_reg_num = max_reg,
                  regs = replicate (unat max_reg - unat min_reg + 1)
                           (ECMA_TYPE_SIMPLE ECMA_SIMPLE_VALUE_UNDEFINED)\<rparr>
                 h"
  show ?thesis
  proof (cases ?loop)
    case None
    with assms show ?thesis by (simp add: run_int_from_pos_def)
  next
    case (Some r)
    show ?thesis
    proof (cases r)
      case (Fatal e)
      with Some assms show ?thesis by (simp add: run_int_from_pos_def)
    next
      case (Returns t)
      obtain c i hh where t: "t = (c, i, hh)" by (cases t) auto
      from Some Returns t have "?loop = Some (Returns (c, i, hh))" by simp
      from run_int_loop_result_kinds [OF this] completion_kind_cases [of c]
      have "ecma_is_completion_value_normal c \<or> ecma_is_completion_value_throw c
            \<or> ecma_is_completion_value_return c \<or> ecma_is_completion_value_exit c"
        by (auto simp: ecma_is_completion_value_empty_def)
      with Some Returns t assms show ?thesis by (simp add: run_int_from_pos_def)
    qed
  qed
qed




subsection \<open>The result of a run\<close>

lemma run_int_loop_exitval:
  assumes "program (pos int_data) = op_exitval status_code"
      and "status_code = 0 \<or> status_code = 1"
  shows "run_int_loop ext iext program int_data h
         = Some (Returns (ecma_make_exit_completion_value (status_code = 0), int_data, h))"
  using assms
  by (subst run_int_loop_unfold)
     (auto simp: opfunc_exitval_def completion_defs ecma_is_completion_value_meta_def)

text \<open>
  C6. \<open>run_int\<close> returns true if and only if the interpretation of the installed program
  ends with the exit completion that carries true, and \<open>opfunc_exitval\<close> writes that
  completion exactly for the status code 0 (it writes the exit completion that carries
  false for the status code 1, and asserts that the status code is one of the two). With
  the exit completion that carries false \<open>run_int\<close> returns false. With a throw completion
  \<open>run_int\<close> does not return: it ends in \<open>jerry_exit (ERR_UNHANDLED_EXCEPTION)\<close>. And
  \<open>run_int\<close> returns a boolean only after an exit completion.
\<close>

theorem run_int_result:
  "(run_int ext iext (Some program) = Some (Returns True)
      \<longleftrightarrow> (\<exists>h. run_int_interpretation ext iext program
                   = Some (Returns (ecma_make_exit_completion_value True, h))))
   \<and> (\<forall>c int_data' h'. opfunc_exitval status_code int_data h = Some (Returns (c, int_data', h'))
         \<longrightarrow> (c = ecma_make_exit_completion_value True \<longleftrightarrow> status_code = 0)
              \<and> (c = ecma_make_exit_completion_value False \<longleftrightarrow> status_code = 1))
   \<and> (status_code = 0 \<or> status_code = 1
       \<longrightarrow> opfunc_exitval status_code int_data h
             = Some (Returns (ecma_make_exit_completion_value (status_code = 0), int_data, h)))
   \<and> (\<not> (status_code = 0 \<or> status_code = 1)
       \<longrightarrow> opfunc_exitval status_code int_data h = Some (Fatal ERR_FAILED_INTERNAL_ASSERTION))
   \<and> ((\<exists>h. run_int_interpretation ext iext program
               = Some (Returns (ecma_make_exit_completion_value False, h)))
       \<longrightarrow> run_int ext iext (Some program) = Some (Returns False))
   \<and> ((\<exists>v h. run_int_interpretation ext iext program
                 = Some (Returns (ecma_make_throw_completion_value v, h)))
       \<longrightarrow> run_int ext iext (Some program) = Some (Fatal ERR_UNHANDLED_EXCEPTION))
   \<and> (\<forall>b. run_int ext iext (Some program) = Some (Returns b)
         \<longrightarrow> (\<exists>v h. run_int_interpretation ext iext program
                       = Some (Returns (Completion ECMA_COMPLETION_TYPE_EXIT v, h))
                     \<and> b = ecma_is_value_true v))"
proof -
  have 1: "run_int ext iext (Some program) = Some (Returns True)
           \<longleftrightarrow> (\<exists>h. run_int_interpretation ext iext program
                        = Some (Returns (ecma_make_exit_completion_value True, h)))"
  proof
    assume "run_int ext iext (Some program) = Some (Returns True)"
    then obtain c h where r: "run_int_interpretation ext iext program = Some (Returns (c, h))"
      and e: "ecma_is_completion_value_exit c" and t: "ecma_is_value_true (completion_value c)"
      by (auto simp: run_int_def split: option.splits outcome.splits if_splits)
    from e t have "c = ecma_make_exit_completion_value True"
      by (cases c) (simp add: completion_defs value_defs)
    with r show "\<exists>h. run_int_interpretation ext iext program
                       = Some (Returns (ecma_make_exit_completion_value True, h))"
      by blast
  next
    assume "\<exists>h. run_int_interpretation ext iext program
                  = Some (Returns (ecma_make_exit_completion_value True, h))"
    then show "run_int ext iext (Some program) = Some (Returns True)"
      by (auto simp: run_int_def completion_defs value_defs)
  qed
  have 2: "\<forall>c int_data' h'. opfunc_exitval status_code int_data h = Some (Returns (c, int_data', h'))
         \<longrightarrow> (c = ecma_make_exit_completion_value True \<longleftrightarrow> status_code = 0)
              \<and> (c = ecma_make_exit_completion_value False \<longleftrightarrow> status_code = 1)"
    by (auto simp: opfunc_exitval_def completion_defs split: if_splits)
  have 3: "status_code = 0 \<or> status_code = 1
       \<longrightarrow> opfunc_exitval status_code int_data h
             = Some (Returns (ecma_make_exit_completion_value (status_code = 0), int_data, h))"
    by (simp add: opfunc_exitval_def)
  have 4: "\<not> (status_code = 0 \<or> status_code = 1)
       \<longrightarrow> opfunc_exitval status_code int_data h = Some (Fatal ERR_FAILED_INTERNAL_ASSERTION)"
    by (simp add: opfunc_exitval_def)
  have 5: "(\<exists>h. run_int_interpretation ext iext program
               = Some (Returns (ecma_make_exit_completion_value False, h)))
       \<longrightarrow> run_int ext iext (Some program) = Some (Returns False)"
    by (auto simp: run_int_def completion_defs value_defs)
  have 6: "(\<exists>v h. run_int_interpretation ext iext program
                 = Some (Returns (ecma_make_throw_completion_value v, h)))
       \<longrightarrow> run_int ext iext (Some program) = Some (Fatal ERR_UNHANDLED_EXCEPTION)"
    by (auto simp: run_int_def completion_defs value_defs)
  have 7: "\<forall>b. run_int ext iext (Some program) = Some (Returns b)
         \<longrightarrow> (\<exists>v h. run_int_interpretation ext iext program
                       = Some (Returns (Completion ECMA_COMPLETION_TYPE_EXIT v, h))
                     \<and> b = ecma_is_value_true v)"
  proof (intro allI impI)
    fix b
    assume "run_int ext iext (Some program) = Some (Returns b)"
    then obtain c h where r: "run_int_interpretation ext iext program = Some (Returns (c, h))"
      and e: "ecma_is_completion_value_exit c" and t: "b = ecma_is_value_true (completion_value c)"
      by (auto simp: run_int_def split: option.splits outcome.splits if_splits)
    from e have "c = Completion ECMA_COMPLETION_TYPE_EXIT (completion_value c)"
      by (cases c) (simp add: completion_defs)
    with r t show "\<exists>v h. run_int_interpretation ext iext program
                       = Some (Returns (Completion ECMA_COMPLETION_TYPE_EXIT v, h))
                     \<and> b = ecma_is_value_true v"
      by metis
  qed
  from 1 2 3 4 5 6 7 show ?thesis by blast
qed

lemma example_exit_program_interpretation:
  assumes "status_code = 0 \<or> status_code = 1"
  shows "run_int_interpretation example_ext example_iext (example_exit_program status_code)
         = Some (Returns (ecma_make_exit_completion_value (status_code = 0), example_heap))"
proof -
  have start: "example_exit_program status_code 0 = op_reg_var_decl 128 130"
    by (simp add: example_exit_program_def)
  have instr: "example_exit_program status_code 1 = op_exitval status_code"
    by (simp add: example_exit_program_def)
  have "run_int_loop example_ext example_iext (example_exit_program status_code)
          \<lparr>pos = 1, this_binding = ECMA_TYPE_OBJECT 0, lex_env_p = 0, is_strict = False,
           is_eval_code = False, min_reg_num = 128, max_reg_num = 130,
           regs = replicate 3 (ECMA_TYPE_SIMPLE ECMA_SIMPLE_VALUE_UNDEFINED)\<rparr>
          example_heap
        = Some (Returns (ecma_make_exit_completion_value (status_code = 0),
                         \<lparr>pos = 1, this_binding = ECMA_TYPE_OBJECT 0, lex_env_p = 0,
                          is_strict = False, is_eval_code = False, min_reg_num = 128,
                          max_reg_num = 130,
                          regs = replicate 3 (ECMA_TYPE_SIMPLE ECMA_SIMPLE_VALUE_UNDEFINED)\<rparr>,
                         example_heap))"
    by (rule run_int_loop_exitval [where program = "example_exit_program status_code", OF _ assms])
       (simp add: instr)
  then have "run_int_from_pos example_ext example_iext (example_exit_program status_code)
          example_heap 0 (ECMA_TYPE_OBJECT 0) 0 False False
        = Some (Returns (ecma_make_exit_completion_value (status_code = 0), example_heap))"
    by (subst run_int_from_pos_result
              [where program = "example_exit_program status_code" and start_pos = 0, OF start])
       simp_all
  then show ?thesis
    by (simp add: run_int_interpretation_def read_opcode_def start
                  ecma_op_create_global_environment_def example_iext_def example_ext_def)
qed

lemma example_throw_program_interpretation:
  "run_int_interpretation example_ext example_iext example_throw_program
   = Some (Returns (ecma_make_throw_completion_value (ECMA_TYPE_SIMPLE ECMA_SIMPLE_VALUE_UNDEFINED),
                    example_heap))"
proof -
  have start: "example_throw_program 0 = op_reg_var_decl 128 130"
    by (simp add: example_throw_program_def)
  have "run_int_from_pos example_ext example_iext example_throw_program example_heap
          0 (ECMA_TYPE_OBJECT 0) 0 False False
        = Some (Returns (ecma_make_throw_completion_value
                           (ECMA_TYPE_SIMPLE ECMA_SIMPLE_VALUE_UNDEFINED), example_heap))"
    by (subst run_int_from_pos_result
              [where program = example_throw_program and start_pos = 0, OF start],
        simp, subst run_int_loop_unfold)
       (simp add: example_throw_program_def opfunc_throw_value_def interp_defs
                  is_reg_variable_def completion_defs ecma_is_completion_value_meta_def)
  then show ?thesis
    by (simp add: run_int_interpretation_def read_opcode_def start
                  ecma_op_create_global_environment_def example_iext_def example_ext_def)
qed

theorem run_int_result_witness:
  "run_int example_ext example_iext (Some (example_exit_program 0)) = Some (Returns True)
   \<and> run_int example_ext example_iext (Some (example_exit_program 1)) = Some (Returns False)
   \<and> run_int example_ext example_iext (Some example_throw_program)
       = Some (Fatal ERR_UNHANDLED_EXCEPTION)"
proof -
  have success: "run_int_interpretation example_ext example_iext (example_exit_program 0)
                 = Some (Returns (ecma_make_exit_completion_value True, example_heap))"
    using example_exit_program_interpretation [of 0] by simp
  have failure: "run_int_interpretation example_ext example_iext (example_exit_program 1)
                 = Some (Returns (ecma_make_exit_completion_value False, example_heap))"
    using example_exit_program_interpretation [of 1] by simp
  have "run_int example_ext example_iext (Some (example_exit_program 0)) = Some (Returns True)"
    using run_int_result [where ext = example_ext and iext = example_iext
                            and program = "example_exit_program 0"]
          success
    by blast
  moreover
  have "run_int example_ext example_iext (Some (example_exit_program 1)) = Some (Returns False)"
    using run_int_result [where ext = example_ext and iext = example_iext
                            and program = "example_exit_program 1"]
          failure
    by blast
  moreover
  have "run_int example_ext example_iext (Some example_throw_program)
        = Some (Fatal ERR_UNHANDLED_EXCEPTION)"
    using run_int_result [where ext = example_ext and iext = example_iext
                            and program = example_throw_program]
          example_throw_program_interpretation
    by blast
  ultimately show ?thesis by simp
qed

end
